theory Spec2Isabelle
  imports Main "HOL-Library.Sublist"
begin

section \<open>Strings, paths and URL helpers\<close>

text \<open>
  JavaScript strings are modelled as \<^typ>\<open>string\<close>. Case mapping is the ASCII one, so
  the model speaks about addresses and keywords written in ASCII. The substring test
  \<^verbatim>\<open>h.includes(n)\<close> is \<^const>\<open>sublist\<close>.
\<close>

definition is_digit :: "char \<Rightarrow> bool" where
  "is_digit c = (c \<in> set ''0123456789'')"

definition is_space :: "char \<Rightarrow> bool" where
  "is_space c = (c \<in> {CHR '' '', CHR 0x09, CHR 0x0A, CHR 0x0B, CHR 0x0C, CHR 0x0D})"

text \<open>\<^verbatim>\<open>s.trim()\<close>\<close>

definition trim :: "string \<Rightarrow> string" where
  "trim s = rev (dropWhile is_space (rev (dropWhile is_space s)))"

text \<open>\<^verbatim>\<open>s.toLowerCase()\<close> on ASCII letters.\<close>

definition lower_char :: "char \<Rightarrow> char" where
  "lower_char c =
     (case map_of (zip ''ABCDEFGHIJKLMNOPQRSTUVWXYZ'' ''abcdefghijklmnopqrstuvwxyz'') c of
        Some l \<Rightarrow> l
      | None \<Rightarrow> c)"

definition toLowerCase :: "string \<Rightarrow> string" where
  "toLowerCase s = map lower_char s"

text \<open>
  \<^verbatim>\<open>const safe = (s) => (s || '').replace(/[<>:"/\\|?*\x00-\x1F]/g, '_').trim();\<close>
\<close>

definition unsafe_char :: "char \<Rightarrow> bool" where
  "unsafe_char c =
     (c \<in> {CHR ''<'', CHR ''>'', CHR '':'', CHR 0x22, CHR ''/'', CHR 0x5C, CHR ''|'',
            CHR ''?'', CHR ''*''}
      \<or> (of_char c :: nat) \<le> 31)"

definition safe :: "string \<Rightarrow> string" where
  "safe s = trim (map (\<lambda>c. if unsafe_char c then CHR ''_'' else c) s)"

text \<open>
  The regular expression \<^verbatim>\<open>/[?&]KEY=(\d+)/\<close> applied with \<^verbatim>\<open>exec\<close>: the
  leftmost position holding \<^verbatim>\<open>?\<close> or \<^verbatim>\<open>&\<close>, then the key, \<^verbatim>\<open>=\<close> and at
  least one digit; the capture group is the longest run of digits there.
  \<^const>\<open>None\<close> is the \<^verbatim>\<open>null\<close> of a failed match.
\<close>

fun queryDigits :: "string \<Rightarrow> string \<Rightarrow> string option" where
  "queryDigits key [] = None"
| "queryDigits key (c # cs) =
     (if (c = CHR ''?'' \<or> c = CHR ''&'')
         \<and> take (length key + 1) cs = key @ ''=''
         \<and> takeWhile is_digit (drop (length key + 1) cs) \<noteq> []
      then Some (takeWhile is_digit (drop (length key + 1) cs))
      else queryDigits key cs)"


text \<open>
  \<^verbatim>\<open>path.join(a, b)\<close> for an already resolved directory \<^verbatim>\<open>a\<close> and a single
  segment \<^verbatim>\<open>b\<close>, and \<^verbatim>\<open>path.basename\<close>.
\<close>

definition path_join :: "string \<Rightarrow> string \<Rightarrow> string" where
  "path_join a b = (if a \<noteq> [] \<and> last a = CHR ''/'' then a @ b else a @ ''/'' @ b)"

definition basename :: "string \<Rightarrow> string" where
  "basename p = rev (takeWhile (\<lambda>c. c \<noteq> CHR ''/'') (rev p))"

text \<open>Decimal rendering of a number, as in \<^verbatim>\<open>el.scrollHeight + 'px'\<close>.\<close>

function show_nat :: "nat \<Rightarrow> string" where
  "show_nat n =
     (if n < 10 then [''0123456789'' ! n] else show_nat (n div 10) @ [''0123456789'' ! (n mod 10)])"
  by pat_completeness auto
termination
  by (relation "measure id") auto

section \<open>Inline styles of the rendered document\<close>

text \<open>
  An inline declaration as the CSS object model keeps it: its value, and whether it
  carries \<^verbatim>\<open>!important\<close>. A property that is not declared is \<^const>\<open>None\<close>.
  Reading \<^verbatim>\<open>el.style.p\<close> gives the value without the priority, and the empty
  string for a property that is not declared. Assigning to \<^verbatim>\<open>el.style.p\<close> removes
  the declaration when the string is empty, and otherwise declares the value without
  priority, whatever the priority was before. The strings the program assigns to the
  height and to the maximal height are a length in pixels, \<^verbatim>\<open>none\<close>, and what it
  has read from the same property; the style parser accepts them all.
\<close>

type_synonym decl = "(string \<times> bool) option"

definition get_prop :: "decl \<Rightarrow> string" where
  "get_prop d = (case d of None \<Rightarrow> [] | Some (v, important) \<Rightarrow> v)"

definition set_prop :: "string \<Rightarrow> decl" where
  "set_prop v = (if v = [] then None else Some (v, False))"

text \<open>
  One element of the document as \<^verbatim>\<open>expandScrollableContainers\<close> and
  \<^verbatim>\<open>restoreScrollableContainers\<close> see it: the inline declarations they read and
  write, whether \<^verbatim>\<open>isScrollable\<close> holds for it when the filter runs, its
  \<^verbatim>\<open>scrollHeight\<close>, and the \<^verbatim>\<open>__pre_expand__\<close> attribute (the four strings of
  the JSON object, which \<^verbatim>\<open>JSON.stringify\<close> and \<^verbatim>\<open>JSON.parse\<close> carry
  unchanged).
\<close>

record node =
  height :: decl
  maxHeight :: decl
  overflowX :: decl
  overflowY :: decl
  scrollable :: bool
  scrollHeight :: nat
  pre_expand :: "(string \<times> string \<times> string \<times> string) option"

text \<open>
  \<^verbatim>\<open>overflow\<close> is the CSS shorthand of \<^verbatim>\<open>overflow-x\<close> and
  \<^verbatim>\<open>overflow-y\<close>, so an inline style holds the two longhands and
  \<^verbatim>\<open>el.style.overflow\<close> is read and written through them. The shorthand reads as
  the empty string unless both longhands are declared with the same priority; a
  CSS-wide keyword can be written in the shorthand only alone, so the shorthand also
  reads as empty when one longhand holds such a keyword and the other one another value.
\<close>

definition css_wide :: "string \<Rightarrow> bool" where
  "css_wide v = (v \<in> set [''initial'', ''inherit'', ''unset'', ''revert'', ''revert-layer''])"

definition overflow_keyword :: "string \<Rightarrow> bool" where
  "overflow_keyword v = (v \<in> set [''visible'', ''hidden'', ''clip'', ''scroll'', ''auto''])"

definition get_overflow :: "node \<Rightarrow> string" where
  "get_overflow n =
     (case (overflowX n, overflowY n) of
        (Some (x, ix), Some (y, iy)) \<Rightarrow>
          (if ix \<noteq> iy then []
           else if x = y then x
           else if css_wide x \<or> css_wide y then []
           else x @ '' '' @ y)
      | _ \<Rightarrow> [])"

text \<open>
  Assigning to \<^verbatim>\<open>el.style.overflow\<close>: the empty string removes both longhands, one
  keyword declares both with it, two keywords declare one each, and the new
  declarations have no priority. The style parser drops an assignment it cannot read
  (an unknown keyword, more than two, or a CSS-wide keyword beside another one), and the
  inline style stays as it was. The program assigns \<^verbatim>\<open>visible\<close> and strings it has
  read from the property, which are in the form the object model writes them: lower
  case, one space between two keywords.
\<close>

definition set_overflow :: "string \<Rightarrow> node \<Rightarrow> node" where
  "set_overflow v n =
     (if v = [] then n\<lparr>overflowX := None, overflowY := None\<rparr>
      else
        let a = takeWhile (\<lambda>c. c \<noteq> CHR '' '') v;
            r = dropWhile (\<lambda>c. c \<noteq> CHR '' '') v
        in if r = []
           then (if overflow_keyword a \<or> css_wide a
                 then n\<lparr>overflowX := Some (a, False), overflowY := Some (a, False)\<rparr>
                 else n)
           else if overflow_keyword a \<and> overflow_keyword (tl r)
           then n\<lparr>overflowX := Some (a, False), overflowY := Some (tl r, False)\<rparr>
           else n)"

text \<open>
  The document: \<^verbatim>\<open>document.documentElement\<close>, \<^verbatim>\<open>document.body\<close>, the
  other elements in document order, and the number of style sheets added by
  \<^verbatim>\<open>page.addStyleTag\<close>.
\<close>

record document =
  root :: node
  body :: node
  others :: "node list"
  styleTags :: nat

text \<open>\<^verbatim>\<open>hideLeftPanel\<close>: one more style sheet, never taken out again.\<close>

definition hideLeftPanel :: "document \<Rightarrow> document" where
  "hideLeftPanel d = d\<lparr>styleTags := styleTags d + 1\<rparr>"

text \<open>The body of the loop of \<^verbatim>\<open>expandScrollableContainers\<close>, for one element.\<close>

definition expand_node :: "node \<Rightarrow> node" where
  "expand_node el =
     (if scrollable el then
        (set_overflow ''visible''
           (el\<lparr>pre_expand := Some (get_prop (height el), get_prop (maxHeight el),
                                   get_prop (overflowY el), get_overflow el),
               height := set_prop (show_nat (scrollHeight el) @ ''px''),
               maxHeight := set_prop ''none''\<rparr>))\<lparr>overflowY := set_prop ''visible''\<rparr>
      else el)"

definition expandScrollableContainers :: "document \<Rightarrow> document" where
  "expandScrollableContainers d =
     d\<lparr>root := expand_node (set_overflow ''visible'' (root d)),
       body := expand_node (set_overflow ''visible'' (body d)),
       others := map expand_node (others d)\<rparr>"

text \<open>The body of the loop of \<^verbatim>\<open>restoreScrollableContainers\<close>, for one element.\<close>

definition restore_node :: "node \<Rightarrow> node" where
  "restore_node el =
     (case pre_expand el of
        None \<Rightarrow> el
      | Some (h, mh, oy, ov) \<Rightarrow>
          (set_overflow ov (el\<lparr>height := set_prop h, maxHeight := set_prop mh,
                               overflowY := set_prop oy\<rparr>))
            \<lparr>pre_expand := None\<rparr>)"

definition restoreScrollableContainers :: "document \<Rightarrow> document" where
  "restoreScrollableContainers d =
     d\<lparr>root := restore_node (root d),
       body := restore_node (body d),
       others := map restore_node (others d)\<rparr>"

section \<open>The browser, the file system and the object store\<close>

text \<open>
  The links of a rendered page that the selectors of the program can reach, in document
  order: anchors with their \<^verbatim>\<open>href\<close> attribute and forms with their
  \<^verbatim>\<open>action\<close> attribute, each with what \<^verbatim>\<open>isVisible()\<close> answers for it.
\<close>

datatype link = Anchor string bool | Form string bool

text \<open>
  The CSS attribute selector \<^verbatim>\<open>[href*="n"]\<close>: a substring test that respects case
  (the program writes the \<^verbatim>\<open>i\<close> flag where it wants to ignore case, and not
  here) and that never matches for the empty string. The keywords of the program
  (\<^verbatim>\<open>confirmation\<close>, \<^verbatim>\<open>invoice\<close> and the path of the send-email page) hold
  no quote and no backslash, so they stand between the double quotes of the selector as
  they are.
\<close>

definition css_contains :: "string \<Rightarrow> string \<Rightarrow> bool" where
  "css_contains n h = (n \<noteq> [] \<and> sublist n h)"

text \<open>
  A loaded page, as far as the program asks: its address, its links (they may change each
  time the Actions button is clicked, so they are given for every number of clicks), the
  Actions button, the document whose inline styles a full-page capture touches, the
  embedded frames and email-like regions, and which captures succeed.
\<close>

record surface =
  url :: string
  links :: "nat \<Rightarrow> link list"
  actionsVisible :: bool
  actionsClickOk :: bool
  initDoc :: document
  pageShotOk :: bool
  pdfOk :: bool
  iframeCount :: nat
  frameBodyShotOk :: bool
  candidateCount :: nat
  candidateShotOk :: bool
  previewIframe :: bool
  previewFrame :: bool
  previewShotOk :: bool

text \<open>
  What the click on a menu item leads to: the click itself fails, or it goes through and
  a pop-up and an in-page navigation each did or did not happen.
\<close>

datatype click_result = ClickThrows | Clicked "surface option" "surface option"

text \<open>
  Everything outside the program: which address loads which page (\<^const>\<open>None\<close>: the
  navigation fails, by an error or by its timeout), what the browser shows after a
  navigation to an address has failed (an error page or a page that has not finished
  loading; \<^const>\<open>None\<close>: the page it showed before), the menu items, URL resolution
  (\<^verbatim>\<open>new URL(href, base)\<close>, which may throw, and the \<^verbatim>\<open>href\<close> property of an
  anchor), the temporary directory, and which archive, upload and removal operations
  succeed.
\<close>

record env =
  site :: "string \<Rightarrow> surface option"
  failedPage :: "string \<Rightarrow> surface option"
  menuItem :: "string \<Rightarrow> string \<Rightarrow> click_result"
  mkURL :: "string \<Rightarrow> string \<Rightarrow> string option"
  anchorHref :: "string \<Rightarrow> string \<Rightarrow> string"
  tmpdir :: string
  zipOk :: "string \<Rightarrow> bool"
  uploadOk :: "string \<Rightarrow> bool"
  unlinkOk :: "string \<Rightarrow> bool"
  rmOk :: "string \<Rightarrow> bool"
  blobUrl :: "string \<Rightarrow> string"

text \<open>
  Inside the job of a registrant, a library call can fail in the model where the
  program guards it with a handler or where its failure is what a property is about:
  navigation, the wait for the preview frame, screenshots, the PDF export,
  \<^verbatim>\<open>new URL\<close>, clicks, archiving, upload, unlinking and removal. The other calls
  there (making the directory of the registrant, adding the style sheet, running a
  script in the page, waiting for a load state) are taken to succeed.
\<close>

text \<open>What a written file holds: which capture, of the page at which address.\<close>

datatype shot = FullPage string | FrameBody string | FirstCandidate string
  | FrameRoot string | PdfExport string

text \<open>A console line: \<^verbatim>\<open>console.log\<close>, \<^verbatim>\<open>console.warn\<close>, \<^verbatim>\<open>console.error\<close>.\<close>

datatype logline = Info string | Warn string | Err string

record pg =
  surf :: surface
  clicks :: nat
  doc :: document

text \<open>
  The state the program works on: the page it drives and the pop-up a menu click may
  have opened, the directories and files on disk, the archives in the temporary
  directory and the blobs in the container (each with the files packed into it), and the
  console.
\<close>

record state =
  mainPage :: pg
  popupPage :: "pg option"
  dirs :: "string list"
  files :: "(string \<times> shot) list"
  tmpFiles :: "(string \<times> string list) list"
  remote :: "(string \<times> string list) list"
  logs :: "logline list"

text \<open>
  An asynchronous function of the program: it runs on the state and either returns a
  value or throws, and the state goes on from where it was in both cases.
\<close>

type_synonym 'a m = "state \<Rightarrow> (string + 'a) \<times> state"

definition ret :: "'a \<Rightarrow> 'a m" where
  "ret x s = (Inr x, s)"

definition throw :: "string \<Rightarrow> 'a m" where
  "throw e s = (Inl e, s)"

definition bnd :: "'a m \<Rightarrow> ('a \<Rightarrow> 'b m) \<Rightarrow> 'b m" where
  "bnd f g s = (case f s of (Inl e, s') \<Rightarrow> (Inl e, s') | (Inr x, s') \<Rightarrow> g x s')"

definition seq :: "'a m \<Rightarrow> 'b m \<Rightarrow> 'b m" where
  "seq f g = bnd f (\<lambda>_. g)"

definition try_catch :: "'a m \<Rightarrow> (string \<Rightarrow> 'a m) \<Rightarrow> 'a m" where
  "try_catch f h s = (case f s of (Inl e, s') \<Rightarrow> h e s' | (Inr x, s') \<Rightarrow> (Inr x, s'))"

definition console :: "logline \<Rightarrow> unit m" where
  "console l s = (Inr (), s\<lparr>logs := logs s @ [l]\<rparr>)"

text \<open>
  \<^verbatim>\<open>page.goto(url, ...)\<close> on the page the program drives. When it throws, the page
  is the one the browser is left with.
\<close>

definition load :: "surface \<Rightarrow> state \<Rightarrow> state" where
  "load sf s = s\<lparr>mainPage := \<lparr>surf = sf, clicks = 0, doc = initDoc sf\<rparr>\<rparr>"

definition stranded :: "env \<Rightarrow> string \<Rightarrow> state \<Rightarrow> state" where
  "stranded e u s = (case failedPage e u of None \<Rightarrow> s | Some sf \<Rightarrow> load sf s)"

definition goto :: "env \<Rightarrow> string \<Rightarrow> unit m" where
  "goto e u s =
     (case site e u of
        None \<Rightarrow> (Inl (''page.goto: '' @ u), stranded e u s)
      | Some sf \<Rightarrow> (Inr (), load sf s))"

text \<open>\<^verbatim>\<open>const target = popup || page;\<close>\<close>

datatype target = MainPage | PopupPage

definition the_pg :: "target \<Rightarrow> state \<Rightarrow> pg" where
  "the_pg t s =
     (case t of
        MainPage \<Rightarrow> mainPage s
      | PopupPage \<Rightarrow> (case popupPage s of Some p \<Rightarrow> p | None \<Rightarrow> mainPage s))"

definition set_doc :: "target \<Rightarrow> document \<Rightarrow> state \<Rightarrow> state" where
  "set_doc t d s =
     (case t of
        MainPage \<Rightarrow> s\<lparr>mainPage := (mainPage s)\<lparr>doc := d\<rparr>\<rparr>
      | PopupPage \<Rightarrow>
          (case popupPage s of
             Some p \<Rightarrow> s\<lparr>popupPage := Some (p\<lparr>doc := d\<rparr>)\<rparr>
           | None \<Rightarrow> s\<lparr>mainPage := (mainPage s)\<lparr>doc := d\<rparr>\<rparr>))"

text \<open>A screenshot or export written to a path; a file of that name is replaced.\<close>

definition write_file :: "string \<Rightarrow> shot \<Rightarrow> state \<Rightarrow> state" where
  "write_file p c s = s\<lparr>files := filter (\<lambda>f. fst f \<noteq> p) (files s) @ [(p, c)]\<rparr>"

section \<open>Capture strategies\<close>

text \<open>
  \<^verbatim>\<open>captureFullPage(page, fileBase, { pdf })\<close>: hide the side panel, expand the
  scrollable containers, take the screenshot, restore the containers, export the PDF if
  asked (its failure is swallowed), log. A failing screenshot throws before the restore.
\<close>

definition captureFullPage :: "target \<Rightarrow> string \<Rightarrow> bool \<Rightarrow> unit m" where
  "captureFullPage t fileBase pdf s =
     (let p = the_pg t s;
          s1 = set_doc t (expandScrollableContainers (hideLeftPanel (doc p))) s
      in if \<not> pageShotOk (surf p) then (Inl ''page.screenshot'', s1)
         else
           let s2 = write_file (fileBase @ ''.png'') (FullPage (url (surf p))) s1;
               s3 = set_doc t (restoreScrollableContainers (doc (the_pg t s2))) s2;
               s4 = (if pdf \<and> pdfOk (surf p)
                     then write_file (fileBase @ ''.pdf'') (PdfExport (url (surf p))) s3
                     else s3)
           in console (Info (basename fileBase @ ''.png'')) s4)"

text \<open>
  \<^verbatim>\<open>captureConfirmationEmail(page, fileBaseDir, baseName)\<close>, lines 217 to 240: the
  body of the first embedded frame when there is a frame (a failure there is swallowed),
  then the first email-like region when nothing is saved yet, then the whole page under
  another name and with a warning.
\<close>

definition captureConfirmationEmail :: "target \<Rightarrow> string \<Rightarrow> string \<Rightarrow> unit m" where
  "captureConfirmationEmail t fileBaseDir baseName s =
     (let sf = surf (the_pg t s);
          emailPng = path_join fileBaseDir (baseName @ ''__05_Confirmation_email.png'');
          fullPng = path_join fileBaseDir (baseName @ ''__05_Confirmation_full.png'')
      in if iframeCount sf \<noteq> 0 \<and> frameBodyShotOk sf
         then console (Info ''05_Confirmation_email.png'')
                (write_file emailPng (FrameBody (url sf)) s)
         else if candidateCount sf \<noteq> 0
         then (if candidateShotOk sf
               then console (Info ''05_Confirmation_email.png'')
                      (write_file emailPng (FirstCandidate (url sf)) s)
               else (Inl ''locator.screenshot'', s))
         else if pageShotOk sf
         then console (Warn ''Could not isolate email body; saved full page instead'')
                (write_file fullPng (FullPage (url sf)) s)
         else (Inl ''page.screenshot'', s))"

text \<open>\<^verbatim>\<open>outputPath.replace(/.png$/, '__full.png')\<close>\<close>

definition full_name :: "string \<Rightarrow> string" where
  "full_name p =
     (if 4 \<le> length p \<and> drop (length p - 3) p = ''png''
         \<and> p ! (length p - 4) \<notin> {CHR 0x0A, CHR 0x0D}
      then take (length p - 4) p @ ''__full.png''
      else p)"

text \<open>
  \<^verbatim>\<open>captureIframeBySrc(page, srcKeyword, outputPath)\<close>, lines 341 to 387. The wait
  for the preview frame throws when it runs out. When the element is there and has no
  content frame, the whole page is saved under the \<^verbatim>\<open>__full\<close> name. No path of
  the function returns a value, so the caller always receives \<^verbatim>\<open>undefined\<close>, which
  is \<^const>\<open>False\<close> under its test \<^verbatim>\<open>!ok\<close>.
\<close>

definition captureIframeBySrc :: "string \<Rightarrow> bool m" where
  "captureIframeBySrc outputPath s =
     (let sf = surf (mainPage s)
      in if \<not> previewIframe sf then (Inl ''page.waitForSelector: Timeout 15000ms exceeded'', s)
         else if \<not> previewFrame sf
         then (if pageShotOk sf
               then (Inr False,
                     write_file (full_name outputPath) (FullPage (url sf))
                       (s\<lparr>logs := logs s
                            @ [Warn ''Could not resolve contentFrame; fallback to full page screenshot'']\<rparr>))
               else (Inl ''page.screenshot'',
                     s\<lparr>logs := logs s
                          @ [Warn ''Could not resolve contentFrame; fallback to full page screenshot'']\<rparr>))
         else if previewShotOk sf
         then (Inr False,
               (write_file outputPath (FrameRoot (url sf)) s)
                 \<lparr>logs := logs s @ [Info (''Full email captured -> '' @ outputPath)]\<rparr>)
         else (Inl ''locator.screenshot'', s))"

section \<open>Resolving addresses from the page\<close>

text \<open>JavaScript truthiness of a string or \<^verbatim>\<open>null\<close>.\<close>

definition truthy :: "string option \<Rightarrow> bool" where
  "truthy x = (case x of None \<Rightarrow> False | Some h \<Rightarrow> h \<noteq> [])"

text \<open>
  Lines 258 to 264 of \<^verbatim>\<open>findActionHrefByUrlContains\<close>: click the Actions button if
  it is visible; a failing click is swallowed.
\<close>

definition clickActionsQuiet :: "unit m" where
  "clickActionsQuiet s =
     (let p = mainPage s
      in if actionsVisible (surf p) \<and> actionsClickOk (surf p)
         then (Inr (), s\<lparr>mainPage := p\<lparr>clicks := clicks p + 1\<rparr>\<rparr>)
         else (Inr (), s))"

text \<open>
  Lines 274 to 287, the scan in the page: the first anchor in document order whose
  lower-cased \<^verbatim>\<open>href\<close> includes one of the lower-cased keywords, made absolute by
  the anchor's \<^verbatim>\<open>href\<close> property.
\<close>

definition scanAnchors :: "env \<Rightarrow> string \<Rightarrow> link list \<Rightarrow> string list \<Rightarrow> string option" where
  "scanAnchors e base ls needles =
     (let ns = map toLowerCase needles
      in case find (\<lambda>l. case l of
                           Anchor h v \<Rightarrow> list_ex (\<lambda>n. sublist n (toLowerCase h)) ns
                         | Form a v \<Rightarrow> False) ls of
           Some (Anchor h v) \<Rightarrow> Some (anchorHref e base h)
         | _ \<Rightarrow> None)"

text \<open>
  Lines 255 and 266 to 289, on the links rendered after the click: the fast path takes
  the first element of the selector \<^verbatim>\<open>a[href*="n1"],a[href*="n2"],...\<close>; when that
  one is visible its \<^verbatim>\<open>href\<close> is resolved with \<^verbatim>\<open>new URL\<close>, and returned as
  it is when \<^verbatim>\<open>new URL\<close> throws. Otherwise the scan decides.
\<close>

definition resolveHref :: "env \<Rightarrow> string \<Rightarrow> link list \<Rightarrow> string list \<Rightarrow> string option" where
  "resolveHref e base ls needles =
     (let wanted = map toLowerCase needles
      in case find (\<lambda>l. case l of
                           Anchor h v \<Rightarrow> list_ex (\<lambda>n. css_contains n h) wanted
                         | Form a v \<Rightarrow> False) ls of
           Some (Anchor h True) \<Rightarrow>
             (if h \<noteq> [] then Some (case mkURL e h base of Some u \<Rightarrow> u | None \<Rightarrow> h)
              else scanAnchors e base ls wanted)
         | _ \<Rightarrow> scanAnchors e base ls wanted)"

definition findActionHrefByUrlContains :: "env \<Rightarrow> string list \<Rightarrow> string option m" where
  "findActionHrefByUrlContains e needles =
     seq clickActionsQuiet
       (\<lambda>s. let p = mainPage s
            in (Inr (resolveHref e (url (surf p)) (links (surf p) (clicks p)) needles), s))"

text \<open>\<^verbatim>\<open>openActionsMenu\<close>: wait for the button to be visible, then click; both throw.\<close>

definition openActionsMenu :: "unit m" where
  "openActionsMenu s =
     (let p = mainPage s
      in if \<not> actionsVisible (surf p) then (Inl ''locator.waitFor: Timeout'', s)
         else if \<not> actionsClickOk (surf p) then (Inl ''locator.click'', s)
         else (Inr (), s\<lparr>mainPage := p\<lparr>clicks := clicks p + 1\<rparr>\<rparr>))"

text \<open>
  The \<^verbatim>\<open>Promise.all\<close> of the click fallback: the click on the menu item, with the
  pop-up and the navigation it may cause. A failing click rejects the whole.
\<close>

definition clickMenuItem :: "env \<Rightarrow> string \<Rightarrow> unit m" where
  "clickMenuItem e item s =
     (case menuItem e (url (surf (mainPage s))) item of
        ClickThrows \<Rightarrow> (Inl ''locator.click: Timeout'', s)
      | Clicked popup nav \<Rightarrow>
          (Inr (),
           s\<lparr>mainPage := (case nav of
                            None \<Rightarrow> mainPage s
                          | Some sf \<Rightarrow> \<lparr>surf = sf, clicks = 0, doc = initDoc sf\<rparr>),
             popupPage := map_option (\<lambda>sf. \<lparr>surf = sf, clicks = 0, doc = initDoc sf\<rparr>) popup\<rparr>))"

definition popupTarget :: "state \<Rightarrow> target" where
  "popupTarget s = (case popupPage s of Some p \<Rightarrow> PopupPage | None \<Rightarrow> MainPage)"

text \<open>\<^verbatim>\<open>if (popup) await popup.close().catch(() => {}); await page.bringToFront();\<close>\<close>

definition closePopup :: "unit m" where
  "closePopup s = (Inr (), s\<lparr>popupPage := None\<rparr>)"

text \<open>
  \<^verbatim>\<open>getSendEmailHref(page, { registrantUrl })\<close>, lines 306 to 335: the first anchor to
  the send-email page, then the first such form, then the address built from the
  \<^verbatim>\<open>id\<close> and \<^verbatim>\<open>eventId\<close> of the registrant address, then \<^verbatim>\<open>null\<close>.
  \<^verbatim>\<open>new URL\<close> is not guarded here, so an address it rejects makes the function throw.
\<close>

definition sendEmailPath :: string where
  "sendEmailPath = ''/loggedin/registrant/send-email''"

text \<open>
  \<^verbatim>\<open>encodeURIComponent\<close>: letters, digits and \<^verbatim>\<open>-_.!~*'()\<close> stay, every other
  byte becomes a percent sign and two upper-case hexadecimal digits.
\<close>

definition unreserved :: "char \<Rightarrow> bool" where
  "unreserved c =
     (c \<in> set ''ABCDEFGHIJKLMNOPQRSTUVWXYZabcdefghijklmnopqrstuvwxyz0123456789-_.!~*()''
      \<or> c = CHR 0x27)"

definition encodeURIComponent :: "string \<Rightarrow> string" where
  "encodeURIComponent s =
     concat (map (\<lambda>c. if unreserved c then [c]
                       else [CHR ''%'', ''0123456789ABCDEF'' ! ((of_char c :: nat) div 16),
                             ''0123456789ABCDEF'' ! ((of_char c :: nat) mod 16)]) s)"

definition sendEmailHref :: "env \<Rightarrow> string \<Rightarrow> pg \<Rightarrow> string + string option" where
  "sendEmailHref e registrantUrl p =
     (let ls = links (surf p) (clicks p); base = url (surf p)
      in case find (\<lambda>l. case l of Anchor h v \<Rightarrow> css_contains sendEmailPath h
                              | Form a v \<Rightarrow> False) ls of
           Some (Anchor h v) \<Rightarrow>
             (case mkURL e h base of
                Some u \<Rightarrow> Inr (Some u)
              | None \<Rightarrow> Inl ''Invalid URL'')
         | _ \<Rightarrow>
           (case find (\<lambda>l. case l of Anchor h v \<Rightarrow> False
                                | Form a v \<Rightarrow> css_contains sendEmailPath a) ls of
              Some (Form a v) \<Rightarrow>
                (case mkURL e a base of
                   Some u \<Rightarrow> Inr (Some u)
                 | None \<Rightarrow> Inl ''Invalid URL'')
            | _ \<Rightarrow>
              (case (queryDigits ''id'' registrantUrl, queryDigits ''eventId'' registrantUrl) of
                 (Some i, Some ev) \<Rightarrow>
                   Inr (Some (''https://www.swoogo.com/loggedin/registrant/send-email''
                              @ ''?eventId='' @ encodeURIComponent ev
                              @ ''&id='' @ encodeURIComponent i
                              @ ''&RegistrantEmailForm%5Btype%5D=4840855''))
               | _ \<Rightarrow> Inr None)))"

text \<open>The function reads the page and changes nothing.\<close>

definition getSendEmailHref :: "env \<Rightarrow> string \<Rightarrow> string option m" where
  "getSendEmailHref e registrantUrl s = (sendEmailHref e registrantUrl (mainPage s), s)"

section \<open>Packing and moving\<close>

definition under :: "string \<Rightarrow> string \<Rightarrow> bool" where
  "under d p = (take (length d + 1) p = d @ ''/'')"

text \<open>
  \<^verbatim>\<open>zipDirectory(dirPath, zipPath)\<close>: the archive of the files of the directory, or a
  rejection.
\<close>

definition zipDirectory :: "env \<Rightarrow> string \<Rightarrow> string \<Rightarrow> string m" where
  "zipDirectory e dirPath zipPath s =
     (if zipOk e dirPath
      then (Inr zipPath,
            s\<lparr>tmpFiles := filter (\<lambda>z. fst z \<noteq> zipPath) (tmpFiles s)
                 @ [(zipPath, filter (under dirPath) (map fst (files s)))]\<rparr>)
      else (Inl ''archiver'', s))"

text \<open>\<^verbatim>\<open>uploadZip(containerClient, localZipPath, blobName)\<close>\<close>

definition uploadZip :: "env \<Rightarrow> string \<Rightarrow> string \<Rightarrow> string m" where
  "uploadZip e localZipPath blobName s =
     (case map_of (tmpFiles s) localZipPath of
        None \<Rightarrow> (Inl ''ENOENT'', s)
      | Some content \<Rightarrow>
          if uploadOk e blobName
          then (Inr (blobUrl e blobName),
                s\<lparr>remote := filter (\<lambda>b. fst b \<noteq> blobName) (remote s) @ [(blobName, content)]\<rparr>)
          else (Inl ''uploadStream'', s))"

text \<open>\<^verbatim>\<open>fsp.unlink(tmpZip).catch(() => {})\<close>\<close>

definition unlinkQuiet :: "env \<Rightarrow> string \<Rightarrow> unit m" where
  "unlinkQuiet e f s =
     (if unlinkOk e f then (Inr (), s\<lparr>tmpFiles := filter (\<lambda>z. fst z \<noteq> f) (tmpFiles s)\<rparr>)
      else (Inr (), s))"

text \<open>
  \<^verbatim>\<open>rimraf(dir)\<close>: the recursive removal, whose failure is swallowed and then leaves
  the directory where it is.
\<close>

definition rimraf :: "env \<Rightarrow> string \<Rightarrow> unit m" where
  "rimraf e dir s =
     (if rmOk e dir
      then (Inr (),
            s\<lparr>dirs := filter (\<lambda>d. d \<noteq> dir \<and> \<not> under dir d) (dirs s),
              files := filter (\<lambda>f. \<not> under dir (fst f)) (files s)\<rparr>)
      else (Inr (), s))"

definition uploadAndCleanupRegistrant :: "env \<Rightarrow> string \<Rightarrow> string \<Rightarrow> string m" where
  "uploadAndCleanupRegistrant e regDir blobName =
     (let tmpZip = path_join (tmpdir e) blobName
      in bnd (zipDirectory e regDir tmpZip) (\<lambda>_.
         bnd (uploadZip e tmpZip blobName) (\<lambda>u.
         seq (unlinkQuiet e tmpZip)
        (seq (rimraf e regDir)
             (ret u)))))"

text \<open>\<^verbatim>\<open>fs.mkdirSync(dir, { recursive: true })\<close>: nothing happens to a directory that is there.\<close>

definition mkdirSync :: "string \<Rightarrow> unit m" where
  "mkdirSync d s = (Inr (), if d \<in> set (dirs s) then s else s\<lparr>dirs := dirs s @ [d]\<rparr>)"

section \<open>The job of one registrant\<close>

text \<open>
  \<^verbatim>\<open>processRegistrant\<close>, lines 436 to 545, cut at the comments that number its
  steps. The pauses, the wait for the spinner (whose failure is swallowed) and
  \<^verbatim>\<open>extractRegistrantName\<close> (whose result is not used) change nothing and are left
  out.
\<close>

text \<open>Lines 443 to 445 and 449, and line 537.\<close>

definition regIdOf :: "string \<Rightarrow> string" where
  "regIdOf registrantUrl =
     (case queryDigits ''id'' registrantUrl of Some d \<Rightarrow> d | None \<Rightarrow> ''unknown'')"

definition regDirOf :: "string \<Rightarrow> string \<Rightarrow> string" where
  "regDirOf baseOutDir registrantUrl = path_join baseOutDir (regIdOf registrantUrl)"

definition blobNameOf :: "string \<Rightarrow> string" where
  "blobNameOf registrantUrl = regIdOf registrantUrl @ ''.zip''"

text \<open>Lines 461 to 480: the confirmation, by its address or by the click fallback.\<close>

definition step05 :: "env \<Rightarrow> string \<Rightarrow> string \<Rightarrow> string option \<Rightarrow> unit m" where
  "step05 e regDir baseName confirmationHref =
     (if truthy confirmationHref
      then seq (goto e (the confirmationHref))
               (captureConfirmationEmail MainPage regDir baseName)
      else seq (console (Warn ''Could not resolve Confirmation URL from Actions; attempting click fallback.''))
               (try_catch
                  (seq openActionsMenu
                  (seq (clickMenuItem e ''confirmation'')
                  (seq (\<lambda>s. captureConfirmationEmail (popupTarget s) regDir baseName s)
                       closePopup)))
                  (\<lambda>_. ret ())))"

text \<open>Lines 482 to 501: the invoice, by its address or by the click fallback.\<close>

definition step06 :: "env \<Rightarrow> string \<Rightarrow> string \<Rightarrow> bool \<Rightarrow> string option \<Rightarrow> unit m" where
  "step06 e regDir baseName pdf invoiceHref =
     (if truthy invoiceHref
      then seq (goto e (the invoiceHref))
               (captureFullPage MainPage (path_join regDir (baseName @ ''__06_Invoice'')) pdf)
      else seq (console (Warn ''Could not resolve Invoice URL from Actions; attempting click fallback.''))
               (try_catch
                  (seq openActionsMenu
                  (seq (clickMenuItem e ''invoice'')
                  (seq (\<lambda>s. captureFullPage (popupTarget s)
                              (path_join regDir (baseName @ ''__06_Invoice'')) pdf s)
                       closePopup)))
                  (\<lambda>_. ret ())))"

text \<open>Lines 503 to 517: the ticket email preview, inside its \<^verbatim>\<open>try\<close>.\<close>

definition step03 :: "env \<Rightarrow> string \<Rightarrow> string \<Rightarrow> string \<Rightarrow> unit m" where
  "step03 e registrantUrl regDir baseName =
     try_catch
       (bnd (getSendEmailHref e registrantUrl) (\<lambda>sendEmailHref.
          if truthy sendEmailHref
          then seq (goto e (the sendEmailHref))
              (bnd (captureIframeBySrc (path_join regDir (baseName @ ''__03_Ticket_Email_Preview.png'')))
                 (\<lambda>ok. if \<not> ok then console (Warn ''Email iframe not found; saved full page instead'')
                       else ret ()))
          else ret ()))
       (\<lambda>msg. console (Warn (''Could not capture Ticket Email Preview: '' @ msg)))"

text \<open>
  Lines 520 to 532: the QR code ticket email, inside its \<^verbatim>\<open>try\<close>. The locator takes
  the first anchor or form to the send-email page; a form has no \<^verbatim>\<open>href\<close>.
\<close>

definition step04 :: "env \<Rightarrow> string \<Rightarrow> string \<Rightarrow> bool \<Rightarrow> unit m" where
  "step04 e regDir baseName pdf =
     try_catch
       (\<lambda>s. let p = mainPage s
            in case find (\<lambda>l. case l of Anchor h v \<Rightarrow> css_contains sendEmailPath h
                                   | Form a v \<Rightarrow> css_contains sendEmailPath a)
                     (links (surf p) (clicks p)) of
                 Some (Anchor h True) \<Rightarrow>
                   (case mkURL e h (url (surf p)) of
                      None \<Rightarrow> (Inl ''Invalid URL'', s)
                    | Some u \<Rightarrow>
                        seq (goto e u)
                            (captureFullPage MainPage
                               (path_join regDir (baseName @ ''__04_QR_Code_Ticket_Email'')) pdf) s)
               | Some (Form a True) \<Rightarrow>
                   captureFullPage MainPage
                     (path_join regDir (baseName @ ''__04_QR_Code_Ticket_Email'')) pdf s
               | _ \<Rightarrow> (Inr (), s))
       (\<lambda>_. ret ())"

text \<open>Lines 534 to 543: zip, upload, delete, inside their \<^verbatim>\<open>try\<close>.\<close>

definition packAndUpload :: "env \<Rightarrow> string \<Rightarrow> string \<Rightarrow> unit m" where
  "packAndUpload e regDir blobName =
     try_catch
       (bnd (uploadAndCleanupRegistrant e regDir blobName) (\<lambda>uploadedUrl.
        seq (console (Info (''Uploaded to Azure: '' @ uploadedUrl)))
            (console (Info (''Deleted local folder: '' @ regDir)))))
       (\<lambda>msg. console (Err (''Azure upload failed. Keeping local folder. '' @ msg)))"

text \<open>Lines 437 to 532: everything before the packing.\<close>

definition collectEvidence :: "env \<Rightarrow> string \<Rightarrow> string \<Rightarrow> bool \<Rightarrow> unit m" where
  "collectEvidence e registrantUrl baseOutDir pdf =
     (let regDir = regDirOf baseOutDir registrantUrl;
          baseName = safe (regIdOf registrantUrl)
      in seq (console (Info registrantUrl))
        (seq (goto e registrantUrl)
        (seq (mkdirSync regDir)
        (seq (captureFullPage MainPage
                (path_join regDir (baseName @ ''__01_Attendance_Status_Proof'')) pdf)
        (seq (captureFullPage MainPage
                (path_join regDir (baseName @ ''__02_Contact_Details'')) pdf)
        (bnd (findActionHrefByUrlContains e [''confirmation'']) (\<lambda>confirmationHref.
         bnd (findActionHrefByUrlContains e [''invoice'']) (\<lambda>invoiceHref.
        (seq (step05 e regDir baseName confirmationHref)
        (seq (step06 e regDir baseName pdf invoiceHref)
        (seq (step03 e registrantUrl regDir baseName)
             (step04 e regDir baseName pdf))))))))))))"

definition processRegistrant :: "env \<Rightarrow> string \<Rightarrow> string \<Rightarrow> bool \<Rightarrow> unit m" where
  "processRegistrant e registrantUrl baseOutDir pdf =
     seq (collectEvidence e registrantUrl baseOutDir pdf)
         (packAndUpload e (regDirOf baseOutDir registrantUrl) (blobNameOf registrantUrl))"

section \<open>The run\<close>

text \<open>
  Lines 572 to 578: every address in turn, an error of one registrant logged and the
  loop going on.
\<close>

fun processAll :: "env \<Rightarrow> string list \<Rightarrow> string \<Rightarrow> bool \<Rightarrow> state \<Rightarrow> state" where
  "processAll e [] outRoot pdf s = s"
| "processAll e (u # us) outRoot pdf s =
     processAll e us outRoot pdf
       (snd (try_catch (processRegistrant e u outRoot pdf)
                       (\<lambda>msg. console (Err (''Error for '' @ u @ '': '' @ msg))) s))"

text \<open>
  \<^verbatim>\<open>buildAzureContainerClient\<close>, lines 64 to 82, on the three environment variables
  (an unset variable reads as the empty string). The storage library checks what it is
  given and throws on a connection string or an address it cannot read: for a
  connection string and a container name, the error that lines 74 and 75 throw, if any,
  and for a SAS address the error that line 79 throws, if any.
\<close>

record process_env =
  AZURE_STORAGE_CONNECTION_STRING :: string
  AZURE_BLOB_CONTAINER :: string
  AZURE_BLOB_SAS_URL :: string

record storage_sdk =
  connectionStringError :: "string \<Rightarrow> string \<Rightarrow> string option"
  sasUrlError :: "string \<Rightarrow> string option"

datatype container_client = OfConnectionString string string | OfSasUrl string

definition buildAzureContainerClient ::
  "storage_sdk \<Rightarrow> process_env \<Rightarrow> string + container_client" where
  "buildAzureContainerClient sdk pe =
     (let conn = AZURE_STORAGE_CONNECTION_STRING pe;
          container = AZURE_BLOB_CONTAINER pe;
          sasUrl = AZURE_BLOB_SAS_URL pe
      in if container = [] then Inl ''AZURE_BLOB_CONTAINER is not set''
         else if conn \<noteq> []
         then (case connectionStringError sdk conn container of
                 Some msg \<Rightarrow> Inl msg
               | None \<Rightarrow> Inr (OfConnectionString conn container))
         else if sasUrl \<noteq> []
         then (case sasUrlError sdk sasUrl of
                 Some msg \<Rightarrow> Inl msg
               | None \<Rightarrow> Inr (OfSasUrl sasUrl))
         else Inl ''Provide either AZURE_STORAGE_CONNECTION_STRING or AZURE_BLOB_SAS_URL'')"

text \<open>
  The result of \<^verbatim>\<open>parseArgs\<close>, as far as the main function reads it, and a row of the
  input table, from column names to cells. \<^verbatim>\<open>--in\<close> and \<^verbatim>\<open>--out\<close> take the
  next argument, which is undefined (\<^const>\<open>None\<close>) when there is none; the output
  directory is \<^verbatim>\<open>out\<close> when \<^verbatim>\<open>--out\<close> is not given.
\<close>

record args =
  arg_in :: "string option"
  arg_outDir :: "string option"
  arg_saveSession :: bool
  arg_pdf :: bool
  arg_eventId :: string

type_synonym row = "string \<Rightarrow> string option"

text \<open>\<^verbatim>\<open>(r.a || r.b || ... || '')\<close>: the first cell that is there and not empty.\<close>

fun first_cell :: "row \<Rightarrow> string list \<Rightarrow> string" where
  "first_cell r [] = []"
| "first_cell r (k # ks) = (if truthy (r k) then the (r k) else first_cell r ks)"

text \<open>Lines 558 to 565, for one row: the address the row gives, if any.\<close>

definition row_url :: "args \<Rightarrow> row \<Rightarrow> string option" where
  "row_url a r =
     (let u = trim (first_cell r [''registrant_url'', ''RegistrantURL'']);
          i = trim (first_cell r [''id'', ''ID'', ''Registrant ID'', ''registrantId'', ''registrant_id'']);
          csvEvent = trim (first_cell r [''eventId'', ''Event ID'', ''event_id'']);
          eventId = (if trim (arg_eventId a) \<noteq> [] then trim (arg_eventId a) else csvEvent);
          u' = (if u = [] \<and> i \<noteq> [] \<and> eventId \<noteq> []
                then ''https://www.swoogo.com/loggedin/registrant/view?eventId=''
                     @ encodeURIComponent eventId @ ''&id='' @ encodeURIComponent i
                else u)
      in if u' \<noteq> [] then Some u' else None)"

definition usable_urls :: "args \<Rightarrow> row list \<Rightarrow> string list" where
  "usable_urls a rows = List.map_filter (row_url a) rows"

text \<open>
  How the process ends: \<^verbatim>\<open>process.exit(n)\<close>; an error nobody catches, at module
  load or as a rejection of the main function; the end of the main function with
  nothing left that keeps the process alive; the end of the main function with the
  browser still open, so that the process stays; or never, inside the session-saving
  loop that waits for the browser to be closed.
\<close>

datatype ending = Exit nat | Uncaught string | Completed state | Idle state | Waiting

text \<open>
  What the main function meets outside the job of a registrant: the session saving
  (\<^const>\<open>None\<close>: it does not return; an error: it throws), \<^verbatim>\<open>path.resolve\<close>,
  whether the output directory can be made, the reading of the input file, the launch
  of the browser, the opening of a context and a page in it, and whether somebody closes
  the browser after the run. \<^verbatim>\<open>withBrowser\<close>, lines 134 to 143, launches the browser
  and never closes it: its \<^verbatim>\<open>finally\<close> block only sleeps.
\<close>

record outside =
  saveSessionResult :: "(string + unit) option"
  resolvePath :: "string \<Rightarrow> string"
  mkdirRootOk :: bool
  csvRows :: "string \<Rightarrow> string + row list"
  launchOk :: bool
  contextOk :: bool
  browserClosed :: bool

text \<open>
  Line 127 and lines 547 to 582: the container client is built when the module loads,
  before the main function starts.
\<close>

definition main ::
  "storage_sdk \<Rightarrow> process_env \<Rightarrow> outside \<Rightarrow> env \<Rightarrow> args \<Rightarrow> state \<Rightarrow> ending" where
  "main sdk pe out e a s0 =
     (case buildAzureContainerClient sdk pe of
        Inl msg \<Rightarrow> Uncaught msg
      | Inr containerClient \<Rightarrow>
          (if arg_saveSession a
           then (case saveSessionResult out of
                   None \<Rightarrow> Waiting
                 | Some r \<Rightarrow> (case r of Inl msg \<Rightarrow> Uncaught msg | Inr u \<Rightarrow> Exit 0))
           else if \<not> truthy (arg_in a) then Exit 1
           else
             (case arg_outDir a of
                None \<Rightarrow> Uncaught ''The paths[0] argument must be of type string''
              | Some outDir \<Rightarrow>
                  (let outRoot = resolvePath out outDir
                   in if \<not> mkdirRootOk out then Uncaught (''mkdir '' @ outRoot)
                      else
                        (case csvRows out (the (arg_in a)) of
                           Inl msg \<Rightarrow> Uncaught msg
                         | Inr rows \<Rightarrow>
                             (let urls = usable_urls a rows
                              in if urls = [] then Exit 1
                                 else if \<not> launchOk out then Uncaught ''browserType.launch''
                                 else if \<not> contextOk out then Uncaught ''browser.newContext''
                                 else
                                   (let s1 = snd (mkdirSync outRoot s0);
                                        s2 = processAll e urls outRoot (arg_pdf a) s1;
                                        s3 = snd (console (Info (''Done. Files saved in: '' @ outRoot)) s2)
                                    in if browserClosed out then Completed s3 else Idle s3)))))))"

text \<open>
  The exit status: the argument of \<^verbatim>\<open>process.exit\<close>, 1 for an uncaught error (an
  exception at module load, or a rejection of the main function, which Node.js treats
  as an uncaught exception), 0 when the main function has ended and nothing keeps the
  process alive, none while the process waits or stays.
\<close>

definition exit_status :: "ending \<Rightarrow> nat option" where
  "exit_status x =
     (case x of Exit n \<Rightarrow> Some n | Uncaught msg \<Rightarrow> Some 1 | Completed s \<Rightarrow> Some 0
      | Idle s \<Rightarrow> None | Waiting \<Rightarrow> None)"

section \<open>Notions the claims are stated with\<close>

text \<open>
  A match of the resolver as the specification describes it: an anchor whose address
  contains one of the keywords, case ignored.
\<close>

definition keyword_match :: "string list \<Rightarrow> link \<Rightarrow> bool" where
  "keyword_match needles l =
     (case l of
        Anchor h v \<Rightarrow> list_ex (\<lambda>n. sublist (toLowerCase n) (toLowerCase h)) needles
      | Form a v \<Rightarrow> False)"

text \<open>
  A match of the selector of the fast path: the lower-cased keyword occurs in the address
  as the address is written.
\<close>

definition selector_match :: "string list \<Rightarrow> link \<Rightarrow> bool" where
  "selector_match needles l =
     (case l of
        Anchor h v \<Rightarrow> list_ex (\<lambda>n. css_contains (toLowerCase n) h) needles
      | Form a v \<Rightarrow> False)"


text \<open>
  A document none of whose elements carries the \<^verbatim>\<open>__pre_expand__\<close> attribute, as
  a page is before its first capture.
\<close>

definition unmarked :: "document \<Rightarrow> bool" where
  "unmarked d =
     (pre_expand (root d) = None \<and> pre_expand (body d) = None
      \<and> list_all (\<lambda>n. pre_expand n = None) (others d))"

text \<open>
  A declaration that an assignment of its own value brings back: none, or one without
  \<^verbatim>\<open>!important\<close>.
\<close>

definition plain :: "decl \<Rightarrow> bool" where
  "plain d = (case d of None \<Rightarrow> True | Some (v, important) \<Rightarrow> v \<noteq> [] \<and> \<not> important)"

text \<open>
  An inline style that declares neither overflow longhand, or both without
  \<^verbatim>\<open>!important\<close> and in a way the shorthand can express: two overflow keywords, or
  the same CSS-wide keyword twice.
\<close>

definition both_or_neither :: "node \<Rightarrow> bool" where
  "both_or_neither n =
     (case (overflowX n, overflowY n) of
        (None, None) \<Rightarrow> True
      | (Some (x, ix), Some (y, iy)) \<Rightarrow>
          \<not> ix \<and> \<not> iy
          \<and> ((overflow_keyword x \<and> overflow_keyword y) \<or> (css_wide x \<and> x = y))
      | _ \<Rightarrow> False)"

text \<open>
  Lines 437 to 459 of \<^verbatim>\<open>processRegistrant\<close>: the job up to the two addresses it
  resolves from the Actions menu, which are the result.
\<close>

definition upToResolution ::
  "env \<Rightarrow> string \<Rightarrow> string \<Rightarrow> bool \<Rightarrow> (string option \<times> string option) m" where
  "upToResolution e registrantUrl baseOutDir pdf =
     (let regDir = regDirOf baseOutDir registrantUrl;
          baseName = safe (regIdOf registrantUrl)
      in seq (console (Info registrantUrl))
        (seq (goto e registrantUrl)
        (seq (mkdirSync regDir)
        (seq (captureFullPage MainPage
                (path_join regDir (baseName @ ''__01_Attendance_Status_Proof'')) pdf)
        (seq (captureFullPage MainPage
                (path_join regDir (baseName @ ''__02_Contact_Details'')) pdf)
        (bnd (findActionHrefByUrlContains e [''confirmation'']) (\<lambda>confirmationHref.
         bnd (findActionHrefByUrlContains e [''invoice'']) (\<lambda>invoiceHref.
         ret (confirmationHref, invoiceHref)))))))))"

text \<open>The warnings that announce the click fallback.\<close>

definition confirmation_fallback_warning :: logline where
  "confirmation_fallback_warning =
     Warn ''Could not resolve Confirmation URL from Actions; attempting click fallback.''"

definition invoice_fallback_warning :: logline where
  "invoice_fallback_warning =
     Warn ''Could not resolve Invoice URL from Actions; attempting click fallback.''"

section \<open>What the capture steps leave alone\<close>

text \<open>
  The steps that capture evidence relate the state before to the state after in this way:
  they upload nothing, pack nothing,
  make and remove no directory, delete no file (a file may be written again under its
  name) and only add lines to the console.
\<close>

definition steady :: "state \<Rightarrow> state \<Rightarrow> bool" where
  "steady s s' =
     (remote s' = remote s \<and> tmpFiles s' = tmpFiles s \<and> dirs s' = dirs s
      \<and> fst ` set (files s) \<subseteq> fst ` set (files s') \<and> prefix (logs s) (logs s'))"

definition keeps :: "'a m \<Rightarrow> bool" where
  "keeps f = (\<forall>s. steady s (snd (f s)))"

text \<open>
  A step that touches neither the files nor the console, and a step that does at most
  one capture: it writes under the paths of a given set only, and either it leaves files
  and console as they were, or it adds one of the given console lines, with a file under
  the path that goes with the line.
\<close>

definition same :: "state \<Rightarrow> state \<Rightarrow> bool" where
  "same s s' = (logs s' = logs s \<and> files s' = files s)"

definition captured :: "string set \<Rightarrow> (logline \<times> string) list \<Rightarrow> state \<Rightarrow> state \<Rightarrow> bool" where
  "captured P os s s' =
     (fst ` set (files s') \<subseteq> fst ` set (files s) \<union> P
      \<and> (same s s'
          \<or> (\<exists>(l, p) \<in> set os. logs s' = logs s @ [l] \<and> p \<in> fst ` set (files s'))))"

definition always :: "(state \<Rightarrow> state \<Rightarrow> bool) \<Rightarrow> 'a m \<Rightarrow> bool" where
  "always R f = (\<forall>s. R s (snd (f s)))"

section \<open>Sample sites\<close>

text \<open>
  A small site to run the program on: the registrant page with the three links of its
  Actions menu, and the pages behind them. Addresses are resolved against the host.
\<close>

definition origin_url :: "string \<Rightarrow> string" where
  "origin_url h = (if take 1 h = ''/'' then ''https://www.swoogo.com'' @ h else h)"

definition blank_node :: node where
  "blank_node = \<lparr>height = None, maxHeight = None, overflowX = None, overflowY = None,
                  scrollable = False, scrollHeight = 0, pre_expand = None\<rparr>"

definition blank_doc :: document where
  "blank_doc = \<lparr>root = blank_node, body = blank_node, others = [], styleTags = 0\<rparr>"

definition plain_page :: "string \<Rightarrow> surface" where
  "plain_page u =
     \<lparr>url = u, links = (\<lambda>k. []), actionsVisible = False, actionsClickOk = False,
      initDoc = blank_doc, pageShotOk = True, pdfOk = True, iframeCount = 0,
      frameBodyShotOk = False, candidateCount = 0, candidateShotOk = False,
      previewIframe = False, previewFrame = False, previewShotOk = False\<rparr>"

definition home_url :: string where
  "home_url = ''https://www.swoogo.com/loggedin/registrant/view?eventId=255274&id=12345''"

definition home_page :: surface where
  "home_page =
     (plain_page home_url)
       \<lparr>links := (\<lambda>k. [Anchor ''/loggedin/registrant/confirmation?id=12345'' True,
                        Anchor ''/loggedin/registrant/invoice?id=12345'' True,
                        Anchor ''/loggedin/registrant/send-email?id=12345'' True]),
        actionsVisible := True, actionsClickOk := True\<rparr>"

definition confirmation_page :: surface where
  "confirmation_page =
     (plain_page ''https://www.swoogo.com/loggedin/registrant/confirmation?id=12345'')
       \<lparr>iframeCount := 1, frameBodyShotOk := True\<rparr>"

definition invoice_page :: surface where
  "invoice_page = plain_page ''https://www.swoogo.com/loggedin/registrant/invoice?id=12345''"

definition send_email_page :: surface where
  "send_email_page =
     (plain_page ''https://www.swoogo.com/loggedin/registrant/send-email?eventId=255274&id=12345'')
       \<lparr>links := (\<lambda>k. [Anchor ''/loggedin/registrant/send-email?id=12345&type=2'' True]),
        previewIframe := True, previewFrame := True, previewShotOk := True\<rparr>"

definition sample_site :: "string \<Rightarrow> surface option" where
  "sample_site u =
     (if u = home_url then Some home_page
      else if u = ''https://www.swoogo.com/loggedin/registrant/confirmation?id=12345''
      then Some confirmation_page
      else if u = ''https://www.swoogo.com/loggedin/registrant/invoice?id=12345''
      then Some invoice_page
      else if u = ''https://www.swoogo.com/loggedin/registrant/send-email?eventId=255274&id=12345&RegistrantEmailForm%5Btype%5D=4840855''
      then Some send_email_page
      else if u = ''https://www.swoogo.com/loggedin/registrant/send-email?id=12345&type=2''
      then Some send_email_page
      else None)"

definition sample_env :: env where
  "sample_env =
     \<lparr>site = sample_site, failedPage = (\<lambda>u. None), menuItem = (\<lambda>u i. ClickThrows),
      mkURL = (\<lambda>h b. Some (origin_url h)), anchorHref = (\<lambda>b h. origin_url h),
      tmpdir = ''/tmp'', zipOk = (\<lambda>d. True), uploadOk = (\<lambda>b. True),
      unlinkOk = (\<lambda>f. True), rmOk = (\<lambda>d. True),
      blobUrl = (\<lambda>b. ''https://acct.blob.core.windows.net/evidence/'' @ b)\<rparr>"

definition start :: state where
  "start = \<lparr>mainPage = \<lparr>surf = plain_page ''about:blank'', clicks = 0, doc = blank_doc\<rparr>,
            popupPage = None, dirs = [], files = [], tmpFiles = [], remote = [], logs = []\<rparr>"

text \<open>
  What is there to see after a job: how it ended, the directories, the files, the
  archives, the blobs and the console.
\<close>

definition observed ::
  "(string + 'a) \<times> state \<Rightarrow>
   (string + 'a) \<times> string list \<times> (string \<times> shot) list \<times> (string \<times> string list) list
     \<times> (string \<times> string list) list \<times> logline list" where
  "observed r = (fst r, dirs (snd r), files (snd r), tmpFiles (snd r), remote (snd r), logs (snd r))"

text \<open>Two anchors to the same kind of page, the first written with a capital letter.\<close>

definition mixed_case_links :: "link list" where
  "mixed_case_links =
     [Anchor ''/Confirmation?id=1'' True, Anchor ''/confirmation?id=2'' True]"

text \<open>The state with a given page loaded and nothing else done yet.\<close>

definition on_page :: "surface \<Rightarrow> state" where
  "on_page sf = start\<lparr>mainPage := \<lparr>surf = sf, clicks = 0, doc = initDoc sf\<rparr>\<rparr>"

text \<open>A confirmation page with an embedded frame and an email-like region.\<close>

definition both_page :: surface where
  "both_page =
     (plain_page ''https://www.swoogo.com/c'')
       \<lparr>iframeCount := 1, frameBodyShotOk := True, candidateCount := 1, candidateShotOk := True\<rparr>"

text \<open>A send-email page on which the preview frame never shows up.\<close>

definition no_preview_page :: surface where
  "no_preview_page = plain_page ''https://www.swoogo.com/loggedin/registrant/send-email''"

text \<open>A send-email page whose preview element has no content frame.\<close>

definition no_frame_page :: surface where
  "no_frame_page =
     (plain_page ''https://www.swoogo.com/loggedin/registrant/send-email'')
       \<lparr>previewIframe := True\<rparr>"

text \<open>
  A page with a link to the send-email page, and a site on which that page never shows
  its preview frame.
\<close>

definition link_page :: surface where
  "link_page =
     (plain_page home_url)\<lparr>links := (\<lambda>k. [Anchor ''/loggedin/registrant/send-email'' True])\<rparr>"

definition no_preview_env :: env where
  "no_preview_env =
     sample_env\<lparr>site := (\<lambda>u. if u = ''https://www.swoogo.com/loggedin/registrant/send-email''
                               then Some no_preview_page else None)\<rparr>"

text \<open>
  A page with three scrollable containers (one of fixed inline height with both
  overflow longhands, one whose horizontal overflow is hidden with priority, one whose
  height is fixed with priority) and an element that does not scroll.
\<close>

definition scroll_page :: surface where
  "scroll_page =
     (plain_page ''https://www.swoogo.com/s'')
       \<lparr>initDoc := blank_doc\<lparr>others :=
          [blank_node\<lparr>height := Some (''300px'', False), overflowX := Some (''hidden'', False),
                       overflowY := Some (''auto'', False), scrollable := True,
                       scrollHeight := 1200\<rparr>,
           blank_node\<lparr>overflowX := Some (''hidden'', True), overflowY := Some (''auto'', False),
                       scrollable := True, scrollHeight := 900\<rparr>,
           blank_node\<lparr>height := Some (''200px'', True), scrollable := True,
                       scrollHeight := 800\<rparr>,
           blank_node\<lparr>overflowY := Some (''scroll'', True)\<rparr>]\<rparr>\<rparr>"

text \<open>
  A complete configuration, one without the container name, a storage library that reads
  the connection string of the storage emulator and no other, a connection string it
  cannot read, an input file with one usable row, and a site on which every navigation
  fails.
\<close>

definition sample_process_env :: process_env where
  "sample_process_env =
     \<lparr>AZURE_STORAGE_CONNECTION_STRING = ''UseDevelopmentStorage=true'',
      AZURE_BLOB_CONTAINER = ''evidence'', AZURE_BLOB_SAS_URL = []\<rparr>"

definition no_container_env :: process_env where
  "no_container_env = sample_process_env\<lparr>AZURE_BLOB_CONTAINER := []\<rparr>"

definition sample_row :: row where
  "sample_row = (\<lambda>k. if k = ''id'' then Some ''12345'' else None)"

definition sample_sdk :: storage_sdk where
  "sample_sdk =
     \<lparr>connectionStringError =
        (\<lambda>conn container. if conn = ''UseDevelopmentStorage=true'' then None
                           else Some ''Invalid connection string''),
      sasUrlError = (\<lambda>u. if take 8 u = ''https://'' then None else Some ''Invalid URL'')\<rparr>"

definition malformed_process_env :: process_env where
  "malformed_process_env =
     sample_process_env\<lparr>AZURE_STORAGE_CONNECTION_STRING := ''AccountName''\<rparr>"

definition sample_outside :: outside where
  "sample_outside =
     \<lparr>saveSessionResult = Some (Inr ()), resolvePath = (\<lambda>p. ''/work/'' @ p),
      mkdirRootOk = True, csvRows = (\<lambda>fp. Inr [sample_row]), launchOk = True,
      contextOk = True, browserClosed = True\<rparr>"

definition sample_args :: args where
  "sample_args =
     \<lparr>arg_in = Some ''registration.csv'', arg_outDir = Some ''out'', arg_saveSession = False,
      arg_pdf = False, arg_eventId = ''255274''\<rparr>"

definition unreachable_env :: env where
  "unreachable_env = sample_env\<lparr>site := (\<lambda>u. None)\<rparr>"

text \<open>
  The page the browser shows after a navigation has failed, and two sites that leave the
  browser on it: one on which the confirmation page cannot be reached, one on which the
  invoice page cannot be reached.
\<close>

definition error_page :: surface where
  "error_page = plain_page ''chrome-error://chromewebdata/''"

definition no_confirmation_env :: env where
  "no_confirmation_env =
     sample_env\<lparr>site := (\<lambda>u. if u = ''https://www.swoogo.com/loggedin/registrant/confirmation?id=12345''
                               then None else sample_site u),
                failedPage := (\<lambda>u. Some error_page)\<rparr>"

definition no_invoice_env :: env where
  "no_invoice_env =
     sample_env\<lparr>site := (\<lambda>u. if u = ''https://www.swoogo.com/loggedin/registrant/invoice?id=12345''
                               then None else sample_site u),
                failedPage := (\<lambda>u. Some error_page)\<rparr>"

text \<open>
  A registrant page without links, for a registrant whose address carries no event id:
  no send-email address can be found or built.
\<close>

definition bare_url :: string where
  "bare_url = ''https://www.swoogo.com/loggedin/registrant/view?id=7''"

definition bare_env :: env where
  "bare_env = sample_env\<lparr>site := (\<lambda>u. if u = bare_url then Some (plain_page bare_url) else None)\<rparr>"

text \<open>A site that works, on a disk from which the directory cannot be removed.\<close>

definition rm_fails_env :: env where
  "rm_fails_env = sample_env\<lparr>rmOk := (\<lambda>d. False)\<rparr>"

text \<open>A site that works, with a container that refuses the upload.\<close>

definition upload_fails_env :: env where
  "upload_fails_env = sample_env\<lparr>uploadOk := (\<lambda>b. False)\<rparr>"

text \<open>The same confirmation page when the screenshot of the frame body fails.\<close>

definition frame_fails_page :: surface where
  "frame_fails_page = both_page\<lparr>frameBodyShotOk := False\<rparr>"

text \<open>
  A registrant page whose Actions menu holds no links, and a site on which the menu
  item of the invoice navigates to the invoice page and the menu item of the
  confirmation opens the confirmation page in a pop-up.
\<close>

definition menu_page :: surface where
  "menu_page = (plain_page home_url)\<lparr>actionsVisible := True, actionsClickOk := True\<rparr>"

definition menu_env :: env where
  "menu_env =
     sample_env\<lparr>menuItem := (\<lambda>u item.
        if item = ''invoice'' then Clicked None (Some invoice_page)
        else if item = ''confirmation'' then Clicked (Some confirmation_page) None
        else ClickThrows)\<rparr>"


section \<open>Properties\<close>

lemmas monad_defs = ret_def throw_def bnd_def seq_def try_catch_def console_def

lemmas string_defs = is_digit_def is_space_def trim_def lower_char_def toLowerCase_def
  unsafe_char_def safe_def path_join_def basename_def under_def css_contains_def
  sublist_Cons_right truthy_def full_name_def sendEmailPath_def unreserved_def
  encodeURIComponent_def

lemmas dom_defs = get_prop_def set_prop_def css_wide_def overflow_keyword_def
  get_overflow_def set_overflow_def hideLeftPanel_def expand_node_def
  expandScrollableContainers_def restore_node_def restoreScrollableContainers_def

lemmas step_defs = goto_def load_def stranded_def the_pg_def set_doc_def write_file_def captureFullPage_def
  captureConfirmationEmail_def captureIframeBySrc_def clickActionsQuiet_def scanAnchors_def
  resolveHref_def findActionHrefByUrlContains_def openActionsMenu_def clickMenuItem_def
  popupTarget_def closePopup_def sendEmailHref_def getSendEmailHref_def zipDirectory_def uploadZip_def
  unlinkQuiet_def rimraf_def uploadAndCleanupRegistrant_def mkdirSync_def regIdOf_def
  regDirOf_def blobNameOf_def step05_def step06_def step03_def step04_def packAndUpload_def
  collectEvidence_def processRegistrant_def

lemmas sample_defs = origin_url_def blank_node_def blank_doc_def plain_page_def home_url_def
  home_page_def confirmation_page_def invoice_page_def send_email_page_def sample_site_def
  sample_env_def start_def

subsection \<open>The numeric id of an address\<close>





subsection \<open>Files and logs\<close>

lemma map_of_replace:
  "map_of (filter (\<lambda>f. fst f \<noteq> p) xs @ [(p, c)]) q = (if q = p then Some c else map_of xs q)"
proof -
  have "map_of (filter (\<lambda>f. fst f \<noteq> p) xs) q = (if q = p then None else map_of xs q)"
    by (induction xs) auto
  then show ?thesis by (simp add: map_add_def split: option.splits)
qed

lemma write_file_frame [simp]:
  "logs (write_file p c s) = logs s" "dirs (write_file p c s) = dirs s"
  "remote (write_file p c s) = remote s" "tmpFiles (write_file p c s) = tmpFiles s"
  "mainPage (write_file p c s) = mainPage s" "popupPage (write_file p c s) = popupPage s"
  by (simp_all add: write_file_def)

subsection \<open>The resolver\<close>

lemma lower_char_idem: "lower_char (lower_char c) = lower_char c"
  by (simp add: lower_char_def split: if_splits)

lemma toLowerCase_idem: "toLowerCase (toLowerCase s) = toLowerCase s"
  by (simp add: toLowerCase_def lower_char_idem)

lemma sublist_toLowerCase: "sublist n h \<Longrightarrow> sublist (toLowerCase n) (toLowerCase h)"
  unfolding toLowerCase_def by (rule map_mono_sublist)

lemma selector_imp_keyword: "selector_match needles l \<Longrightarrow> keyword_match needles l"
proof (cases l)
  case (Anchor h v)
  assume "selector_match needles l"
  with Anchor obtain n where n: "n \<in> set needles" "sublist (toLowerCase n) h"
    by (auto simp: selector_match_def list_ex_iff css_contains_def)
  from n(2) have "sublist (toLowerCase (toLowerCase n)) (toLowerCase h)"
    by (rule sublist_toLowerCase)
  then have "sublist (toLowerCase n) (toLowerCase h)" by (simp add: toLowerCase_idem)
  with n(1) Anchor show ?thesis by (auto simp: keyword_match_def list_ex_iff)
next
  case (Form a v)
  assume "selector_match needles l"
  with Form show ?thesis by (simp add: selector_match_def)
qed

lemma find_narrow:
  "find P ls = Some l \<Longrightarrow> Q l \<Longrightarrow> (\<And>x. Q x \<Longrightarrow> P x) \<Longrightarrow> find Q ls = Some l"
  by (induction ls) (auto split: if_splits)

lemma scanAnchors_alt:
  "scanAnchors e base ls (map toLowerCase needles) =
     (case find (keyword_match needles) ls of
        Some (Anchor h v) \<Rightarrow> Some (anchorHref e base h)
      | _ \<Rightarrow> None)"
proof -
  have "(\<lambda>l. case l of
               Anchor h v \<Rightarrow> list_ex (\<lambda>n. sublist n (toLowerCase h))
                               (map toLowerCase (map toLowerCase needles))
             | Form a v \<Rightarrow> False) = keyword_match needles"
    by (rule ext) (simp add: keyword_match_def list_ex_iff toLowerCase_idem split: link.splits)
  then show ?thesis by (simp only: scanAnchors_def Let_def)
qed

lemma resolveHref_alt:
  "resolveHref e base ls needles =
     (case find (selector_match needles) ls of
        Some (Anchor h True) \<Rightarrow> Some (case mkURL e h base of Some u \<Rightarrow> u | None \<Rightarrow> h)
      | _ \<Rightarrow> (case find (keyword_match needles) ls of
                Some (Anchor h v) \<Rightarrow> Some (anchorHref e base h)
              | _ \<Rightarrow> None))"
proof -
  have eq: "(\<lambda>l. case l of
               Anchor h v \<Rightarrow> list_ex (\<lambda>n. css_contains n h) (map toLowerCase needles)
             | Form a v \<Rightarrow> False) = selector_match needles"
    by (rule ext) (simp add: selector_match_def list_ex_iff split: link.splits)
  have nonempty: "h \<noteq> []" if "find (selector_match needles) ls = Some (Anchor h v)" for h v
  proof -
    from that have "selector_match needles (Anchor h v)"
      by (auto simp: find_Some_iff)
    then show ?thesis
      by (auto simp: selector_match_def list_ex_iff css_contains_def)
  qed
  show ?thesis
    unfolding resolveHref_def Let_def eq scanAnchors_alt
    by (auto split: option.splits link.splits bool.splits dest: nonempty)
qed

lemma find_is_anchor:
  "find (keyword_match needles) ls = Some l \<Longrightarrow> \<exists>h v. l = Anchor h v"
proof -
  assume "find (keyword_match needles) ls = Some l"
  then have "keyword_match needles l" by (auto simp: find_Some_iff)
  then show ?thesis by (cases l) (auto simp: keyword_match_def)
qed

text \<open>
  What the resolver returns in general: an address exactly when some anchor's address
  contains a keyword, case ignored; and the address of the first anchor in document
  order that the selector of the fast path matches, when there is one: resolved by
  \<^verbatim>\<open>new URL\<close> if the anchor is visible (the raw attribute when \<^verbatim>\<open>new URL\<close>
  throws), by the anchor's own \<^verbatim>\<open>href\<close> property if it is hidden.
\<close>

lemma resolveHref_result:
  "(list_ex (keyword_match needles) ls \<longrightarrow> resolveHref e base ls needles \<noteq> None)
 \<and> (\<not> list_ex (keyword_match needles) ls \<longrightarrow> resolveHref e base ls needles = None)
 \<and> (find (keyword_match needles) ls = Some (Anchor h v)
      \<and> selector_match needles (Anchor h v)
    \<longrightarrow> resolveHref e base ls needles =
          Some (if v then (case mkURL e h base of Some u \<Rightarrow> u | None \<Rightarrow> h)
                else anchorHref e base h))"
proof (intro conjI impI)
  assume "list_ex (keyword_match needles) ls"
  then obtain l where "find (keyword_match needles) ls = Some l"
    by (cases "find (keyword_match needles) ls") (auto simp: find_None_iff list_ex_iff)
  moreover from this obtain h' v' where "l = Anchor h' v'" using find_is_anchor by blast
  ultimately show "resolveHref e base ls needles \<noteq> None"
    by (auto simp: resolveHref_alt split: option.splits link.splits bool.splits)
next
  assume no: "\<not> list_ex (keyword_match needles) ls"
  then have k: "find (keyword_match needles) ls = None"
    by (auto simp: find_None_iff list_ex_iff)
  from no have "find (selector_match needles) ls = None"
    by (auto simp: find_None_iff list_ex_iff dest: selector_imp_keyword)
  with k show "resolveHref e base ls needles = None"
    by (simp add: resolveHref_alt)
next
  assume a: "find (keyword_match needles) ls = Some (Anchor h v)
             \<and> selector_match needles (Anchor h v)"
  then have "find (selector_match needles) ls = Some (Anchor h v)"
    using find_narrow [of "keyword_match needles" ls "Anchor h v" "selector_match needles"]
          selector_imp_keyword by blast
  with a show "resolveHref e base ls needles =
           Some (if v then (case mkURL e h base of Some u \<Rightarrow> u | None \<Rightarrow> h)
                 else anchorHref e base h)"
    by (simp add: resolveHref_alt)
qed

text \<open>
  C6 does not hold of the program. On a page with two visible anchors, the first to
  \<^verbatim>\<open>/Confirmation?id=1\<close> and the second to \<^verbatim>\<open>/confirmation?id=2\<close>, both addresses
  contain the keyword \<^verbatim>\<open>confirmation\<close> when case is ignored and the first match in
  document order is the first anchor, but the resolver returns the address of the
  second. The program lower-cases the keywords (line 255) and its scan lower-cases the
  addresses (lines 276 to 280), and that scan alone returns the first anchor; the
  selector of the fast path (line 267) is written without the flag that ignores case,
  so it passes over the first anchor and the scan is never reached.
\<close>

theorem resolveHref_passes_over_capital:
  "list_all (keyword_match [''confirmation'']) mixed_case_links
   \<and> find (keyword_match [''confirmation'']) mixed_case_links
     = Some (Anchor ''/Confirmation?id=1'' True)
   \<and> resolveHref sample_env home_url mixed_case_links [''confirmation'']
     = Some ''https://www.swoogo.com/confirmation?id=2''
   \<and> scanAnchors sample_env home_url mixed_case_links [''confirmation'']
     = Some ''https://www.swoogo.com/Confirmation?id=1''"
  by code_simp

subsection \<open>The confirmation capture\<close>




subsection \<open>The ticket email preview\<close>

text \<open>
  C5 does not hold of the program. On a send-email page whose preview frame never shows
  up within the wait, and of which a screenshot would succeed,
  \<^verbatim>\<open>captureIframeBySrc\<close> throws at the wait of line 344 and writes nothing; the
  ticket step catches the error and logs a warning, and no file of the ticket email
  preview is there. The fallback of the function itself, lines 355 to 359, is behind
  that wait: it saves the whole page (under the \<^verbatim>\<open>__full\<close> name, with a warning)
  only when the frame element is there and has no content frame.
\<close>

theorem preview_timeout_leaves_no_file:
  "pageShotOk no_preview_page \<and> \<not> previewIframe no_preview_page
   \<and> observed (captureIframeBySrc ''/out/1/1__03_Ticket_Email_Preview.png''
                 (on_page no_preview_page))
     = (Inl ''page.waitForSelector: Timeout 15000ms exceeded'', [], [], [], [], [])
   \<and> site no_preview_env ''https://www.swoogo.com/loggedin/registrant/send-email''
     = Some no_preview_page
   \<and> observed (step03 no_preview_env home_url ''/out/1'' ''1'' (on_page link_page))
     = (Inr (), [], [], [], [],
        [Warn ''Could not capture Ticket Email Preview: page.waitForSelector: Timeout 15000ms exceeded''])
   \<and> previewIframe no_frame_page \<and> \<not> previewFrame no_frame_page
   \<and> observed (captureIframeBySrc ''/out/1/1__03_Ticket_Email_Preview.png''
                 (on_page no_frame_page))
     = (Inr False, [],
        [(''/out/1/1__03_Ticket_Email_Preview__full.png'',
          FullPage ''https://www.swoogo.com/loggedin/registrant/send-email'')], [], [],
        [Warn ''Could not resolve contentFrame; fallback to full page screenshot''])"
proof -
  have "site no_preview_env ''https://www.swoogo.com/loggedin/registrant/send-email''
        = Some no_preview_page"
    by (simp add: no_preview_env_def)
  moreover have "pageShotOk no_preview_page \<and> \<not> previewIframe no_preview_page
      \<and> previewIframe no_frame_page \<and> \<not> previewFrame no_frame_page"
    by code_simp
  moreover have "observed (captureIframeBySrc ''/out/1/1__03_Ticket_Email_Preview.png''
                 (on_page no_preview_page))
     = (Inl ''page.waitForSelector: Timeout 15000ms exceeded'', [], [], [], [], [])"
    by code_simp
  moreover have "observed (step03 no_preview_env home_url ''/out/1'' ''1'' (on_page link_page))
     = (Inr (), [], [], [], [],
        [Warn ''Could not capture Ticket Email Preview: page.waitForSelector: Timeout 15000ms exceeded''])"
    by code_simp
  moreover have "observed (captureIframeBySrc ''/out/1/1__03_Ticket_Email_Preview.png''
                 (on_page no_frame_page))
     = (Inr False, [],
        [(''/out/1/1__03_Ticket_Email_Preview__full.png'',
          FullPage ''https://www.swoogo.com/loggedin/registrant/send-email'')], [], [],
        [Warn ''Could not resolve contentFrame; fallback to full page screenshot''])"
    by code_simp
  ultimately show ?thesis by blast
qed

subsection \<open>The full-page capture\<close>

lemma takeWhile_all: "c \<notin> set xs \<Longrightarrow> takeWhile (\<lambda>x. x \<noteq> c) xs = xs"
  by (induction xs) auto

lemma dropWhile_all: "c \<notin> set xs \<Longrightarrow> dropWhile (\<lambda>x. x \<noteq> c) xs = []"
  by (induction xs) auto

lemma takeWhile_sep: "c \<notin> set xs \<Longrightarrow> takeWhile (\<lambda>x. x \<noteq> c) (xs @ c # ys) = xs"
  by (induction xs) auto

lemma dropWhile_sep: "c \<notin> set xs \<Longrightarrow> dropWhile (\<lambda>x. x \<noteq> c) (xs @ c # ys) = c # ys"
  by (induction xs) auto

lemma set_overflow_empty:
  "set_overflow [] m = m\<lparr>overflowX := None, overflowY := None\<rparr>"
  by (simp add: set_overflow_def)

lemma keyword_no_space:
  assumes "overflow_keyword a \<or> css_wide a"
  shows "a \<noteq> []" and "CHR '' '' \<notin> set a"
  using assms by (auto simp: overflow_keyword_def css_wide_def)

lemma set_overflow_one:
  assumes "overflow_keyword a \<or> css_wide a"
  shows "set_overflow a m = m\<lparr>overflowX := Some (a, False), overflowY := Some (a, False)\<rparr>"
  using assms keyword_no_space [OF assms]
  by (simp add: set_overflow_def Let_def takeWhile_all dropWhile_all)

lemma set_overflow_two:
  assumes "overflow_keyword a" and "overflow_keyword b"
  shows "set_overflow (a @ CHR '' '' # b) m
         = m\<lparr>overflowX := Some (a, False), overflowY := Some (b, False)\<rparr>"
  using assms keyword_no_space [of a]
  by (simp add: set_overflow_def Let_def takeWhile_sep dropWhile_sep)

lemma keyword_not_wide: "overflow_keyword a \<Longrightarrow> \<not> css_wide a"
  by (auto simp: overflow_keyword_def css_wide_def)

lemma set_get_overflow:
  assumes "both_or_neither n"
  shows "overflowX (set_overflow (get_overflow n) m) = overflowX n
       \<and> overflowY (set_overflow (get_overflow n) m) = overflowY n"
proof (cases "overflowX n")
  case None
  with assms have y: "overflowY n = None"
    by (simp add: both_or_neither_def split: option.splits)
  from None y have "get_overflow n = []" by (simp add: get_overflow_def)
  with None y show ?thesis by (simp add: set_overflow_empty)
next
  case (Some dx)
  obtain x ix where dx: "dx = (x, ix)" by (cases dx)
  from assms Some dx obtain y iy where Y: "overflowY n = Some (y, iy)"
    by (cases "overflowY n") (auto simp: both_or_neither_def)
  from assms Some dx Y have pr: "\<not> ix" "\<not> iy"
    and kw: "(overflow_keyword x \<and> overflow_keyword y) \<or> (css_wide x \<and> x = y)"
    by (simp_all add: both_or_neither_def)
  show ?thesis
  proof (cases "x = y")
    case True
    with Some dx Y pr have g: "get_overflow n = x" by (simp add: get_overflow_def)
    from kw True have "overflow_keyword x \<or> css_wide x" by blast
    from set_overflow_one [OF this] g Some dx Y pr True show ?thesis by simp
  next
    case False
    with kw have k: "overflow_keyword x" "overflow_keyword y" by blast+
    with False Some dx Y pr have g: "get_overflow n = x @ CHR '' '' # y"
      by (simp add: get_overflow_def keyword_not_wide)
    from set_overflow_two [OF k] g Some dx Y pr show ?thesis by simp
  qed
qed

lemma set_get_prop: "plain d \<Longrightarrow> set_prop (get_prop d) = d"
  by (auto simp: plain_def set_prop_def get_prop_def split: option.splits)

lemma the_pg_set_doc [simp]: "the_pg t (set_doc t d s) = (the_pg t s)\<lparr>doc := d\<rparr>"
  by (cases t; cases "popupPage s") (simp_all add: the_pg_def set_doc_def)

lemma the_pg_write_file [simp]: "the_pg t (write_file p c s) = the_pg t s"
  by (cases t; cases "popupPage s") (simp_all add: the_pg_def write_file_def)

lemma the_pg_logs [simp]: "the_pg t (s\<lparr>logs := l\<rparr>) = the_pg t s"
  by (cases t; cases "popupPage s") (simp_all add: the_pg_def)

lemma set_doc_twice [simp]: "set_doc t d (set_doc t d' s) = set_doc t d s"
  by (cases t; cases "popupPage s") (simp_all add: set_doc_def)

lemma the_pg_set_doc_write [simp]:
  "the_pg t (set_doc t d (write_file p c s)) = (the_pg t s)\<lparr>doc := d\<rparr>"
  by (cases t; cases "popupPage s") (simp_all add: the_pg_def set_doc_def write_file_def)

lemma captureFullPage_ok:
  assumes "pageShotOk (surf (the_pg t s))"
  shows "captureFullPage t fileBase pdf s =
     (Inr (),
      (let d' = restoreScrollableContainers
                  (expandScrollableContainers (hideLeftPanel (doc (the_pg t s))));
           s3 = set_doc t d' (write_file (fileBase @ ''.png'') (FullPage (url (surf (the_pg t s)))) s);
           s4 = (if pdf \<and> pdfOk (surf (the_pg t s))
                 then write_file (fileBase @ ''.pdf'') (PdfExport (url (surf (the_pg t s)))) s3
                 else s3)
       in s4\<lparr>logs := logs s4 @ [Info (basename fileBase @ ''.png'')]\<rparr>))"
proof -
  have w: "write_file p c (set_doc t d s) = set_doc t d (write_file p c s)" for p c d
    by (cases t; cases "popupPage s") (simp_all add: set_doc_def write_file_def)
  show ?thesis
    using assms by (simp add: captureFullPage_def Let_def console_def w)
qed

lemma captureFullPage_doc:
  assumes "pageShotOk (surf (the_pg t s))"
  shows "fst (captureFullPage t fileBase pdf s) = Inr ()
       \<and> doc (the_pg t (snd (captureFullPage t fileBase pdf s)))
          = restoreScrollableContainers
              (expandScrollableContainers (hideLeftPanel (doc (the_pg t s))))"
  by (simp add: captureFullPage_ok [OF assms] Let_def)

lemma set_overflow_frame [simp]:
  "height (set_overflow v n) = height n" "maxHeight (set_overflow v n) = maxHeight n"
  "pre_expand (set_overflow v n) = pre_expand n" "scrollable (set_overflow v n) = scrollable n"
  "scrollHeight (set_overflow v n) = scrollHeight n"
  by (simp_all add: set_overflow_def Let_def)

lemma restore_expand_node:
  assumes "pre_expand n = None"
  shows "pre_expand (restore_node (expand_node n)) = None
       \<and> (\<not> scrollable n \<longrightarrow> restore_node (expand_node n) = n)
       \<and> (plain (height n) \<longrightarrow> height (restore_node (expand_node n)) = height n)
       \<and> (plain (maxHeight n) \<longrightarrow> maxHeight (restore_node (expand_node n)) = maxHeight n)
       \<and> (both_or_neither n \<longrightarrow>
            overflowX (restore_node (expand_node n)) = overflowX n
          \<and> overflowY (restore_node (expand_node n)) = overflowY n)"
proof (cases "scrollable n")
  case False
  with assms show ?thesis by (simp add: expand_node_def restore_node_def)
next
  case True
  with assms show ?thesis
    by (simp add: expand_node_def restore_node_def set_get_overflow set_get_prop)
qed

lemma set_visible:
  "overflowX (set_overflow ''visible'' n) = Some (''visible'', False)"
  "overflowY (set_overflow ''visible'' n) = Some (''visible'', False)"
  by (simp_all add: set_overflow_def Let_def overflow_keyword_def)

lemma get_visible: "get_overflow (set_overflow ''visible'' n) = ''visible''"
  by (simp add: get_overflow_def set_overflow_def Let_def overflow_keyword_def)

lemma restore_expand_root:
  assumes "pre_expand n = None"
  shows "overflowX (restore_node (expand_node (set_overflow ''visible'' n))) = Some (''visible'', False)
       \<and> overflowY (restore_node (expand_node (set_overflow ''visible'' n))) = Some (''visible'', False)"
proof (cases "scrollable n")
  case False
  with assms show ?thesis by (simp add: expand_node_def restore_node_def set_visible)
next
  case True
  with assms show ?thesis
    by (simp add: expand_node_def restore_node_def set_visible get_visible)
qed

text \<open>
  C8, as the program has it. After a full-page capture of a page without stale markers
  has returned, no element other than the document root and the body carries a marker,
  and an element that was not expanded is as it was. An expanded element has its inline
  height back when that was declared without \<^verbatim>\<open>!important\<close> or not at all, and
  likewise its maximal height; its overflow declarations are back when its inline style
  declared neither of them, or both without \<^verbatim>\<open>!important\<close> as two overflow keywords
  or as the same CSS-wide keyword. The inline overflow of the document root and of the
  body is \<^verbatim>\<open>visible\<close>, and the style sheet that hides the side panel stays in the
  page.
\<close>

theorem full_page_restores_containers:
  assumes "pageShotOk (surf (the_pg t s))" and "unmarked (doc (the_pg t s))"
      and "d = doc (the_pg t s)" and "d' = doc (the_pg t (snd (captureFullPage t fileBase pdf s)))"
  shows "fst (captureFullPage t fileBase pdf s) = Inr ()
       \<and> length (others d') = length (others d)
       \<and> (\<forall>i < length (others d).
             pre_expand (others d' ! i) = None
           \<and> (\<not> scrollable (others d ! i) \<longrightarrow> others d' ! i = others d ! i)
           \<and> (plain (height (others d ! i)) \<longrightarrow>
                height (others d' ! i) = height (others d ! i))
           \<and> (plain (maxHeight (others d ! i)) \<longrightarrow>
                maxHeight (others d' ! i) = maxHeight (others d ! i))
           \<and> (both_or_neither (others d ! i) \<longrightarrow>
                overflowX (others d' ! i) = overflowX (others d ! i)
              \<and> overflowY (others d' ! i) = overflowY (others d ! i)))
       \<and> overflowX (root d') = Some (''visible'', False)
       \<and> overflowY (root d') = Some (''visible'', False)
       \<and> overflowX (body d') = Some (''visible'', False)
       \<and> overflowY (body d') = Some (''visible'', False)
       \<and> styleTags d' = styleTags d + 1"
proof -
  have d': "d' = restoreScrollableContainers (expandScrollableContainers (hideLeftPanel d))"
    and ok: "fst (captureFullPage t fileBase pdf s) = Inr ()"
    using captureFullPage_doc [OF assms(1)] assms(3,4) by simp_all
  have um: "pre_expand (root d) = None" "pre_expand (body d) = None"
    "\<And>i. i < length (others d) \<Longrightarrow> pre_expand (others d ! i) = None"
    using assms(2,3) by (auto simp: unmarked_def list_all_length)
  have others: "others d' = map (\<lambda>n. restore_node (expand_node n)) (others d)"
    by (simp add: d' restoreScrollableContainers_def expandScrollableContainers_def
          hideLeftPanel_def)
  have root: "root d' = restore_node (expand_node (set_overflow ''visible'' (root d)))"
    and body: "body d' = restore_node (expand_node (set_overflow ''visible'' (body d)))"
    and tags: "styleTags d' = styleTags d + 1"
    by (simp_all add: d' restoreScrollableContainers_def expandScrollableContainers_def
          hideLeftPanel_def)
  show ?thesis
    using ok restore_expand_root [OF um(1)] restore_expand_root [OF um(2)]
          restore_expand_node [OF um(3)]
    by (simp add: others root body tags)
qed

theorem full_page_restores_containers_witness:
  "pageShotOk (surf (the_pg MainPage (on_page scroll_page)))
   \<and> unmarked (doc (the_pg MainPage (on_page scroll_page)))
   \<and> length (others (doc (the_pg MainPage (on_page scroll_page)))) = 4
   \<and> scrollable (others (doc (the_pg MainPage (on_page scroll_page))) ! 0)
   \<and> plain (height (others (doc (the_pg MainPage (on_page scroll_page))) ! 0))
   \<and> plain (maxHeight (others (doc (the_pg MainPage (on_page scroll_page))) ! 0))
   \<and> both_or_neither (others (doc (the_pg MainPage (on_page scroll_page))) ! 0)
   \<and> height (others (doc (the_pg MainPage
        (snd (captureFullPage MainPage ''/out/1/1__06_Invoice'' False (on_page scroll_page))))) ! 0)
       = Some (''300px'', False)
   \<and> maxHeight (others (doc (the_pg MainPage
        (snd (captureFullPage MainPage ''/out/1/1__06_Invoice'' False (on_page scroll_page))))) ! 0)
       = None
   \<and> overflowX (others (doc (the_pg MainPage
        (snd (captureFullPage MainPage ''/out/1/1__06_Invoice'' False (on_page scroll_page))))) ! 0)
       = Some (''hidden'', False)
   \<and> overflowY (others (doc (the_pg MainPage
        (snd (captureFullPage MainPage ''/out/1/1__06_Invoice'' False (on_page scroll_page))))) ! 0)
       = Some (''auto'', False)
   \<and> \<not> scrollable (others (doc (the_pg MainPage (on_page scroll_page))) ! 3)
   \<and> others (doc (the_pg MainPage
        (snd (captureFullPage MainPage ''/out/1/1__06_Invoice'' False (on_page scroll_page))))) ! 3
       = blank_node\<lparr>overflowY := Some (''scroll'', True)\<rparr>"
proof -
  have a: "pageShotOk (surf (the_pg MainPage (on_page scroll_page)))"
    by (simp add: the_pg_def on_page_def scroll_page_def plain_page_def)
  have b: "unmarked (doc (the_pg MainPage (on_page scroll_page)))"
    by (simp add: the_pg_def on_page_def scroll_page_def plain_page_def unmarked_def
          blank_doc_def blank_node_def)
  have c: "others (doc (the_pg MainPage (on_page scroll_page)))
           = [blank_node\<lparr>height := Some (''300px'', False), overflowX := Some (''hidden'', False),
                         overflowY := Some (''auto'', False), scrollable := True,
                         scrollHeight := 1200\<rparr>,
              blank_node\<lparr>overflowX := Some (''hidden'', True), overflowY := Some (''auto'', False),
                         scrollable := True, scrollHeight := 900\<rparr>,
              blank_node\<lparr>height := Some (''200px'', True), scrollable := True,
                         scrollHeight := 800\<rparr>,
              blank_node\<lparr>overflowY := Some (''scroll'', True)\<rparr>]"
    by (simp add: the_pg_def on_page_def scroll_page_def plain_page_def blank_doc_def)
  have h: "scrollable (others (doc (the_pg MainPage (on_page scroll_page))) ! 0)"
    "plain (height (others (doc (the_pg MainPage (on_page scroll_page))) ! 0))"
    "plain (maxHeight (others (doc (the_pg MainPage (on_page scroll_page))) ! 0))"
    "both_or_neither (others (doc (the_pg MainPage (on_page scroll_page))) ! 0)"
    "\<not> scrollable (others (doc (the_pg MainPage (on_page scroll_page))) ! 3)"
    by (simp_all add: c plain_def both_or_neither_def blank_node_def overflow_keyword_def)
  have r: "\<And>i. i < 4 \<Longrightarrow>
      (\<not> scrollable (others (doc (the_pg MainPage (on_page scroll_page))) ! i) \<longrightarrow>
         others (doc (the_pg MainPage
           (snd (captureFullPage MainPage ''/out/1/1__06_Invoice'' False (on_page scroll_page))))) ! i
         = others (doc (the_pg MainPage (on_page scroll_page))) ! i)
    \<and> (plain (height (others (doc (the_pg MainPage (on_page scroll_page))) ! i)) \<longrightarrow>
         height (others (doc (the_pg MainPage
           (snd (captureFullPage MainPage ''/out/1/1__06_Invoice'' False (on_page scroll_page))))) ! i)
         = height (others (doc (the_pg MainPage (on_page scroll_page))) ! i))
    \<and> (plain (maxHeight (others (doc (the_pg MainPage (on_page scroll_page))) ! i)) \<longrightarrow>
         maxHeight (others (doc (the_pg MainPage
           (snd (captureFullPage MainPage ''/out/1/1__06_Invoice'' False (on_page scroll_page))))) ! i)
         = maxHeight (others (doc (the_pg MainPage (on_page scroll_page))) ! i))
    \<and> (both_or_neither (others (doc (the_pg MainPage (on_page scroll_page))) ! i) \<longrightarrow>
         overflowX (others (doc (the_pg MainPage
           (snd (captureFullPage MainPage ''/out/1/1__06_Invoice'' False (on_page scroll_page))))) ! i)
         = overflowX (others (doc (the_pg MainPage (on_page scroll_page))) ! i)
       \<and> overflowY (others (doc (the_pg MainPage
           (snd (captureFullPage MainPage ''/out/1/1__06_Invoice'' False (on_page scroll_page))))) ! i)
         = overflowY (others (doc (the_pg MainPage (on_page scroll_page))) ! i))"
    using full_page_restores_containers [OF a b refl refl, of "''/out/1/1__06_Invoice''" False]
    by (simp add: c)
  from r [of 0] r [of 3] h have
    "height (others (doc (the_pg MainPage
        (snd (captureFullPage MainPage ''/out/1/1__06_Invoice'' False (on_page scroll_page))))) ! 0)
       = height (others (doc (the_pg MainPage (on_page scroll_page))) ! 0)"
    "maxHeight (others (doc (the_pg MainPage
        (snd (captureFullPage MainPage ''/out/1/1__06_Invoice'' False (on_page scroll_page))))) ! 0)
       = maxHeight (others (doc (the_pg MainPage (on_page scroll_page))) ! 0)"
    "overflowX (others (doc (the_pg MainPage
        (snd (captureFullPage MainPage ''/out/1/1__06_Invoice'' False (on_page scroll_page))))) ! 0)
       = overflowX (others (doc (the_pg MainPage (on_page scroll_page))) ! 0)"
    "overflowY (others (doc (the_pg MainPage
        (snd (captureFullPage MainPage ''/out/1/1__06_Invoice'' False (on_page scroll_page))))) ! 0)
       = overflowY (others (doc (the_pg MainPage (on_page scroll_page))) ! 0)"
    "others (doc (the_pg MainPage
        (snd (captureFullPage MainPage ''/out/1/1__06_Invoice'' False (on_page scroll_page))))) ! 3
       = others (doc (the_pg MainPage (on_page scroll_page))) ! 3"
    by simp_all
  with a b h show ?thesis by (simp add: c blank_node_def)
qed

text \<open>
  C8 as stated fails on any page: the document root had no inline overflow before the
  capture and has \<^verbatim>\<open>visible\<close> after it, and the page holds one more style sheet.
  On the page with the scrollable containers, the one whose horizontal overflow was
  hidden with priority has lost both overflow declarations, and the one whose height
  was fixed with priority has lost the priority.
\<close>

theorem full_page_restores_containers_counterexample:
  "fst (captureFullPage MainPage ''/out/1/1__06_Invoice'' False
          (on_page (plain_page ''https://www.swoogo.com/s''))) = Inr ()
   \<and> overflowX (root (doc (mainPage (on_page (plain_page ''https://www.swoogo.com/s''))))) = None
   \<and> overflowX (root (doc (mainPage (snd (captureFullPage MainPage ''/out/1/1__06_Invoice'' False
          (on_page (plain_page ''https://www.swoogo.com/s''))))))) = Some (''visible'', False)
   \<and> styleTags (doc (mainPage (on_page (plain_page ''https://www.swoogo.com/s'')))) = 0
   \<and> styleTags (doc (mainPage (snd (captureFullPage MainPage ''/out/1/1__06_Invoice'' False
          (on_page (plain_page ''https://www.swoogo.com/s'')))))) = 1
   \<and> map (\<lambda>n. (height n, overflowX n, overflowY n))
       (others (doc (mainPage (on_page scroll_page))))
     = [(Some (''300px'', False), Some (''hidden'', False), Some (''auto'', False)),
        (None, Some (''hidden'', True), Some (''auto'', False)),
        (Some (''200px'', True), None, None),
        (None, None, Some (''scroll'', True))]
   \<and> map (\<lambda>n. (height n, overflowX n, overflowY n))
       (others (doc (mainPage (snd (captureFullPage MainPage ''/out/1/1__06_Invoice'' False
          (on_page scroll_page))))))
     = [(Some (''300px'', False), Some (''hidden'', False), Some (''auto'', False)),
        (None, None, None),
        (Some (''200px'', False), None, None),
        (None, None, Some (''scroll'', True))]"
  by code_simp

subsection \<open>The exit status\<close>

lemma sample_urls: "usable_urls sample_args [sample_row] = [home_url]"
  by code_simp

text \<open>
  C9, as the program has it. The exit status is 1 when the storage configuration is
  missing, incomplete or refused by the storage library: the error is thrown when the
  module loads, whatever the arguments and the input. With a configuration that is
  accepted, a run with \<^verbatim>\<open>--save-session\<close> ends with 0 once the session is saved and
  with 1 when saving it throws, whatever the input. Without \<^verbatim>\<open>--save-session\<close> the
  exit status is 1 when no input file is named, when the output directory is not named
  or cannot be made, when the input file cannot be read, when no row is usable, and when
  the browser, its context or its page cannot be opened. Once the run over a non-empty
  list has started, nothing that happens to a registrant changes the outcome: the
  program leaves the browser open, so the process stays after the last registrant, and
  its exit status is 0 once the browser has been closed.
\<close>

theorem exit_status_cases:
  "(buildAzureContainerClient sdk pe = Inl msg \<longrightarrow>
      exit_status (main sdk pe out e a s0) = Some 1)
 \<and> (buildAzureContainerClient sdk pe = Inr c \<and> arg_saveSession a \<longrightarrow>
      exit_status (main sdk pe out e a s0)
      = (case saveSessionResult out of
           None \<Rightarrow> None
         | Some (Inl m) \<Rightarrow> Some 1
         | Some (Inr u) \<Rightarrow> Some 0))
 \<and> (buildAzureContainerClient sdk pe = Inr c \<and> \<not> arg_saveSession a
      \<and> (\<not> truthy (arg_in a) \<or> arg_outDir a = None \<or> \<not> mkdirRootOk out
          \<or> csvRows out (the (arg_in a)) = Inl msg
          \<or> (csvRows out (the (arg_in a)) = Inr rows
              \<and> (usable_urls a rows = [] \<or> \<not> launchOk out \<or> \<not> contextOk out)))
      \<longrightarrow> exit_status (main sdk pe out e a s0) = Some 1)
 \<and> (buildAzureContainerClient sdk pe = Inr c \<and> \<not> arg_saveSession a \<and> truthy (arg_in a)
      \<and> arg_outDir a = Some outDir \<and> mkdirRootOk out
      \<and> csvRows out (the (arg_in a)) = Inr rows \<and> usable_urls a rows \<noteq> []
      \<and> launchOk out \<and> contextOk out
      \<longrightarrow> exit_status (main sdk pe out e a s0) = (if browserClosed out then Some 0 else None))"
proof -
  have 1: "buildAzureContainerClient sdk pe = Inl msg \<longrightarrow>
      exit_status (main sdk pe out e a s0) = Some 1"
    by (simp add: main_def exit_status_def)
  have 2: "buildAzureContainerClient sdk pe = Inr c \<and> arg_saveSession a \<longrightarrow>
      exit_status (main sdk pe out e a s0)
      = (case saveSessionResult out of
           None \<Rightarrow> None
         | Some (Inl m) \<Rightarrow> Some 1
         | Some (Inr u) \<Rightarrow> Some 0)"
    by (simp add: main_def exit_status_def split: option.splits sum.splits)
  have 3: "buildAzureContainerClient sdk pe = Inr c \<and> \<not> arg_saveSession a
      \<and> (\<not> truthy (arg_in a) \<or> arg_outDir a = None \<or> \<not> mkdirRootOk out
          \<or> csvRows out (the (arg_in a)) = Inl msg
          \<or> (csvRows out (the (arg_in a)) = Inr rows
              \<and> (usable_urls a rows = [] \<or> \<not> launchOk out \<or> \<not> contextOk out)))
      \<longrightarrow> exit_status (main sdk pe out e a s0) = Some 1"
    by (auto simp: main_def exit_status_def Let_def split: option.splits sum.splits)
  have 4: "buildAzureContainerClient sdk pe = Inr c \<and> \<not> arg_saveSession a \<and> truthy (arg_in a)
      \<and> arg_outDir a = Some outDir \<and> mkdirRootOk out
      \<and> csvRows out (the (arg_in a)) = Inr rows \<and> usable_urls a rows \<noteq> []
      \<and> launchOk out \<and> contextOk out
      \<longrightarrow> exit_status (main sdk pe out e a s0) = (if browserClosed out then Some 0 else None)"
    by (simp add: main_def exit_status_def Let_def)
  from 1 2 3 4 show ?thesis by blast
qed

theorem exit_status_cases_witness:
  "buildAzureContainerClient sample_sdk no_container_env = Inl ''AZURE_BLOB_CONTAINER is not set''
   \<and> exit_status (main sample_sdk no_container_env sample_outside sample_env sample_args start)
       = Some 1
   \<and> buildAzureContainerClient sample_sdk malformed_process_env = Inl ''Invalid connection string''
   \<and> exit_status (main sample_sdk malformed_process_env sample_outside sample_env sample_args start)
       = Some 1
   \<and> buildAzureContainerClient sample_sdk sample_process_env
       = Inr (OfConnectionString ''UseDevelopmentStorage=true'' ''evidence'')
   \<and> arg_saveSession (sample_args\<lparr>arg_in := None, arg_saveSession := True\<rparr>)
   \<and> exit_status (main sample_sdk sample_process_env sample_outside sample_env
                     (sample_args\<lparr>arg_in := None, arg_saveSession := True\<rparr>) start) = Some 0
   \<and> \<not> arg_saveSession sample_args \<and> truthy (arg_in sample_args)
   \<and> arg_outDir sample_args = Some ''out'' \<and> mkdirRootOk sample_outside
   \<and> csvRows sample_outside (the (arg_in sample_args)) = Inr [sample_row]
   \<and> usable_urls sample_args [sample_row] \<noteq> []
   \<and> launchOk sample_outside \<and> contextOk sample_outside \<and> browserClosed sample_outside
   \<and> exit_status (main sample_sdk sample_process_env sample_outside unreachable_env sample_args
                     start) = Some 0
   \<and> \<not> browserClosed (sample_outside\<lparr>browserClosed := False\<rparr>)
   \<and> exit_status (main sample_sdk sample_process_env (sample_outside\<lparr>browserClosed := False\<rparr>)
                     unreachable_env sample_args start) = None
   \<and> usable_urls sample_args [] = []
   \<and> exit_status (main sample_sdk sample_process_env (sample_outside\<lparr>csvRows := (\<lambda>fp. Inr [])\<rparr>)
                     sample_env sample_args start) = Some 1
   \<and> \<not> launchOk (sample_outside\<lparr>launchOk := False\<rparr>)
   \<and> exit_status (main sample_sdk sample_process_env (sample_outside\<lparr>launchOk := False\<rparr>)
                     sample_env sample_args start) = Some 1
   \<and> \<not> contextOk (sample_outside\<lparr>contextOk := False\<rparr>)
   \<and> exit_status (main sample_sdk sample_process_env (sample_outside\<lparr>contextOk := False\<rparr>)
                     sample_env sample_args start) = Some 1
   \<and> \<not> mkdirRootOk (sample_outside\<lparr>mkdirRootOk := False\<rparr>)
   \<and> exit_status (main sample_sdk sample_process_env (sample_outside\<lparr>mkdirRootOk := False\<rparr>)
                     sample_env sample_args start) = Some 1
   \<and> arg_outDir (sample_args\<lparr>arg_outDir := None\<rparr>) = None
   \<and> exit_status (main sample_sdk sample_process_env sample_outside sample_env
                     (sample_args\<lparr>arg_outDir := None\<rparr>) start) = Some 1
   \<and> \<not> truthy (arg_in (sample_args\<lparr>arg_in := None\<rparr>))
   \<and> exit_status (main sample_sdk sample_process_env sample_outside sample_env
                     (sample_args\<lparr>arg_in := None\<rparr>) start) = Some 1"
proof -
  have b: "buildAzureContainerClient sample_sdk no_container_env
           = Inl ''AZURE_BLOB_CONTAINER is not set''"
    by code_simp
  have m: "buildAzureContainerClient sample_sdk malformed_process_env
           = Inl ''Invalid connection string''"
    by code_simp
  have g: "buildAzureContainerClient sample_sdk sample_process_env
       = Inr (OfConnectionString ''UseDevelopmentStorage=true'' ''evidence'')"
    by code_simp
  have a: "\<not> arg_saveSession sample_args" "truthy (arg_in sample_args)"
    "arg_outDir sample_args = Some ''out''"
    "arg_saveSession (sample_args\<lparr>arg_in := None, arg_saveSession := True\<rparr>)"
    by code_simp+
  have o: "mkdirRootOk sample_outside" "launchOk sample_outside" "contextOk sample_outside"
    "browserClosed sample_outside" "saveSessionResult sample_outside = Some (Inr ())"
    "csvRows sample_outside (the (arg_in sample_args)) = Inr [sample_row]"
    by (simp_all add: sample_outside_def)
  have o': "mkdirRootOk (sample_outside\<lparr>browserClosed := False\<rparr>)"
    "launchOk (sample_outside\<lparr>browserClosed := False\<rparr>)"
    "contextOk (sample_outside\<lparr>browserClosed := False\<rparr>)"
    "\<not> browserClosed (sample_outside\<lparr>browserClosed := False\<rparr>)"
    "csvRows (sample_outside\<lparr>browserClosed := False\<rparr>) (the (arg_in sample_args))
     = Inr [sample_row]"
    by (simp_all add: sample_outside_def)
  have r: "csvRows (sample_outside\<lparr>csvRows := (\<lambda>fp. Inr [])\<rparr>) (the (arg_in sample_args)) = Inr []"
    "csvRows (sample_outside\<lparr>launchOk := False\<rparr>) (the (arg_in sample_args)) = Inr [sample_row]"
    "\<not> launchOk (sample_outside\<lparr>launchOk := False\<rparr>)"
    by (simp_all add: sample_outside_def)
  have u0: "usable_urls sample_args [] = []"
    by (simp add: usable_urls_def List.map_filter_def)
  have u1: "usable_urls sample_args [sample_row] \<noteq> []"
    by (simp add: sample_urls)
  have w1: "exit_status (main sample_sdk no_container_env sample_outside sample_env sample_args
              start) = Some 1"
    using exit_status_cases [where sdk = sample_sdk and pe = no_container_env
        and msg = "''AZURE_BLOB_CONTAINER is not set''" and out = sample_outside
        and e = sample_env and a = sample_args and ?s0.0 = start] b
    by blast
  have w1': "exit_status (main sample_sdk malformed_process_env sample_outside sample_env
               sample_args start) = Some 1"
    using exit_status_cases [where sdk = sample_sdk and pe = malformed_process_env
        and msg = "''Invalid connection string''" and out = sample_outside
        and e = sample_env and a = sample_args and ?s0.0 = start] m
    by blast
  have "exit_status (main sample_sdk sample_process_env sample_outside sample_env
                     (sample_args\<lparr>arg_in := None, arg_saveSession := True\<rparr>) start)
        = (case saveSessionResult sample_outside of
             None \<Rightarrow> None
           | Some (Inl m) \<Rightarrow> Some 1
           | Some (Inr u) \<Rightarrow> Some 0)"
    using exit_status_cases [where sdk = sample_sdk and pe = sample_process_env
        and out = sample_outside
        and c = "OfConnectionString ''UseDevelopmentStorage=true'' ''evidence''"
        and e = sample_env and a = "sample_args\<lparr>arg_in := None, arg_saveSession := True\<rparr>"
        and ?s0.0 = start] g a(4)
    by blast
  then have ws: "exit_status (main sample_sdk sample_process_env sample_outside sample_env
                     (sample_args\<lparr>arg_in := None, arg_saveSession := True\<rparr>) start) = Some 0"
    by (simp add: o(5))
  have "exit_status (main sample_sdk sample_process_env sample_outside unreachable_env
               sample_args start) = (if browserClosed sample_outside then Some 0 else None)"
    using exit_status_cases [where sdk = sample_sdk and pe = sample_process_env
        and out = sample_outside
        and c = "OfConnectionString ''UseDevelopmentStorage=true'' ''evidence''"
        and e = unreachable_env and a = sample_args and ?s0.0 = start and rows = "[sample_row]"
        and outDir = "''out''"]
      g a(1-3) o u1
    by blast
  then have w2: "exit_status (main sample_sdk sample_process_env sample_outside unreachable_env
               sample_args start) = Some 0"
    by (simp add: o(4))
  have "exit_status (main sample_sdk sample_process_env (sample_outside\<lparr>browserClosed := False\<rparr>)
               unreachable_env sample_args start)
        = (if browserClosed (sample_outside\<lparr>browserClosed := False\<rparr>) then Some 0 else None)"
    using exit_status_cases [where sdk = sample_sdk and pe = sample_process_env
        and out = "sample_outside\<lparr>browserClosed := False\<rparr>"
        and c = "OfConnectionString ''UseDevelopmentStorage=true'' ''evidence''"
        and e = unreachable_env and a = sample_args and ?s0.0 = start and rows = "[sample_row]"
        and outDir = "''out''"]
      g a(1-3) o' u1
    by blast
  then have w2': "exit_status (main sample_sdk sample_process_env
               (sample_outside\<lparr>browserClosed := False\<rparr>) unreachable_env sample_args start) = None"
    by simp
  have w3: "exit_status (main sample_sdk sample_process_env
               (sample_outside\<lparr>csvRows := (\<lambda>fp. Inr [])\<rparr>) sample_env sample_args start) = Some 1"
    using exit_status_cases [where sdk = sample_sdk and pe = sample_process_env
        and out = "sample_outside\<lparr>csvRows := (\<lambda>fp. Inr [])\<rparr>"
        and c = "OfConnectionString ''UseDevelopmentStorage=true'' ''evidence''"
        and e = sample_env and a = sample_args and ?s0.0 = start and rows = "[]"]
      g a(1) r(1) u0
    by blast
  have w4: "exit_status (main sample_sdk sample_process_env (sample_outside\<lparr>launchOk := False\<rparr>)
                     sample_env sample_args start) = Some 1"
    using exit_status_cases [where sdk = sample_sdk and pe = sample_process_env
        and out = "sample_outside\<lparr>launchOk := False\<rparr>"
        and c = "OfConnectionString ''UseDevelopmentStorage=true'' ''evidence''"
        and e = sample_env and a = sample_args and ?s0.0 = start and rows = "[sample_row]"]
      g a(1) r(2,3)
    by blast
  have x: "\<not> contextOk (sample_outside\<lparr>contextOk := False\<rparr>)"
    "csvRows (sample_outside\<lparr>contextOk := False\<rparr>) (the (arg_in sample_args)) = Inr [sample_row]"
    "\<not> mkdirRootOk (sample_outside\<lparr>mkdirRootOk := False\<rparr>)"
    by (simp_all add: sample_outside_def)
  have y: "arg_outDir (sample_args\<lparr>arg_outDir := None\<rparr>) = None"
    "\<not> arg_saveSession (sample_args\<lparr>arg_outDir := None\<rparr>)"
    "\<not> truthy (arg_in (sample_args\<lparr>arg_in := None\<rparr>))"
    "\<not> arg_saveSession (sample_args\<lparr>arg_in := None\<rparr>)"
    by code_simp+
  have w5: "exit_status (main sample_sdk sample_process_env (sample_outside\<lparr>contextOk := False\<rparr>)
                     sample_env sample_args start) = Some 1"
    using exit_status_cases [where sdk = sample_sdk and pe = sample_process_env
        and out = "sample_outside\<lparr>contextOk := False\<rparr>"
        and c = "OfConnectionString ''UseDevelopmentStorage=true'' ''evidence''"
        and e = sample_env and a = sample_args and ?s0.0 = start and rows = "[sample_row]"]
      g a(1) x(1,2)
    by blast
  have w6: "exit_status (main sample_sdk sample_process_env (sample_outside\<lparr>mkdirRootOk := False\<rparr>)
                     sample_env sample_args start) = Some 1"
    using exit_status_cases [where sdk = sample_sdk and pe = sample_process_env
        and out = "sample_outside\<lparr>mkdirRootOk := False\<rparr>"
        and c = "OfConnectionString ''UseDevelopmentStorage=true'' ''evidence''"
        and e = sample_env and a = sample_args and ?s0.0 = start]
      g a(1) x(3)
    by blast
  have w7: "exit_status (main sample_sdk sample_process_env sample_outside sample_env
                     (sample_args\<lparr>arg_outDir := None\<rparr>) start) = Some 1"
    using exit_status_cases [where sdk = sample_sdk and pe = sample_process_env
        and out = sample_outside
        and c = "OfConnectionString ''UseDevelopmentStorage=true'' ''evidence''"
        and e = sample_env and a = "sample_args\<lparr>arg_outDir := None\<rparr>" and ?s0.0 = start]
      g y(1,2)
    by blast
  have w8: "exit_status (main sample_sdk sample_process_env sample_outside sample_env
                     (sample_args\<lparr>arg_in := None\<rparr>) start) = Some 1"
    using exit_status_cases [where sdk = sample_sdk and pe = sample_process_env
        and out = sample_outside
        and c = "OfConnectionString ''UseDevelopmentStorage=true'' ''evidence''"
        and e = sample_env and a = "sample_args\<lparr>arg_in := None\<rparr>" and ?s0.0 = start]
      g y(3,4)
    by blast
  show ?thesis
    using b m g a o(1-4,6) o'(4) r(3) u0 u1 w1 w1' ws w2 w2' w3 w4 x(1,3) y(1,3) w5 w6 w7 w8
    by blast
qed

text \<open>
  C9 as stated fails when the container name is not set, and when the storage library
  refuses the connection string: the input has a usable row and the exit status is 1.
\<close>

theorem exit_status_cases_counterexample:
  "usable_urls sample_args [sample_row] = [home_url]
   \<and> csvRows sample_outside ''registration.csv'' = Inr [sample_row]
   \<and> exit_status (main sample_sdk no_container_env sample_outside sample_env sample_args start)
       = Some 1
   \<and> exit_status (main sample_sdk malformed_process_env sample_outside sample_env sample_args
                     start) = Some 1"
proof -
  have "exit_status (main sample_sdk no_container_env sample_outside sample_env sample_args start)
        = Some 1"
    "exit_status (main sample_sdk malformed_process_env sample_outside sample_env sample_args
                    start) = Some 1"
    by code_simp+
  then show ?thesis by (simp add: sample_urls sample_outside_def)
qed

subsection \<open>What the capture steps leave alone\<close>

lemma set_doc_frame [simp]:
  "logs (set_doc t d s) = logs s" "dirs (set_doc t d s) = dirs s"
  "remote (set_doc t d s) = remote s" "tmpFiles (set_doc t d s) = tmpFiles s"
  "files (set_doc t d s) = files s"
  by (cases t; cases "popupPage s"; simp add: set_doc_def)+

lemma paths_write_file [simp]:
  "fst ` set (files (write_file p c s)) = insert p (fst ` set (files s))"
  by (auto simp: write_file_def image_iff)

lemma steady_refl [simp]: "steady s s"
  by (simp add: steady_def)

lemma steady_trans: "steady s s' \<Longrightarrow> steady s' s'' \<Longrightarrow> steady s s''"
  by (auto simp: steady_def)

lemma steady_logs [simp]: "steady s (s\<lparr>logs := logs s @ ls\<rparr>)"
  by (simp add: steady_def)

lemma steady_page [simp]: "steady s (s\<lparr>mainPage := p\<rparr>)" "steady s (s\<lparr>popupPage := q\<rparr>)"
  "steady s (s\<lparr>mainPage := p, popupPage := q\<rparr>)"
  by (simp_all add: steady_def)

lemma steady_set_doc [simp]: "steady s (set_doc t d s)"
  by (simp add: steady_def)

lemma steady_write_file [simp]: "steady s (write_file p c s)"
  by (auto simp: steady_def)

lemma keepsI: "(\<And>s. steady s (snd (f s))) \<Longrightarrow> keeps f"
  by (simp add: keeps_def)

lemma keepsD: "keeps f \<Longrightarrow> steady s (snd (f s))"
  by (simp add: keeps_def)

lemma keeps_ret [simp]: "keeps (ret x)"
  by (simp add: keeps_def ret_def)

lemma keeps_throw [simp]: "keeps (throw x)"
  by (simp add: keeps_def throw_def)

lemma keeps_console [simp]: "keeps (console l)"
  by (simp add: keeps_def console_def)

lemma keeps_bnd: "keeps f \<Longrightarrow> (\<And>x. keeps (g x)) \<Longrightarrow> keeps (bnd f g)"
proof (rule keepsI)
  fix s
  assume f: "keeps f" and g: "\<And>x. keeps (g x)"
  obtain r s' where fs: "f s = (r, s')" by (cases "f s")
  have st: "steady s s'" using keepsD [OF f, of s] fs by simp
  show "steady s (snd (bnd f g s))"
  proof (cases r)
    case (Inl e)
    with fs st show ?thesis by (simp add: bnd_def)
  next
    case (Inr x)
    have "steady s' (snd (g x s'))" using keepsD [OF g] .
    with st have "steady s (snd (g x s'))" by (rule steady_trans)
    with fs Inr show ?thesis by (simp add: bnd_def)
  qed
qed

lemma keeps_seq: "keeps f \<Longrightarrow> keeps g \<Longrightarrow> keeps (seq f g)"
  by (simp add: seq_def keeps_bnd)

lemma keeps_try_catch: "keeps f \<Longrightarrow> (\<And>x. keeps (h x)) \<Longrightarrow> keeps (try_catch f h)"
proof (rule keepsI)
  fix s
  assume f: "keeps f" and h: "\<And>x. keeps (h x)"
  obtain r s' where fs: "f s = (r, s')" by (cases "f s")
  have st: "steady s s'" using keepsD [OF f, of s] fs by simp
  show "steady s (snd (try_catch f h s))"
  proof (cases r)
    case (Inr x)
    with fs st show ?thesis by (simp add: try_catch_def)
  next
    case (Inl e)
    have "steady s' (snd (h e s'))" using keepsD [OF h] .
    with st have "steady s (snd (h e s'))" by (rule steady_trans)
    with fs Inl show ?thesis by (simp add: try_catch_def)
  qed
qed

lemma load_frame [simp]:
  "dirs (load sf s) = dirs s" "files (load sf s) = files s" "tmpFiles (load sf s) = tmpFiles s"
  "remote (load sf s) = remote s" "logs (load sf s) = logs s"
  "popupPage (load sf s) = popupPage s"
  "mainPage (load sf s) = \<lparr>surf = sf, clicks = 0, doc = initDoc sf\<rparr>"
  by (simp_all add: load_def)

lemma stranded_frame [simp]:
  "dirs (stranded e u s) = dirs s" "files (stranded e u s) = files s"
  "tmpFiles (stranded e u s) = tmpFiles s" "remote (stranded e u s) = remote s"
  "logs (stranded e u s) = logs s" "popupPage (stranded e u s) = popupPage s"
  by (simp_all add: stranded_def split: option.splits)

lemma steady_load [simp]: "steady s (load sf s)" "steady s (stranded e u s)"
  by (simp_all add: steady_def)

lemma keeps_goto [simp]: "keeps (goto e u)"
  by (rule keepsI) (simp add: goto_def split: option.splits)

lemma keeps_captureFullPage [simp]: "keeps (captureFullPage t fileBase pdf)"
  by (rule keepsI) (auto simp: captureFullPage_def Let_def console_def steady_def)

lemma keeps_captureConfirmationEmail [simp]: "keeps (captureConfirmationEmail t dir base)"
  by (rule keepsI) (auto simp: captureConfirmationEmail_def Let_def console_def steady_def)

lemma keeps_captureIframeBySrc [simp]: "keeps (captureIframeBySrc p)"
  by (rule keepsI) (auto simp: captureIframeBySrc_def Let_def steady_def)

lemma keeps_clickActionsQuiet [simp]: "keeps clickActionsQuiet"
  by (rule keepsI) (simp add: clickActionsQuiet_def Let_def)

lemma keeps_findActionHrefByUrlContains [simp]: "keeps (findActionHrefByUrlContains e needles)"
  unfolding findActionHrefByUrlContains_def
  by (rule keeps_seq, simp, rule keepsI) (simp add: Let_def)

lemma keeps_openActionsMenu [simp]: "keeps openActionsMenu"
  by (rule keepsI) (simp add: openActionsMenu_def Let_def)

lemma keeps_clickMenuItem [simp]: "keeps (clickMenuItem e item)"
  by (rule keepsI) (simp add: clickMenuItem_def split: click_result.splits)

lemma keeps_closePopup [simp]: "keeps closePopup"
  by (rule keepsI) (simp add: closePopup_def)

lemma getSendEmailHref_state [simp]: "snd (getSendEmailHref e u s) = s"
  by (simp add: getSendEmailHref_def)

lemma keeps_getSendEmailHref [simp]: "keeps (getSendEmailHref e u)"
  by (rule keepsI) simp

lemma keeps_if: "keeps f \<Longrightarrow> keeps g \<Longrightarrow> keeps (if b then f else g)"
  by simp

lemma keeps_target:
  "(\<And>t. keeps (f t)) \<Longrightarrow> keeps (\<lambda>s. f (popupTarget s) s)"
  by (simp add: keeps_def)

lemmas keeps_rules = keeps_if keeps_seq keeps_bnd keeps_try_catch keeps_goto
  keeps_captureFullPage keeps_captureConfirmationEmail keeps_captureIframeBySrc
  keeps_console keeps_openActionsMenu keeps_clickMenuItem keeps_closePopup keeps_ret
  keeps_findActionHrefByUrlContains keeps_getSendEmailHref

lemma keeps_step05 [simp]: "keeps (step05 e dir base h)"
proof -
  have "keeps (\<lambda>s. captureConfirmationEmail (popupTarget s) dir base s)"
    by (rule keeps_target) simp
  then show ?thesis unfolding step05_def by (intro keeps_rules)
qed

lemma keeps_step06 [simp]: "keeps (step06 e dir base pdf h)"
proof -
  have "keeps (\<lambda>s. captureFullPage (popupTarget s)
                     (path_join dir (base @ ''__06_Invoice'')) pdf s)"
    by (rule keeps_target) simp
  then show ?thesis unfolding step06_def by (intro keeps_rules)
qed

lemma keeps_step03 [simp]: "keeps (step03 e u dir base)"
  unfolding step03_def by (intro keeps_rules)

lemma keeps_step04 [simp]: "keeps (step04 e dir base pdf)"
proof -
  have "keeps (\<lambda>s. let p = mainPage s
            in case find (\<lambda>l. case l of Anchor h v \<Rightarrow> css_contains sendEmailPath h
                                   | Form a v \<Rightarrow> css_contains sendEmailPath a)
                     (links (surf p) (clicks p)) of
                 Some (Anchor h True) \<Rightarrow>
                   (case mkURL e h (url (surf p)) of
                      None \<Rightarrow> (Inl ''Invalid URL'', s)
                    | Some u \<Rightarrow>
                        seq (goto e u)
                            (captureFullPage MainPage
                               (path_join dir (base @ ''__04_QR_Code_Ticket_Email'')) pdf) s)
               | Some (Form a True) \<Rightarrow>
                   captureFullPage MainPage
                     (path_join dir (base @ ''__04_QR_Code_Ticket_Email'')) pdf s
               | _ \<Rightarrow> (Inr (), s))"
  proof (rule keepsI)
    fix s
    have a: "steady s (snd (seq (goto e u)
                            (captureFullPage MainPage
                               (path_join dir (base @ ''__04_QR_Code_Ticket_Email'')) pdf) s))" for u
      by (rule keepsD) (intro keeps_rules)
    have b: "steady s (snd (captureFullPage MainPage
                     (path_join dir (base @ ''__04_QR_Code_Ticket_Email'')) pdf s))"
      by (rule keepsD) (intro keeps_rules)
    show "steady s (snd (let p = mainPage s
            in case find (\<lambda>l. case l of Anchor h v \<Rightarrow> css_contains sendEmailPath h
                                   | Form a v \<Rightarrow> css_contains sendEmailPath a)
                     (links (surf p) (clicks p)) of
                 Some (Anchor h True) \<Rightarrow>
                   (case mkURL e h (url (surf p)) of
                      None \<Rightarrow> (Inl ''Invalid URL'', s)
                    | Some u \<Rightarrow>
                        seq (goto e u)
                            (captureFullPage MainPage
                               (path_join dir (base @ ''__04_QR_Code_Ticket_Email'')) pdf) s)
               | Some (Form a True) \<Rightarrow>
                   captureFullPage MainPage
                     (path_join dir (base @ ''__04_QR_Code_Ticket_Email'')) pdf s
               | _ \<Rightarrow> (Inr (), s)))"
      using a b by (simp add: Let_def split: option.split link.split bool.split)
  qed
  then show ?thesis unfolding step04_def by (intro keeps_rules)
qed

subsection \<open>Packing and moving\<close>

lemma packAndUpload_zip_fails:
  assumes "\<not> zipOk e d"
  shows "packAndUpload e d b s =
     (Inr (), s\<lparr>logs := logs s @ [Err ''Azure upload failed. Keeping local folder. archiver'']\<rparr>)"
  using assms
  by (simp add: packAndUpload_def uploadAndCleanupRegistrant_def Let_def try_catch_def bnd_def
        zipDirectory_def console_def)

lemma packAndUpload_upload_fails:
  assumes "zipOk e d" and "\<not> uploadOk e b"
  shows "packAndUpload e d b s =
     (Inr (), s\<lparr>tmpFiles := filter (\<lambda>x. fst x \<noteq> path_join (tmpdir e) b) (tmpFiles s)
                    @ [(path_join (tmpdir e) b, filter (under d) (map fst (files s)))],
               logs := logs s @ [Err ''Azure upload failed. Keeping local folder. uploadStream'']\<rparr>)"
proof -
  have "uploadAndCleanupRegistrant e d b s =
     (Inl ''uploadStream'',
      s\<lparr>tmpFiles := filter (\<lambda>x. fst x \<noteq> path_join (tmpdir e) b) (tmpFiles s)
                    @ [(path_join (tmpdir e) b, filter (under d) (map fst (files s)))]\<rparr>)"
    using assms
    by (simp add: uploadAndCleanupRegistrant_def Let_def bnd_def zipDirectory_def uploadZip_def
          map_of_replace del: map_of_append)
  then show ?thesis
    by (simp add: packAndUpload_def try_catch_def bnd_def console_def)
qed

lemma cleanup_result:
  "seq (unlinkQuiet e z) (seq (rimraf e d) (ret u)) s =
     (Inr u, snd (rimraf e d (snd (unlinkQuiet e z s))))"
  by (simp add: seq_def bnd_def ret_def unlinkQuiet_def rimraf_def)

lemma cleanup_fields:
  "remote (snd (rimraf e d (snd (unlinkQuiet e z s)))) = remote s"
  "logs (snd (rimraf e d (snd (unlinkQuiet e z s)))) = logs s"
  "dirs (snd (rimraf e d (snd (unlinkQuiet e z s))))
     = (if rmOk e d then filter (\<lambda>x. x \<noteq> d \<and> \<not> under d x) (dirs s) else dirs s)"
  "files (snd (rimraf e d (snd (unlinkQuiet e z s))))
     = (if rmOk e d then filter (\<lambda>f. \<not> under d (fst f)) (files s) else files s)"
  by (simp_all add: unlinkQuiet_def rimraf_def)

lemma uploadAndCleanup_uploaded:
  assumes "zipOk e d" and "uploadOk e b"
  shows "\<exists>s'. uploadAndCleanupRegistrant e d b s = (Inr (blobUrl e b), s')
       \<and> remote s'
           = filter (\<lambda>x. fst x \<noteq> b) (remote s) @ [(b, filter (under d) (map fst (files s)))]
       \<and> dirs s'
           = (if rmOk e d then filter (\<lambda>x. x \<noteq> d \<and> \<not> under d x) (dirs s) else dirs s)
       \<and> files s'
           = (if rmOk e d then filter (\<lambda>f. \<not> under d (fst f)) (files s) else files s)
       \<and> logs s' = logs s"
proof -
  define z where "z = path_join (tmpdir e) b"
  define s2 where "s2 = s\<lparr>tmpFiles := filter (\<lambda>x. fst x \<noteq> z) (tmpFiles s)
                  @ [(z, filter (under d) (map fst (files s)))],
              remote := filter (\<lambda>x. fst x \<noteq> b) (remote s)
                  @ [(b, filter (under d) (map fst (files s)))]\<rparr>"
  have zs: "zipDirectory e d z s =
      (Inr z, s\<lparr>tmpFiles := filter (\<lambda>x. fst x \<noteq> z) (tmpFiles s)
                  @ [(z, filter (under d) (map fst (files s)))]\<rparr>)"
    using assms(1) by (simp add: zipDirectory_def)
  have us: "uploadZip e z b (s\<lparr>tmpFiles := filter (\<lambda>x. fst x \<noteq> z) (tmpFiles s)
                  @ [(z, filter (under d) (map fst (files s)))]\<rparr>) = (Inr (blobUrl e b), s2)"
    using assms(2) by (simp add: uploadZip_def s2_def map_of_replace del: map_of_append)
  have "uploadAndCleanupRegistrant e d b s
        = (Inr (blobUrl e b), snd (rimraf e d (snd (unlinkQuiet e z s2))))"
    unfolding uploadAndCleanupRegistrant_def Let_def z_def [symmetric]
    by (simp add: bnd_def zs us cleanup_result)
  moreover have "remote s2
           = filter (\<lambda>x. fst x \<noteq> b) (remote s) @ [(b, filter (under d) (map fst (files s)))]"
    "dirs s2 = dirs s" "files s2 = files s" "logs s2 = logs s"
    by (simp_all add: s2_def)
  ultimately show ?thesis
    by (simp add: cleanup_fields)
qed

lemma packAndUpload_uploaded:
  assumes "zipOk e d" and "uploadOk e b"
  shows "fst (packAndUpload e d b s) = Inr ()
       \<and> remote (snd (packAndUpload e d b s))
           = filter (\<lambda>x. fst x \<noteq> b) (remote s) @ [(b, filter (under d) (map fst (files s)))]
       \<and> dirs (snd (packAndUpload e d b s))
           = (if rmOk e d then filter (\<lambda>x. x \<noteq> d \<and> \<not> under d x) (dirs s) else dirs s)
       \<and> files (snd (packAndUpload e d b s))
           = (if rmOk e d then filter (\<lambda>f. \<not> under d (fst f)) (files s) else files s)
       \<and> logs (snd (packAndUpload e d b s))
           = logs s @ [Info (''Uploaded to Azure: '' @ blobUrl e b),
                       Info (''Deleted local folder: '' @ d)]"
proof -
  obtain s' where s': "uploadAndCleanupRegistrant e d b s = (Inr (blobUrl e b), s')"
    "remote s' = filter (\<lambda>x. fst x \<noteq> b) (remote s) @ [(b, filter (under d) (map fst (files s)))]"
    "dirs s' = (if rmOk e d then filter (\<lambda>x. x \<noteq> d \<and> \<not> under d x) (dirs s) else dirs s)"
    "files s' = (if rmOk e d then filter (\<lambda>f. \<not> under d (fst f)) (files s) else files s)"
    "logs s' = logs s"
    using uploadAndCleanup_uploaded [OF assms, of s] by blast
  have "packAndUpload e d b s =
      (Inr (), s'\<lparr>logs := logs s' @ [Info (''Uploaded to Azure: '' @ blobUrl e b),
                       Info (''Deleted local folder: '' @ d)]\<rparr>)"
    by (simp add: packAndUpload_def try_catch_def bnd_def seq_def console_def s'(1))
  then show ?thesis by (simp add: s')
qed

lemma packAndUpload_returns: "fst (packAndUpload e d b s) = Inr ()"
proof (cases "zipOk e d")
  case False
  then have "\<exists>s'. packAndUpload e d b s = (Inr (), s')"
    using packAndUpload_zip_fails by blast
  then show ?thesis by auto
next
  case z: True
  show ?thesis
  proof (cases "uploadOk e b")
    case False
    with z have "\<exists>s'. packAndUpload e d b s = (Inr (), s')"
      using packAndUpload_upload_fails by blast
    then show ?thesis by auto
  next
    case True
    with z show ?thesis using packAndUpload_uploaded by blast
  qed
qed

subsection \<open>The job of one registrant\<close>

lemma captureFullPage_written:
  assumes "pageShotOk (surf (the_pg t s))"
  shows "fst (captureFullPage t fileBase pdf s) = Inr ()"
    and "fileBase @ ''.png'' \<in> fst ` set (files (snd (captureFullPage t fileBase pdf s)))"
    and "surf (the_pg t (snd (captureFullPage t fileBase pdf s))) = surf (the_pg t s)"
    and "logs (snd (captureFullPage t fileBase pdf s)) = logs s @ [Info (basename fileBase @ ''.png'')]"
  by (simp_all add: captureFullPage_ok [OF assms] Let_def)

lemma steady_paths: "steady s s' \<Longrightarrow> p \<in> fst ` set (files s) \<Longrightarrow> p \<in> fst ` set (files s')"
  by (auto simp: steady_def)

lemma two_captures:
  assumes ok: "pageShotOk (surf (mainPage s))" and R: "keeps R"
  shows "p1 @ ''.png''
          \<in> fst ` set (files (snd (seq (captureFullPage MainPage p1 pdf)
                                   (seq (captureFullPage MainPage p2 pdf) R) s)))
       \<and> p2 @ ''.png''
          \<in> fst ` set (files (snd (seq (captureFullPage MainPage p1 pdf)
                                   (seq (captureFullPage MainPage p2 pdf) R) s)))"
proof -
  have ok1: "pageShotOk (surf (the_pg MainPage s))" using ok by (simp add: the_pg_def)
  define s1 where "s1 = snd (captureFullPage MainPage p1 pdf s)"
  have c1: "captureFullPage MainPage p1 pdf s = (Inr (), s1)"
    using captureFullPage_written(1) [OF ok1, of p1 pdf] by (simp add: s1_def prod_eq_iff)
  have f1: "p1 @ ''.png'' \<in> fst ` set (files s1)"
    using captureFullPage_written(2) [OF ok1] by (simp add: s1_def)
  have ok2: "pageShotOk (surf (the_pg MainPage s1))"
    using captureFullPage_written(3) [OF ok1, of p1 pdf] ok1 by (simp add: s1_def)
  define s2 where "s2 = snd (captureFullPage MainPage p2 pdf s1)"
  have c2: "captureFullPage MainPage p2 pdf s1 = (Inr (), s2)"
    using captureFullPage_written(1) [OF ok2, of p2 pdf] by (simp add: s2_def prod_eq_iff)
  have f2: "p2 @ ''.png'' \<in> fst ` set (files s2)"
    using captureFullPage_written(2) [OF ok2] by (simp add: s2_def)
  have st12: "steady s1 s2"
    using keepsD [OF keeps_captureFullPage, of s1 MainPage p2 pdf] by (simp add: s2_def)
  have fin: "snd (seq (captureFullPage MainPage p1 pdf)
                   (seq (captureFullPage MainPage p2 pdf) R) s) = snd (R s2)"
    by (simp add: seq_def bnd_def c1 c2)
  have st2: "steady s2 (snd (R s2))" using keepsD [OF R] .
  from f1 st12 have "p1 @ ''.png'' \<in> fst ` set (files s2)" by (rule steady_paths [rotated])
  with st2 have "p1 @ ''.png'' \<in> fst ` set (files (snd (R s2)))" by (rule steady_paths)
  moreover from st2 f2 have "p2 @ ''.png'' \<in> fst ` set (files (snd (R s2)))" by (rule steady_paths)
  ultimately show ?thesis by (simp add: fin)
qed

lemma keeps_resolve_and_rest:
  "keeps (bnd (findActionHrefByUrlContains e [''confirmation'']) (\<lambda>confirmationHref.
          bnd (findActionHrefByUrlContains e [''invoice'']) (\<lambda>invoiceHref.
         (seq (step05 e regDir baseName confirmationHref)
         (seq (step06 e regDir baseName pdf invoiceHref)
         (seq (step03 e registrantUrl regDir baseName)
              (step04 e regDir baseName pdf))))))) "
  by (intro keeps_rules keeps_step05 keeps_step06 keeps_step03 keeps_step04)

lemma collectEvidence_unreachable:
  assumes "site e u = None"
  shows "collectEvidence e u outDir pdf s
         = (Inl (''page.goto: '' @ u), stranded e u (s\<lparr>logs := logs s @ [Info u]\<rparr>))"
  using assms by (simp add: collectEvidence_def Let_def seq_def bnd_def console_def goto_def)

lemma collectEvidence_reached:
  assumes "site e u = Some sf"
  shows "collectEvidence e u outDir pdf s =
    seq (captureFullPage MainPage
           (path_join (regDirOf outDir u) (safe (regIdOf u) @ ''__01_Attendance_Status_Proof'')) pdf)
   (seq (captureFullPage MainPage
           (path_join (regDirOf outDir u) (safe (regIdOf u) @ ''__02_Contact_Details'')) pdf)
   (bnd (findActionHrefByUrlContains e [''confirmation'']) (\<lambda>confirmationHref.
    bnd (findActionHrefByUrlContains e [''invoice'']) (\<lambda>invoiceHref.
   (seq (step05 e (regDirOf outDir u) (safe (regIdOf u)) confirmationHref)
   (seq (step06 e (regDirOf outDir u) (safe (regIdOf u)) pdf invoiceHref)
   (seq (step03 e u (regDirOf outDir u) (safe (regIdOf u)))
        (step04 e (regDirOf outDir u) (safe (regIdOf u)) pdf))))))))
     (s\<lparr>logs := logs s @ [Info u],
        mainPage := \<lparr>surf = sf, clicks = 0, doc = initDoc sf\<rparr>,
        dirs := (if regDirOf outDir u \<in> set (dirs s) then dirs s
                 else dirs s @ [regDirOf outDir u])\<rparr>)"
proof -
  have pre: "seq (console (Info u)) (seq (goto e u) (seq (mkdirSync d) F)) s =
      F (s\<lparr>logs := logs s @ [Info u],
          mainPage := \<lparr>surf = sf, clicks = 0, doc = initDoc sf\<rparr>,
          dirs := (if d \<in> set (dirs s) then dirs s else dirs s @ [d])\<rparr>)" for d and F :: "unit m"
    using assms by (simp add: seq_def bnd_def console_def goto_def load_def mkdirSync_def)
  show ?thesis
    unfolding collectEvidence_def Let_def by (rule pre)
qed

lemma processRegistrant_cases:
  "processRegistrant e u outDir pdf s =
     (case collectEvidence e u outDir pdf s of
        (Inl x, sc) \<Rightarrow> (Inl x, sc)
      | (Inr y, sc) \<Rightarrow> packAndUpload e (regDirOf outDir u) (blobNameOf u) sc)"
  by (simp add: processRegistrant_def seq_def bnd_def split: prod.splits sum.splits)

lemma collectEvidence_steady:
  assumes "site e u = Some sf"
  shows "steady (s\<lparr>logs := logs s @ [Info u],
        mainPage := \<lparr>surf = sf, clicks = 0, doc = initDoc sf\<rparr>,
        dirs := (if regDirOf outDir u \<in> set (dirs s) then dirs s
                 else dirs s @ [regDirOf outDir u])\<rparr>)
           (snd (collectEvidence e u outDir pdf s))"
  unfolding collectEvidence_reached [OF assms]
  by (rule keepsD) (intro keeps_rules keeps_step05 keeps_step06 keeps_step03 keeps_step04)

lemma collectEvidence_store:
  assumes "site e u = Some sf"
  shows "remote (snd (collectEvidence e u outDir pdf s)) = remote s"
    and "tmpFiles (snd (collectEvidence e u outDir pdf s)) = tmpFiles s"
    and "set (dirs (snd (collectEvidence e u outDir pdf s)))
           = insert (regDirOf outDir u) (set (dirs s))"
    and "fst ` set (files s) \<subseteq> fst ` set (files (snd (collectEvidence e u outDir pdf s)))"
  using collectEvidence_steady [OF assms, where s = s and outDir = outDir and pdf = pdf]
  by (auto simp: steady_def split: if_splits)

lemma collectEvidence_captures:
  assumes "site e u = Some sf" and "pageShotOk sf"
  shows "path_join (regDirOf outDir u) (safe (regIdOf u) @ ''__01_Attendance_Status_Proof'') @ ''.png''
           \<in> fst ` set (files (snd (collectEvidence e u outDir pdf s)))
       \<and> path_join (regDirOf outDir u) (safe (regIdOf u) @ ''__02_Contact_Details'') @ ''.png''
           \<in> fst ` set (files (snd (collectEvidence e u outDir pdf s)))"
  unfolding collectEvidence_reached [OF assms(1)]
  by (rule two_captures) (simp add: assms(2), rule keeps_resolve_and_rest)

lemma queryDigits_digits:
  "queryDigits key u = Some ds \<Longrightarrow> ds \<noteq> [] \<and> (\<forall>c \<in> set ds. is_digit c)"
proof (induction u)
  case Nil
  then show ?case by simp
next
  case (Cons c cs)
  then show ?case
    by (auto split: if_splits dest: set_takeWhileD)
qed

lemma regId_last: "regIdOf u \<noteq> [] \<and> last (regIdOf u) \<noteq> CHR ''/''"
proof (cases "queryDigits ''id'' u")
  case None
  then show ?thesis by (simp add: regIdOf_def)
next
  case (Some ds)
  then have d: "ds \<noteq> []" "\<forall>c \<in> set ds. is_digit c" using queryDigits_digits by blast+
  then have "is_digit (last ds)" by simp
  then have "last ds \<noteq> CHR ''/''" by (auto simp: is_digit_def)
  with d Some show ?thesis by (simp add: regIdOf_def)
qed

lemma under_regDir: "under (regDirOf outDir u) (path_join (regDirOf outDir u) x)"
proof -
  have "regDirOf outDir u \<noteq> [] \<and> last (regDirOf outDir u) \<noteq> CHR ''/''"
    using regId_last [of u] by (simp add: regDirOf_def path_join_def)
  then show ?thesis by (simp add: under_def path_join_def)
qed

text \<open>
  C1, as the program has it. When the registrant page loads and can be captured, the
  attendance and the contact screenshots are in the registrant's directory when the
  packing starts, and after the job they are either still there or in the uploaded
  archive. The other four kinds of evidence are best effort and may leave no file.
\<close>

theorem attendance_and_contact_kept:
  assumes "site e u = Some sf" and "pageShotOk sf"
      and "p = path_join (regDirOf outDir u) (safe (regIdOf u) @ ''__01_Attendance_Status_Proof'') @ ''.png''
           \<or> p = path_join (regDirOf outDir u) (safe (regIdOf u) @ ''__02_Contact_Details'') @ ''.png''"
  shows "p \<in> fst ` set (files (snd (collectEvidence e u outDir pdf s)))
       \<and> (p \<in> fst ` set (files (snd (processRegistrant e u outDir pdf s)))
          \<or> (\<exists>content. (blobNameOf u, content) \<in> set (remote (snd (processRegistrant e u outDir pdf s)))
                \<and> p \<in> set content))"
proof -
  define sc where "sc = snd (collectEvidence e u outDir pdf s)"
  define d where "d = regDirOf outDir u"
  define b where "b = blobNameOf u"
  have pc: "p \<in> fst ` set (files sc)"
    using collectEvidence_captures [OF assms(1,2), of outDir pdf s] assms(3)
    by (auto simp: sc_def)
  have pu: "under d p"
    using assms(3) under_regDir [of outDir u] by (auto simp: d_def path_join_def)
  obtain r where cr: "collectEvidence e u outDir pdf s = (r, sc)"
    by (cases "collectEvidence e u outDir pdf s") (simp add: sc_def)
  have "p \<in> fst ` set (files (snd (processRegistrant e u outDir pdf s)))
          \<or> (\<exists>content. (b, content) \<in> set (remote (snd (processRegistrant e u outDir pdf s)))
                \<and> p \<in> set content)"
  proof (cases r)
    case (Inl x)
    then have "snd (processRegistrant e u outDir pdf s) = sc"
      by (simp add: processRegistrant_cases cr)
    with pc show ?thesis by simp
  next
    case (Inr y)
    then have pr: "processRegistrant e u outDir pdf s = packAndUpload e d b sc"
      by (simp add: processRegistrant_cases cr d_def b_def)
    show ?thesis
    proof (cases "zipOk e d \<and> uploadOk e b")
      case True
      then have "remote (snd (packAndUpload e d b sc))
           = filter (\<lambda>x. fst x \<noteq> b) (remote sc) @ [(b, filter (under d) (map fst (files sc)))]"
        using packAndUpload_uploaded by blast
      moreover have "p \<in> set (filter (under d) (map fst (files sc)))"
        using pc pu by auto
      ultimately show ?thesis unfolding pr by auto
    next
      case False
      then have "files (snd (packAndUpload e d b sc)) = files sc"
        using packAndUpload_zip_fails [of e d b sc] packAndUpload_upload_fails [of e d b sc]
        by (cases "zipOk e d") auto
      with pc show ?thesis unfolding pr by simp
    qed
  qed
  with pc show ?thesis by (simp add: sc_def b_def)
qed

theorem attendance_and_contact_kept_witness:
  "site bare_env bare_url = Some (plain_page bare_url)
   \<and> pageShotOk (plain_page bare_url)
   \<and> ''/out/7/7__01_Attendance_Status_Proof.png''
        \<in> fst ` set (files (snd (collectEvidence bare_env bare_url ''/out'' False start)))
   \<and> ''/out/7/7__02_Contact_Details.png''
        \<in> fst ` set (files (snd (collectEvidence bare_env bare_url ''/out'' False start)))"
proof -
  have a: "site bare_env bare_url = Some (plain_page bare_url)"
    by (simp add: bare_env_def)
  have b: "pageShotOk (plain_page bare_url)"
    by (simp add: plain_page_def)
  have p1: "path_join (regDirOf ''/out'' bare_url)
              (safe (regIdOf bare_url) @ ''__01_Attendance_Status_Proof'') @ ''.png''
            = ''/out/7/7__01_Attendance_Status_Proof.png''"
    by code_simp
  have p2: "path_join (regDirOf ''/out'' bare_url)
              (safe (regIdOf bare_url) @ ''__02_Contact_Details'') @ ''.png''
            = ''/out/7/7__02_Contact_Details.png''"
    by code_simp
  have h1: "''/out/7/7__01_Attendance_Status_Proof.png''
              = path_join (regDirOf ''/out'' bare_url)
                  (safe (regIdOf bare_url) @ ''__01_Attendance_Status_Proof'') @ ''.png''
            \<or> ''/out/7/7__01_Attendance_Status_Proof.png''
              = path_join (regDirOf ''/out'' bare_url)
                  (safe (regIdOf bare_url) @ ''__02_Contact_Details'') @ ''.png''"
    by (rule disjI1) (rule p1 [symmetric])
  have h2: "''/out/7/7__02_Contact_Details.png''
              = path_join (regDirOf ''/out'' bare_url)
                  (safe (regIdOf bare_url) @ ''__01_Attendance_Status_Proof'') @ ''.png''
            \<or> ''/out/7/7__02_Contact_Details.png''
              = path_join (regDirOf ''/out'' bare_url)
                  (safe (regIdOf bare_url) @ ''__02_Contact_Details'') @ ''.png''"
    by (rule disjI2) (rule p2 [symmetric])
  have "''/out/7/7__01_Attendance_Status_Proof.png''
        \<in> fst ` set (files (snd (collectEvidence bare_env bare_url ''/out'' False start)))"
    by (rule conjunct1 [OF attendance_and_contact_kept [OF a b h1]])
  moreover have "''/out/7/7__02_Contact_Details.png''
        \<in> fst ` set (files (snd (collectEvidence bare_env bare_url ''/out'' False start)))"
    by (rule conjunct1 [OF attendance_and_contact_kept [OF a b h2]])
  ultimately show ?thesis using a b by blast
qed

text \<open>
  C1 as stated fails for a registrant whose page has no link to the send-email page and
  whose address has no event id: the job ends normally and the archive holds the
  attendance and contact screenshots only, with no file for the ticket email, the QR
  code, the confirmation or the invoice, although the page could be captured.
\<close>

theorem attendance_and_contact_kept_counterexample:
  "site bare_env bare_url = Some (plain_page bare_url)
   \<and> pageShotOk (plain_page bare_url)
   \<and> fst (processRegistrant bare_env bare_url ''/out'' False start) = Inr ()
   \<and> files (snd (processRegistrant bare_env bare_url ''/out'' False start)) = []
   \<and> remote (snd (processRegistrant bare_env bare_url ''/out'' False start))
       = [(''7.zip'', [''/out/7/7__01_Attendance_Status_Proof.png'',
                       ''/out/7/7__02_Contact_Details.png''])]"
proof -
  have "fst (processRegistrant bare_env bare_url ''/out'' False start) = Inr ()
   \<and> files (snd (processRegistrant bare_env bare_url ''/out'' False start)) = []
   \<and> remote (snd (processRegistrant bare_env bare_url ''/out'' False start))
       = [(''7.zip'', [''/out/7/7__01_Attendance_Status_Proof.png'',
                       ''/out/7/7__02_Contact_Details.png''])]"
    by code_simp
  moreover have "site bare_env bare_url = Some (plain_page bare_url)"
    by (simp add: bare_env_def)
  moreover have "pageShotOk (plain_page bare_url)"
    by (simp add: plain_page_def)
  ultimately show ?thesis by blast
qed

subsection \<open>The directory of a registrant\<close>

lemma processRegistrant_unreachable:
  assumes "site e u = None"
  shows "processRegistrant e u outDir pdf s
         = (Inl (''page.goto: '' @ u), stranded e u (s\<lparr>logs := logs s @ [Info u]\<rparr>))"
  by (simp add: processRegistrant_cases collectEvidence_unreachable [OF assms])

lemma packAndUpload_dirs:
  "set (dirs (snd (packAndUpload e d b s))) \<subseteq> set (dirs s)"
proof (cases "zipOk e d")
  case False
  then show ?thesis by (simp add: packAndUpload_zip_fails)
next
  case z: True
  show ?thesis
  proof (cases "uploadOk e b")
    case False
    with z show ?thesis by (simp add: packAndUpload_upload_fails)
  next
    case True
    with z have "dirs (snd (packAndUpload e d b s))
           = (if rmOk e d then filter (\<lambda>x. x \<noteq> d \<and> \<not> under d x) (dirs s) else dirs s)"
      using packAndUpload_uploaded by blast
    then show ?thesis by auto
  qed
qed

lemma packAndUpload_kept:
  assumes "\<not> (zipOk e d \<and> uploadOk e b \<and> rmOk e d)"
  shows "dirs (snd (packAndUpload e d b s)) = dirs s"
    and "files (snd (packAndUpload e d b s)) = files s"
proof -
  have "dirs (snd (packAndUpload e d b s)) = dirs s \<and> files (snd (packAndUpload e d b s)) = files s"
  proof (cases "zipOk e d")
    case False
    then show ?thesis by (simp add: packAndUpload_zip_fails)
  next
    case z: True
    show ?thesis
    proof (cases "uploadOk e b")
      case False
      with z show ?thesis by (simp add: packAndUpload_upload_fails)
    next
      case True
      with z assms have "\<not> rmOk e d" by simp
      moreover from z True have "dirs (snd (packAndUpload e d b s))
           = (if rmOk e d then filter (\<lambda>x. x \<noteq> d \<and> \<not> under d x) (dirs s) else dirs s)
        \<and> files (snd (packAndUpload e d b s))
           = (if rmOk e d then filter (\<lambda>f. \<not> under d (fst f)) (files s) else files s)"
        using packAndUpload_uploaded by blast
      ultimately show ?thesis by simp
    qed
  qed
  then show "dirs (snd (packAndUpload e d b s)) = dirs s"
    and "files (snd (packAndUpload e d b s)) = files s" by simp_all
qed

lemma packAndUpload_not_uploaded:
  assumes "\<not> (zipOk e d \<and> uploadOk e b)"
  shows "remote (snd (packAndUpload e d b s)) = remote s"
    and "\<exists>msg. last (logs (snd (packAndUpload e d b s))) = Err msg"
proof -
  have "remote (snd (packAndUpload e d b s)) = remote s
      \<and> (\<exists>msg. last (logs (snd (packAndUpload e d b s))) = Err msg)"
  proof (cases "zipOk e d")
    case False
    then show ?thesis by (simp add: packAndUpload_zip_fails)
  next
    case True
    with assms have u: "\<not> uploadOk e b" by simp
    with True show ?thesis by (simp add: packAndUpload_upload_fails)
  qed
  then show "remote (snd (packAndUpload e d b s)) = remote s"
    and "\<exists>msg. last (logs (snd (packAndUpload e d b s))) = Err msg" by blast+
qed

lemma run_unreachable:
  "observed (processRegistrant unreachable_env home_url ''/out'' False start) =
     (Inl ''page.goto: https://www.swoogo.com/loggedin/registrant/view?eventId=255274&id=12345'',
      [], [], [], [],
      [Info ''https://www.swoogo.com/loggedin/registrant/view?eventId=255274&id=12345''])"
  by code_simp

lemma run_rm_fails:
  "(\<lambda>(r, d, f, t, b, l). (r, d, map fst f, map fst b))
     (observed (processRegistrant rm_fails_env home_url ''/out'' False start)) =
     (Inr (), [''/out/12345''],
      [''/out/12345/12345__01_Attendance_Status_Proof.png'',
       ''/out/12345/12345__02_Contact_Details.png'',
       ''/out/12345/12345__05_Confirmation_email.png'',
       ''/out/12345/12345__06_Invoice.png'',
       ''/out/12345/12345__03_Ticket_Email_Preview.png'',
       ''/out/12345/12345__04_QR_Code_Ticket_Email.png''],
      [''12345.zip''])"
  by code_simp

lemma run_sample:
  "fst (observed (processRegistrant sample_env home_url ''/out'' False start)) = Inr ()"
  by code_simp

lemma run_upload_fails:
  "fst (observed (processRegistrant upload_fails_env home_url ''/out'' False start)) = Inr ()"
  by code_simp

text \<open>
  C2, as the program has it. When the registrant page cannot be reached, the job throws
  before it makes a directory. Otherwise the job makes the directory of the registrant
  (unless it is there already) and no other. The directory is gone after the job only
  if the archive was packed and uploaded and the removal went through; it is gone
  whenever all three succeed. When the packing or the upload fails, the directory stays,
  the container is as before, and the last console line is the error.
\<close>

theorem directory_lifecycle:
  assumes "r = processRegistrant e u outDir pdf s"
      and "d = regDirOf outDir u" and "b = blobNameOf u"
  shows "(site e u = None \<longrightarrow>
            fst r = Inl (''page.goto: '' @ u) \<and> dirs (snd r) = dirs s \<and> remote (snd r) = remote s)
       \<and> (site e u \<noteq> None \<longrightarrow> set (dirs (snd r)) \<subseteq> insert d (set (dirs s)))
       \<and> (site e u \<noteq> None \<and> d \<notin> set (dirs (snd r)) \<longrightarrow>
            fst r = Inr () \<and> zipOk e d \<and> uploadOk e b \<and> rmOk e d
            \<and> b \<in> fst ` set (remote (snd r)))
       \<and> (fst r = Inr () \<and> zipOk e d \<and> uploadOk e b \<and> rmOk e d \<longrightarrow>
            d \<notin> set (dirs (snd r)) \<and> b \<in> fst ` set (remote (snd r)))
       \<and> (fst r = Inr () \<and> \<not> (zipOk e d \<and> uploadOk e b) \<longrightarrow>
            d \<in> set (dirs (snd r)) \<and> remote (snd r) = remote s
            \<and> (\<exists>msg. last (logs (snd r)) = Err msg))"
proof (cases "site e u")
  case None
  then show ?thesis
    by (simp add: assms(1) processRegistrant_unreachable)
next
  case (Some sf)
  define sc where "sc = snd (collectEvidence e u outDir pdf s)"
  obtain rc where cr: "collectEvidence e u outDir pdf s = (rc, sc)"
    by (cases "collectEvidence e u outDir pdf s") (simp add: sc_def)
  have sc: "remote sc = remote s" "set (dirs sc) = insert d (set (dirs s))"
    using collectEvidence_store [OF Some, where outDir = outDir and pdf = pdf and s = s]
    by (simp_all add: sc_def assms(2))
  show ?thesis
  proof (cases rc)
    case (Inl x)
    then have "r = (Inl x, sc)"
      by (simp add: assms(1) processRegistrant_cases cr)
    with Some sc show ?thesis by simp
  next
    case (Inr y)
    then have pr: "r = packAndUpload e d b sc"
      by (simp add: assms processRegistrant_cases cr)
    have ret: "fst r = Inr ()" by (simp add: pr packAndUpload_returns)
    have sub: "set (dirs (snd r)) \<subseteq> insert d (set (dirs s))"
      using packAndUpload_dirs [of e d b sc] sc(2) by (simp add: pr)
    show ?thesis
    proof (cases "zipOk e d \<and> uploadOk e b")
      case False
      have "dirs (snd r) = dirs sc"
        using packAndUpload_kept(1) [of e d b sc] False by (auto simp: pr)
      moreover have "remote (snd r) = remote sc" "\<exists>msg. last (logs (snd r)) = Err msg"
        using packAndUpload_not_uploaded [OF False, of sc] by (simp_all add: pr)
      ultimately show ?thesis using Some sc False ret by auto
    next
      case True
      then have up: "remote (snd r)
           = filter (\<lambda>x. fst x \<noteq> b) (remote sc) @ [(b, filter (under d) (map fst (files sc)))]"
        "dirs (snd r)
           = (if rmOk e d then filter (\<lambda>x. x \<noteq> d \<and> \<not> under d x) (dirs sc) else dirs sc)"
        using packAndUpload_uploaded [of e d b sc] by (simp_all add: pr)
      have inrem: "b \<in> fst ` set (remote (snd r))" by (simp add: up(1))
      have "rmOk e d \<Longrightarrow> d \<notin> set (dirs (snd r))" by (simp add: up(2))
      moreover have "\<not> rmOk e d \<Longrightarrow> d \<in> set (dirs (snd r))" by (simp add: up(2) sc(2))
      ultimately show ?thesis using Some True ret sub inrem by auto
    qed
  qed
qed


theorem directory_lifecycle_witness:
  "site unreachable_env home_url = None
   \<and> dirs (snd (processRegistrant unreachable_env home_url ''/out'' False start)) = dirs start
   \<and> site sample_env home_url \<noteq> None
   \<and> fst (processRegistrant sample_env home_url ''/out'' False start) = Inr ()
   \<and> zipOk sample_env (regDirOf ''/out'' home_url)
   \<and> uploadOk sample_env (blobNameOf home_url)
   \<and> rmOk sample_env (regDirOf ''/out'' home_url)
   \<and> regDirOf ''/out'' home_url
        \<notin> set (dirs (snd (processRegistrant sample_env home_url ''/out'' False start)))
   \<and> blobNameOf home_url
        \<in> fst ` set (remote (snd (processRegistrant sample_env home_url ''/out'' False start)))
   \<and> site upload_fails_env home_url \<noteq> None
   \<and> fst (processRegistrant upload_fails_env home_url ''/out'' False start) = Inr ()
   \<and> \<not> (zipOk upload_fails_env (regDirOf ''/out'' home_url)
          \<and> uploadOk upload_fails_env (blobNameOf home_url))
   \<and> regDirOf ''/out'' home_url
        \<in> set (dirs (snd (processRegistrant upload_fails_env home_url ''/out'' False start)))
   \<and> remote (snd (processRegistrant upload_fails_env home_url ''/out'' False start))
        = remote start"
proof -
  have u: "site unreachable_env home_url = None"
    by (simp add: unreachable_env_def)
  have s1: "site sample_env home_url \<noteq> None" and s2: "site upload_fails_env home_url \<noteq> None"
    by (simp_all add: sample_env_def upload_fails_env_def sample_site_def)
  have ok: "zipOk sample_env (regDirOf ''/out'' home_url)"
    "uploadOk sample_env (blobNameOf home_url)" "rmOk sample_env (regDirOf ''/out'' home_url)"
    by (simp_all add: sample_env_def)
  have nok: "\<not> (zipOk upload_fails_env (regDirOf ''/out'' home_url)
          \<and> uploadOk upload_fails_env (blobNameOf home_url))"
    by (simp add: sample_env_def upload_fails_env_def)
  have r1: "fst (processRegistrant sample_env home_url ''/out'' False start) = Inr ()"
    using run_sample by (simp add: observed_def)
  have r2: "fst (processRegistrant upload_fails_env home_url ''/out'' False start) = Inr ()"
    using run_upload_fails by (simp add: observed_def)
  have w1: "dirs (snd (processRegistrant unreachable_env home_url ''/out'' False start)) = dirs start"
    using directory_lifecycle [OF refl refl refl, of unreachable_env home_url "''/out''" False start] u
    by blast
  have w2: "regDirOf ''/out'' home_url
        \<notin> set (dirs (snd (processRegistrant sample_env home_url ''/out'' False start)))
      \<and> blobNameOf home_url
        \<in> fst ` set (remote (snd (processRegistrant sample_env home_url ''/out'' False start)))"
    using directory_lifecycle [OF refl refl refl, of sample_env home_url "''/out''" False start]
      r1 ok
    by blast
  have w3: "regDirOf ''/out'' home_url
        \<in> set (dirs (snd (processRegistrant upload_fails_env home_url ''/out'' False start)))
      \<and> remote (snd (processRegistrant upload_fails_env home_url ''/out'' False start))
        = remote start"
    using directory_lifecycle [OF refl refl refl, of upload_fails_env home_url "''/out''" False start]
      r2 nok
    by blast
  show ?thesis
    using u s1 s2 ok nok r1 r2 w1 w2 w3 by blast
qed

text \<open>
  C2 as stated fails in two ways: a registrant whose page cannot be reached is
  processed without any directory being made, and an archive that was uploaded leaves
  its directory behind when the removal fails.
\<close>

theorem directory_lifecycle_counterexample:
  "fst (processRegistrant unreachable_env home_url ''/out'' False start)
     = Inl ''page.goto: https://www.swoogo.com/loggedin/registrant/view?eventId=255274&id=12345''
   \<and> dirs (snd (processRegistrant unreachable_env home_url ''/out'' False start)) = []
   \<and> fst (processRegistrant rm_fails_env home_url ''/out'' False start) = Inr ()
   \<and> map fst (remote (snd (processRegistrant rm_fails_env home_url ''/out'' False start)))
       = [''12345.zip'']
   \<and> dirs (snd (processRegistrant rm_fails_env home_url ''/out'' False start)) = [''/out/12345'']"
  using run_unreachable run_rm_fails by (simp add: observed_def)


subsection \<open>A navigation that fails\<close>

lemma packAndUpload_last_log:
  "last (logs (snd (packAndUpload e d b s))) = Info (''Deleted local folder: '' @ d)
   \<or> (\<exists>msg. last (logs (snd (packAndUpload e d b s))) = Err msg)"
proof (cases "zipOk e d \<and> uploadOk e b")
  case True
  then have "logs (snd (packAndUpload e d b s))
           = logs s @ [Info (''Uploaded to Azure: '' @ blobUrl e b),
                       Info (''Deleted local folder: '' @ d)]"
    using packAndUpload_uploaded by blast
  then show ?thesis by simp
next
  case False
  then show ?thesis using packAndUpload_not_uploaded(2) by blast
qed

lemma try_catch_returns:
  "(\<And>m s'. fst (h m s') = Inr ()) \<Longrightarrow> fst (try_catch f h s) = Inr ()"
  by (cases "f s") (auto simp: try_catch_def split: sum.splits)

lemma step03_returns: "fst (step03 e u dir base s) = Inr ()"
  unfolding step03_def by (rule try_catch_returns) (simp add: console_def)

lemma step04_returns: "fst (step04 e dir base pdf s) = Inr ()"
  unfolding step04_def by (rule try_catch_returns) (simp add: ret_def)

lemma step05_nav_fails:
  "truthy h \<Longrightarrow> site e (the h) = None \<Longrightarrow>
   step05 e dir base h s = (Inl (''page.goto: '' @ the h), stranded e (the h) s)"
  by (simp add: step05_def seq_def bnd_def goto_def)

lemma step06_nav_fails:
  "truthy h \<Longrightarrow> site e (the h) = None \<Longrightarrow>
   step06 e dir base pdf h s = (Inl (''page.goto: '' @ the h), stranded e (the h) s)"
  by (simp add: step06_def seq_def bnd_def goto_def)

lemma bnd_assoc: "bnd (bnd f g) h = bnd f (\<lambda>x. bnd (g x) h)"
  by (rule ext) (simp add: bnd_def split: prod.splits sum.splits)

lemma bnd_ret: "bnd (ret x) f = f x"
  by (rule ext) (simp add: bnd_def ret_def)

lemma seq_bnd: "bnd (seq f g) h = seq f (bnd g h)"
  by (simp add: seq_def bnd_assoc)

lemma collectEvidence_split:
  "collectEvidence e u outDir pdf
   = bnd (upToResolution e u outDir pdf) (\<lambda>(confirmationHref, invoiceHref).
       seq (step05 e (regDirOf outDir u) (safe (regIdOf u)) confirmationHref)
      (seq (step06 e (regDirOf outDir u) (safe (regIdOf u)) pdf invoiceHref)
      (seq (step03 e u (regDirOf outDir u) (safe (regIdOf u)))
           (step04 e (regDirOf outDir u) (safe (regIdOf u)) pdf))))"
  unfolding collectEvidence_def upToResolution_def Let_def
  by (simp add: seq_bnd bnd_assoc bnd_ret)

lemma find_quiet:
  "\<exists>h. fst (findActionHrefByUrlContains e ns s) = Inr h"
  "logs (snd (findActionHrefByUrlContains e ns s)) = logs s"
  "files (snd (findActionHrefByUrlContains e ns s)) = files s"
  "remote (snd (findActionHrefByUrlContains e ns s)) = remote s"
  "tmpFiles (snd (findActionHrefByUrlContains e ns s)) = tmpFiles s"
  "dirs (snd (findActionHrefByUrlContains e ns s)) = dirs s"
  by (simp_all add: findActionHrefByUrlContains_def seq_def bnd_def clickActionsQuiet_def Let_def)

lemma upToResolution_reached:
  fixes outDir u :: string
  assumes "site e u = Some sf" and "pageShotOk sf"
  defines "p1 \<equiv> path_join (regDirOf outDir u) (safe (regIdOf u) @ ''__01_Attendance_Status_Proof'')"
      and "p2 \<equiv> path_join (regDirOf outDir u) (safe (regIdOf u) @ ''__02_Contact_Details'')"
  shows "\<exists>ch ih. fst (upToResolution e u outDir pdf s) = Inr (ch, ih)"
    and "logs (snd (upToResolution e u outDir pdf s))
         = logs s @ [Info u, Info (basename p1 @ ''.png''), Info (basename p2 @ ''.png'')]"
    and "p1 @ ''.png'' \<in> fst ` set (files (snd (upToResolution e u outDir pdf s)))"
    and "p2 @ ''.png'' \<in> fst ` set (files (snd (upToResolution e u outDir pdf s)))"
    and "remote (snd (upToResolution e u outDir pdf s)) = remote s"
    and "tmpFiles (snd (upToResolution e u outDir pdf s)) = tmpFiles s"
proof -
  define s0 where "s0 = snd (mkdirSync (regDirOf outDir u) (load sf (s\<lparr>logs := logs s @ [Info u]\<rparr>)))"
  have s0: "logs s0 = logs s @ [Info u]" "remote s0 = remote s" "tmpFiles s0 = tmpFiles s"
    "mainPage s0 = \<lparr>surf = sf, clicks = 0, doc = initDoc sf\<rparr>"
    by (simp_all add: s0_def mkdirSync_def)
  have m0: "mkdirSync (regDirOf outDir u) (load sf (s\<lparr>logs := logs s @ [Info u]\<rparr>)) = (Inr (), s0)"
    by (simp add: s0_def mkdirSync_def)
  have ok0: "pageShotOk (surf (the_pg MainPage s0))" using assms(2) s0(4) by (simp add: the_pg_def)
  define s1 where "s1 = snd (captureFullPage MainPage p1 pdf s0)"
  have c1: "captureFullPage MainPage p1 pdf s0 = (Inr (), s1)"
    using captureFullPage_written(1) [OF ok0, of p1 pdf] by (simp add: s1_def prod_eq_iff)
  have f1: "p1 @ ''.png'' \<in> fst ` set (files s1)"
    and l1: "logs s1 = logs s0 @ [Info (basename p1 @ ''.png'')]"
    using captureFullPage_written(2,4) [OF ok0, of p1 pdf] by (simp_all add: s1_def)
  have ok1: "pageShotOk (surf (the_pg MainPage s1))"
    using captureFullPage_written(3) [OF ok0, of p1 pdf] ok0 by (simp add: s1_def)
  have st1: "steady s0 s1"
    using keepsD [OF keeps_captureFullPage, of s0 MainPage p1 pdf] by (simp add: s1_def)
  define s2 where "s2 = snd (captureFullPage MainPage p2 pdf s1)"
  have c2: "captureFullPage MainPage p2 pdf s1 = (Inr (), s2)"
    using captureFullPage_written(1) [OF ok1, of p2 pdf] by (simp add: s2_def prod_eq_iff)
  have f2: "p2 @ ''.png'' \<in> fst ` set (files s2)"
    and l2: "logs s2 = logs s1 @ [Info (basename p2 @ ''.png'')]"
    using captureFullPage_written(2,4) [OF ok1, of p2 pdf] by (simp_all add: s2_def)
  have st2: "steady s1 s2"
    using keepsD [OF keeps_captureFullPage, of s1 MainPage p2 pdf] by (simp add: s2_def)
  have f12: "p1 @ ''.png'' \<in> fst ` set (files s2)"
    using st2 f1 by (rule steady_paths)
  define s3 where "s3 = snd (findActionHrefByUrlContains e [''confirmation''] s2)"
  obtain ch where r3: "findActionHrefByUrlContains e [''confirmation''] s2 = (Inr ch, s3)"
    using find_quiet(1) [of e "[''confirmation'']" s2] by (auto simp: s3_def prod_eq_iff)
  define s4 where "s4 = snd (findActionHrefByUrlContains e [''invoice''] s3)"
  obtain ih where r4: "findActionHrefByUrlContains e [''invoice''] s3 = (Inr ih, s4)"
    using find_quiet(1) [of e "[''invoice'']" s3] by (auto simp: s4_def prod_eq_iff)
  have q: "logs s4 = logs s2" "files s4 = files s2" "remote s4 = remote s2"
    "tmpFiles s4 = tmpFiles s2"
    by (simp_all add: s4_def s3_def find_quiet)
  have run: "upToResolution e u outDir pdf s = (Inr (ch, ih), s4)"
    unfolding upToResolution_def Let_def
    using assms(1) m0 c1 c2 r3 r4
    by (simp add: seq_def bnd_def console_def goto_def ret_def p1_def p2_def)
  show "\<exists>ch ih. fst (upToResolution e u outDir pdf s) = Inr (ch, ih)" by (simp add: run)
  show "logs (snd (upToResolution e u outDir pdf s))
         = logs s @ [Info u, Info (basename p1 @ ''.png''), Info (basename p2 @ ''.png'')]"
    by (simp add: run q l2 l1 s0)
  show "p1 @ ''.png'' \<in> fst ` set (files (snd (upToResolution e u outDir pdf s)))"
    using f12 by (simp add: run q)
  show "p2 @ ''.png'' \<in> fst ` set (files (snd (upToResolution e u outDir pdf s)))"
    using f2 by (simp add: run q)
  show "remote (snd (upToResolution e u outDir pdf s)) = remote s"
    using st1 st2 by (simp add: run q s0 steady_def)
  show "tmpFiles (snd (upToResolution e u outDir pdf s)) = tmpFiles s"
    using st1 st2 by (simp add: run q s0 steady_def)
qed

lemma job_stops_at_confirmation:
  assumes "upToResolution e u outDir pdf s = (Inr (ch, ih), s4)"
      and "truthy ch" and "site e (the ch) = None"
  shows "processRegistrant e u outDir pdf s
         = (Inl (''page.goto: '' @ the ch), stranded e (the ch) s4)"
  by (simp add: processRegistrant_cases collectEvidence_split bnd_def seq_def assms(1)
        step05_nav_fails [OF assms(2,3)])

lemma job_stops_at_invoice:
  assumes "upToResolution e u outDir pdf s = (Inr (ch, ih), s4)"
      and "step05 e (regDirOf outDir u) (safe (regIdOf u)) ch s4 = (Inr (), s5)"
      and "truthy ih" and "site e (the ih) = None"
  shows "processRegistrant e u outDir pdf s
         = (Inl (''page.goto: '' @ the ih), stranded e (the ih) s5)"
  by (simp add: processRegistrant_cases collectEvidence_split bnd_def seq_def assms(1,2)
        step06_nav_fails [OF assms(3,4)])

lemma run_no_confirmation:
  "observed (processRegistrant no_confirmation_env home_url ''/out'' False start) =
     (Inl ''page.goto: https://www.swoogo.com/loggedin/registrant/confirmation?id=12345'',
      [''/out/12345''],
      [(''/out/12345/12345__01_Attendance_Status_Proof.png'',
        FullPage ''https://www.swoogo.com/loggedin/registrant/view?eventId=255274&id=12345''),
       (''/out/12345/12345__02_Contact_Details.png'',
        FullPage ''https://www.swoogo.com/loggedin/registrant/view?eventId=255274&id=12345'')],
      [], [],
      [Info ''https://www.swoogo.com/loggedin/registrant/view?eventId=255274&id=12345'',
       Info ''12345__01_Attendance_Status_Proof.png'',
       Info ''12345__02_Contact_Details.png''])"
  by code_simp

text \<open>
  C3, as the program has it. The job is its first part, up to the two addresses resolved
  from the Actions menu, followed by the confirmation, invoice, ticket email and QR
  steps. When the registrant page cannot be reached, the job throws at once. When it is
  reached and can be captured, the first part returns with the attendance and contact
  screenshots on disk, three console lines, and nothing packed or uploaded. When the
  navigation to the confirmation address that was resolved fails, the job throws there:
  its final state is the state after the first part, but for the page the browser is
  left on, so no later step has run and nothing was packed or uploaded. When the
  confirmation step has returned and the navigation to the invoice address that was
  resolved fails, the job throws there in the same way, in the state the confirmation
  step left. A job that throws has packed and uploaded nothing; the files captured so
  far stay on disk; the run logs the error and goes on with the next registrant. The
  ticket email and QR steps catch what fails inside them, so they never end the job.
  Only a job that returns has tried to pack and upload: its last console line says so.
\<close>

theorem failed_job_is_not_packed:
  assumes "r = processRegistrant e u outDir pdf s"
      and "dir = regDirOf outDir u" and "base = safe (regIdOf u)"
      and "first = upToResolution e u outDir pdf s"
  shows "(collectEvidence e u outDir pdf
         = bnd (upToResolution e u outDir pdf) (\<lambda>(confirmationHref, invoiceHref).
             seq (step05 e dir base confirmationHref)
            (seq (step06 e dir base pdf invoiceHref)
            (seq (step03 e u dir base) (step04 e dir base pdf)))))
     \<and> (site e u = None \<longrightarrow>
           r = (Inl (''page.goto: '' @ u), stranded e u (s\<lparr>logs := logs s @ [Info u]\<rparr>)))
     \<and> (site e u = Some sf \<and> pageShotOk sf \<longrightarrow>
           (\<exists>ch ih. fst first = Inr (ch, ih))
           \<and> logs (snd first)
               = logs s @ [Info u,
                   Info (basename (path_join dir (base @ ''__01_Attendance_Status_Proof'')) @ ''.png''),
                   Info (basename (path_join dir (base @ ''__02_Contact_Details'')) @ ''.png'')]
           \<and> path_join dir (base @ ''__01_Attendance_Status_Proof'') @ ''.png''
               \<in> fst ` set (files (snd first))
           \<and> path_join dir (base @ ''__02_Contact_Details'') @ ''.png''
               \<in> fst ` set (files (snd first))
           \<and> remote (snd first) = remote s \<and> tmpFiles (snd first) = tmpFiles s)
     \<and> (fst first = Inr (ch, ih) \<and> truthy ch \<and> site e (the ch) = None \<longrightarrow>
           r = (Inl (''page.goto: '' @ the ch), stranded e (the ch) (snd first)))
     \<and> (fst first = Inr (ch, ih) \<and> step05 e dir base ch (snd first) = (Inr (), s5)
           \<and> truthy ih \<and> site e (the ih) = None \<longrightarrow>
           r = (Inl (''page.goto: '' @ the ih), stranded e (the ih) s5)
           \<and> fst ` set (files (snd first)) \<subseteq> fst ` set (files s5)
           \<and> remote s5 = remote (snd first) \<and> tmpFiles s5 = tmpFiles (snd first))
     \<and> (fst r = Inl msg \<longrightarrow>
            remote (snd r) = remote s \<and> tmpFiles (snd r) = tmpFiles s
            \<and> fst ` set (files s) \<subseteq> fst ` set (files (snd r))
            \<and> processAll e (u # us) outDir pdf s
                = processAll e us outDir pdf
                    ((snd r)\<lparr>logs := logs (snd r) @ [Err (''Error for '' @ u @ '': '' @ msg)]\<rparr>))
     \<and> (fst r = Inr () \<longrightarrow>
            processAll e (u # us) outDir pdf s = processAll e us outDir pdf (snd r)
            \<and> (last (logs (snd r)) = Info (''Deleted local folder: '' @ dir)
                \<or> (\<exists>m. last (logs (snd r)) = Err m)))
     \<and> (fst (step03 e u d b s) = Inr ())
     \<and> (fst (step04 e d b pdf s) = Inr ())"
proof -
  have c1: "collectEvidence e u outDir pdf
         = bnd (upToResolution e u outDir pdf) (\<lambda>(confirmationHref, invoiceHref).
             seq (step05 e dir base confirmationHref)
            (seq (step06 e dir base pdf invoiceHref)
            (seq (step03 e u dir base) (step04 e dir base pdf))))"
    unfolding assms(2,3) by (rule collectEvidence_split)
  have c2: "fst (step03 e u d b s) = Inr ()" by (rule step03_returns)
  have c3: "fst (step04 e d b pdf s) = Inr ()" by (rule step04_returns)
  have c4: "site e u = None \<longrightarrow>
           r = (Inl (''page.goto: '' @ u), stranded e u (s\<lparr>logs := logs s @ [Info u]\<rparr>))"
    by (simp add: assms(1) processRegistrant_unreachable)
  have c5: "site e u = Some sf \<and> pageShotOk sf \<longrightarrow>
           (\<exists>ch ih. fst first = Inr (ch, ih))
           \<and> logs (snd first)
               = logs s @ [Info u,
                   Info (basename (path_join dir (base @ ''__01_Attendance_Status_Proof'')) @ ''.png''),
                   Info (basename (path_join dir (base @ ''__02_Contact_Details'')) @ ''.png'')]
           \<and> path_join dir (base @ ''__01_Attendance_Status_Proof'') @ ''.png''
               \<in> fst ` set (files (snd first))
           \<and> path_join dir (base @ ''__02_Contact_Details'') @ ''.png''
               \<in> fst ` set (files (snd first))
           \<and> remote (snd first) = remote s \<and> tmpFiles (snd first) = tmpFiles s"
    unfolding assms(2,3,4) using upToResolution_reached [of e u sf outDir pdf s] by blast
  have c6: "fst first = Inr (ch, ih) \<and> truthy ch \<and> site e (the ch) = None \<longrightarrow>
           r = (Inl (''page.goto: '' @ the ch), stranded e (the ch) (snd first))"
    unfolding assms(1,4)
    using job_stops_at_confirmation [of e u outDir pdf s ch ih "snd (upToResolution e u outDir pdf s)"]
    by (simp add: prod_eq_iff)
  have c7: "fst first = Inr (ch, ih) \<and> step05 e dir base ch (snd first) = (Inr (), s5)
           \<and> truthy ih \<and> site e (the ih) = None \<longrightarrow>
           r = (Inl (''page.goto: '' @ the ih), stranded e (the ih) s5)
           \<and> fst ` set (files (snd first)) \<subseteq> fst ` set (files s5)
           \<and> remote s5 = remote (snd first) \<and> tmpFiles s5 = tmpFiles (snd first)"
  proof
    assume a: "fst first = Inr (ch, ih) \<and> step05 e dir base ch (snd first) = (Inr (), s5)
           \<and> truthy ih \<and> site e (the ih) = None"
    then have "steady (snd first) s5"
      using keepsD [OF keeps_step05, of "snd first" e dir base ch] by simp
    then have st: "fst ` set (files (snd first)) \<subseteq> fst ` set (files s5)"
      "remote s5 = remote (snd first)" "tmpFiles s5 = tmpFiles (snd first)"
      by (simp_all add: steady_def)
    from a have "r = (Inl (''page.goto: '' @ the ih), stranded e (the ih) s5)"
      unfolding assms(1,2,3,4)
      using job_stops_at_invoice [of e u outDir pdf s ch ih
              "snd (upToResolution e u outDir pdf s)" s5]
      by (simp add: prod_eq_iff)
    with st show "r = (Inl (''page.goto: '' @ the ih), stranded e (the ih) s5)
           \<and> fst ` set (files (snd first)) \<subseteq> fst ` set (files s5)
           \<and> remote s5 = remote (snd first) \<and> tmpFiles s5 = tmpFiles (snd first)"
      by simp
  qed
  have c8: "fst r = Inl msg \<longrightarrow>
            remote (snd r) = remote s \<and> tmpFiles (snd r) = tmpFiles s
            \<and> fst ` set (files s) \<subseteq> fst ` set (files (snd r))
            \<and> processAll e (u # us) outDir pdf s
                = processAll e us outDir pdf
                    ((snd r)\<lparr>logs := logs (snd r) @ [Err (''Error for '' @ u @ '': '' @ msg)]\<rparr>)"
  proof
    assume f: "fst r = Inl msg"
    define sc where "sc = snd (collectEvidence e u outDir pdf s)"
    obtain rc where cr: "collectEvidence e u outDir pdf s = (rc, sc)"
      by (cases "collectEvidence e u outDir pdf s") (simp add: sc_def)
    have rsc: "r = (Inl msg, sc)"
    proof (cases rc)
      case (Inl x)
      with f show ?thesis by (simp add: assms(1) processRegistrant_cases cr)
    next
      case (Inr y)
      then have "fst r = Inr ()"
        by (simp add: assms(1) processRegistrant_cases cr packAndUpload_returns)
      with f show ?thesis by simp
    qed
    have st: "remote sc = remote s \<and> tmpFiles sc = tmpFiles s
              \<and> fst ` set (files s) \<subseteq> fst ` set (files sc)"
    proof (cases "site e u")
      case None
      then show ?thesis by (simp add: sc_def collectEvidence_unreachable)
    next
      case (Some sf)
      then show ?thesis
        using collectEvidence_store [OF Some, where outDir = outDir and pdf = pdf and s = s]
        by (simp add: sc_def)
    qed
    from rsc have "processRegistrant e u outDir pdf s = (Inl msg, sc)" by (simp add: assms(1))
    then have "processAll e (u # us) outDir pdf s
                = processAll e us outDir pdf
                    ((snd r)\<lparr>logs := logs (snd r) @ [Err (''Error for '' @ u @ '': '' @ msg)]\<rparr>)"
      by (simp add: try_catch_def console_def rsc)
    with st rsc show "remote (snd r) = remote s \<and> tmpFiles (snd r) = tmpFiles s
            \<and> fst ` set (files s) \<subseteq> fst ` set (files (snd r))
            \<and> processAll e (u # us) outDir pdf s
                = processAll e us outDir pdf
                    ((snd r)\<lparr>logs := logs (snd r) @ [Err (''Error for '' @ u @ '': '' @ msg)]\<rparr>)"
      by simp
  qed
  have c9: "fst r = Inr () \<longrightarrow>
            processAll e (u # us) outDir pdf s = processAll e us outDir pdf (snd r)
            \<and> (last (logs (snd r)) = Info (''Deleted local folder: '' @ dir)
                \<or> (\<exists>m. last (logs (snd r)) = Err m))"
  proof
    assume f: "fst r = Inr ()"
    then have "processRegistrant e u outDir pdf s = (Inr (), snd r)"
      by (simp add: assms(1) prod_eq_iff)
    then have a: "processAll e (u # us) outDir pdf s = processAll e us outDir pdf (snd r)"
      by (simp add: try_catch_def)
    define sc where "sc = snd (collectEvidence e u outDir pdf s)"
    obtain rc where cr: "collectEvidence e u outDir pdf s = (rc, sc)"
      by (cases "collectEvidence e u outDir pdf s") (simp add: sc_def)
    have "r = packAndUpload e (regDirOf outDir u) (blobNameOf u) sc"
    proof (cases rc)
      case (Inl x)
      with f show ?thesis by (simp add: assms(1) processRegistrant_cases cr)
    next
      case (Inr y)
      then show ?thesis by (simp add: assms(1) processRegistrant_cases cr)
    qed
    then have "last (logs (snd r)) = Info (''Deleted local folder: '' @ dir)
                \<or> (\<exists>m. last (logs (snd r)) = Err m)"
      using packAndUpload_last_log by (simp add: assms(2))
    with a show "processAll e (u # us) outDir pdf s = processAll e us outDir pdf (snd r)
            \<and> (last (logs (snd r)) = Info (''Deleted local folder: '' @ dir)
                \<or> (\<exists>m. last (logs (snd r)) = Err m))"
      by simp
  qed
  show ?thesis
    by (intro conjI) (rule c1 c2 c3 c4 c5 c6 c7 c8 c9)+
qed

theorem failed_job_is_not_packed_witness:
  "site unreachable_env home_url = None
   \<and> fst (processRegistrant unreachable_env home_url ''/out'' False start)
       = Inl (''page.goto: '' @ home_url)
   \<and> site no_confirmation_env home_url = Some home_page \<and> pageShotOk home_page
   \<and> fst (upToResolution no_confirmation_env home_url ''/out'' False start)
       = Inr (Some ''https://www.swoogo.com/loggedin/registrant/confirmation?id=12345'',
              Some ''https://www.swoogo.com/loggedin/registrant/invoice?id=12345'')
   \<and> truthy (Some ''https://www.swoogo.com/loggedin/registrant/confirmation?id=12345'')
   \<and> site no_confirmation_env
         (the (Some ''https://www.swoogo.com/loggedin/registrant/confirmation?id=12345'')) = None
   \<and> logs (snd (upToResolution no_confirmation_env home_url ''/out'' False start))
       = [Info home_url, Info ''12345__01_Attendance_Status_Proof.png'',
          Info ''12345__02_Contact_Details.png'']
   \<and> observed (processRegistrant no_confirmation_env home_url ''/out'' False start)
       = (Inl ''page.goto: https://www.swoogo.com/loggedin/registrant/confirmation?id=12345'',
          [''/out/12345''],
          [(''/out/12345/12345__01_Attendance_Status_Proof.png'', FullPage home_url),
           (''/out/12345/12345__02_Contact_Details.png'', FullPage home_url)],
          [], [],
          [Info home_url, Info ''12345__01_Attendance_Status_Proof.png'',
           Info ''12345__02_Contact_Details.png''])
   \<and> url (surf (mainPage (snd (processRegistrant no_confirmation_env home_url ''/out'' False
                                  start)))) = ''chrome-error://chromewebdata/''
   \<and> processAll no_confirmation_env [home_url] ''/out'' False start
       = (snd (processRegistrant no_confirmation_env home_url ''/out'' False start))
           \<lparr>logs := logs (snd (processRegistrant no_confirmation_env home_url ''/out'' False start))
               @ [Err (''Error for '' @ home_url @ '': ''
                       @ ''page.goto: https://www.swoogo.com/loggedin/registrant/confirmation?id=12345'')]\<rparr>
   \<and> fst (upToResolution no_invoice_env home_url ''/out'' False start)
       = Inr (Some ''https://www.swoogo.com/loggedin/registrant/confirmation?id=12345'',
              Some ''https://www.swoogo.com/loggedin/registrant/invoice?id=12345'')
   \<and> fst (step05 no_invoice_env ''/out/12345'' ''12345''
             (Some ''https://www.swoogo.com/loggedin/registrant/confirmation?id=12345'')
             (snd (upToResolution no_invoice_env home_url ''/out'' False start))) = Inr ()
   \<and> truthy (Some ''https://www.swoogo.com/loggedin/registrant/invoice?id=12345'')
   \<and> site no_invoice_env
         (the (Some ''https://www.swoogo.com/loggedin/registrant/invoice?id=12345'')) = None
   \<and> observed (processRegistrant no_invoice_env home_url ''/out'' False start)
       = (Inl ''page.goto: https://www.swoogo.com/loggedin/registrant/invoice?id=12345'',
          [''/out/12345''],
          [(''/out/12345/12345__01_Attendance_Status_Proof.png'', FullPage home_url),
           (''/out/12345/12345__02_Contact_Details.png'', FullPage home_url),
           (''/out/12345/12345__05_Confirmation_email.png'',
            FrameBody ''https://www.swoogo.com/loggedin/registrant/confirmation?id=12345'')],
          [], [],
          [Info home_url, Info ''12345__01_Attendance_Status_Proof.png'',
           Info ''12345__02_Contact_Details.png'', Info ''05_Confirmation_email.png''])
   \<and> fst (processRegistrant sample_env home_url ''/out'' False start) = Inr ()
   \<and> processAll sample_env [home_url] ''/out'' False start
       = snd (processRegistrant sample_env home_url ''/out'' False start)
   \<and> (last (logs (snd (processRegistrant sample_env home_url ''/out'' False start)))
         = Info (''Deleted local folder: '' @ regDirOf ''/out'' home_url)
       \<or> (\<exists>m. last (logs (snd (processRegistrant sample_env home_url ''/out'' False start)))
                = Err m))"
proof -
  let ?c = "''https://www.swoogo.com/loggedin/registrant/confirmation?id=12345''"
  let ?i = "''https://www.swoogo.com/loggedin/registrant/invoice?id=12345''"
  have u: "site unreachable_env home_url = None"
    by (simp add: unreachable_env_def)
  have w1: "fst (processRegistrant unreachable_env home_url ''/out'' False start)
       = Inl (''page.goto: '' @ home_url)"
    using failed_job_is_not_packed [OF refl refl refl refl, where e = unreachable_env
        and u = home_url and outDir = "''/out''" and pdf = False and s = start] u
    by (simp only: fst_conv)
  have h: "site no_confirmation_env home_url = Some home_page" "pageShotOk home_page"
    by (simp_all add: no_confirmation_env_def sample_site_def home_page_def plain_page_def
          home_url_def)
  have t: "truthy (Some ?c)" "site no_confirmation_env (the (Some ?c)) = None"
    "truthy (Some ?i)" "site no_invoice_env (the (Some ?i)) = None"
    by (simp_all add: truthy_def no_confirmation_env_def no_invoice_env_def)
  have dir: "regDirOf ''/out'' home_url = ''/out/12345''" "safe (regIdOf home_url) = ''12345''"
    by code_simp+
  have f1: "fst (upToResolution no_confirmation_env home_url ''/out'' False start)
            = Inr (Some ?c, Some ?i)"
    by code_simp
  have l1: "logs (snd (upToResolution no_confirmation_env home_url ''/out'' False start))
       = [Info home_url, Info ''12345__01_Attendance_Status_Proof.png'',
          Info ''12345__02_Contact_Details.png'']"
    using failed_job_is_not_packed [OF refl refl refl refl, where e = no_confirmation_env
        and u = home_url and outDir = "''/out''" and pdf = False and s = start
        and sf = home_page] h
    by (simp add: dir start_def basename_def path_join_def)
  have r1: "processRegistrant no_confirmation_env home_url ''/out'' False start
            = (Inl (''page.goto: '' @ the (Some ?c)),
               stranded no_confirmation_env (the (Some ?c))
                 (snd (upToResolution no_confirmation_env home_url ''/out'' False start)))"
    using failed_job_is_not_packed [OF refl refl refl refl, where e = no_confirmation_env
        and u = home_url and outDir = "''/out''" and pdf = False and s = start
        and ch = "Some ?c" and ih = "Some ?i"] f1 t(1,2)
    by blast
  have o1: "observed (Inl (''page.goto: '' @ the (Some ?c)) :: string + unit,
               stranded no_confirmation_env (the (Some ?c))
                 (snd (upToResolution no_confirmation_env home_url ''/out'' False start)))
       = (Inl ''page.goto: https://www.swoogo.com/loggedin/registrant/confirmation?id=12345'',
          [''/out/12345''],
          [(''/out/12345/12345__01_Attendance_Status_Proof.png'', FullPage home_url),
           (''/out/12345/12345__02_Contact_Details.png'', FullPage home_url)],
          [], [],
          [Info home_url, Info ''12345__01_Attendance_Status_Proof.png'',
           Info ''12345__02_Contact_Details.png''])"
    by code_simp
  have e1: "url (surf (mainPage (stranded no_confirmation_env (the (Some ?c))
                 (snd (upToResolution no_confirmation_env home_url ''/out'' False start)))))
            = ''chrome-error://chromewebdata/''"
    by (simp add: stranded_def no_confirmation_env_def error_page_def plain_page_def)
  have n: "fst (processRegistrant no_confirmation_env home_url ''/out'' False start)
       = Inl ''page.goto: https://www.swoogo.com/loggedin/registrant/confirmation?id=12345''"
    by (simp add: r1)
  have w2: "processAll no_confirmation_env [home_url] ''/out'' False start
       = processAll no_confirmation_env [] ''/out'' False
          ((snd (processRegistrant no_confirmation_env home_url ''/out'' False start))
           \<lparr>logs := logs (snd (processRegistrant no_confirmation_env home_url ''/out'' False start))
               @ [Err (''Error for '' @ home_url @ '': ''
                       @ ''page.goto: https://www.swoogo.com/loggedin/registrant/confirmation?id=12345'')]\<rparr>)"
    using failed_job_is_not_packed [OF refl refl refl refl, where e = no_confirmation_env
        and u = home_url and outDir = "''/out''" and pdf = False and s = start
        and msg = "''page.goto: https://www.swoogo.com/loggedin/registrant/confirmation?id=12345''"
        and us = "[]"] n
    by blast
  have f2: "fst (upToResolution no_invoice_env home_url ''/out'' False start)
            = Inr (Some ?c, Some ?i)"
    by code_simp
  have f5: "fst (step05 no_invoice_env ''/out/12345'' ''12345'' (Some ?c)
             (snd (upToResolution no_invoice_env home_url ''/out'' False start))) = Inr ()"
    by code_simp
  then have s5: "step05 no_invoice_env (regDirOf ''/out'' home_url) (safe (regIdOf home_url))
             (Some ?c) (snd (upToResolution no_invoice_env home_url ''/out'' False start))
        = (Inr (), snd (step05 no_invoice_env ''/out/12345'' ''12345'' (Some ?c)
             (snd (upToResolution no_invoice_env home_url ''/out'' False start))))"
    by (simp add: dir prod_eq_iff)
  have r2: "processRegistrant no_invoice_env home_url ''/out'' False start
            = (Inl (''page.goto: '' @ the (Some ?i)),
               stranded no_invoice_env (the (Some ?i))
                 (snd (step05 no_invoice_env ''/out/12345'' ''12345'' (Some ?c)
                    (snd (upToResolution no_invoice_env home_url ''/out'' False start)))))"
    using failed_job_is_not_packed [OF refl refl refl refl, where e = no_invoice_env
        and u = home_url and outDir = "''/out''" and pdf = False and s = start
        and ch = "Some ?c" and ih = "Some ?i"
        and ?s5.0 = "snd (step05 no_invoice_env ''/out/12345'' ''12345'' (Some ?c)
             (snd (upToResolution no_invoice_env home_url ''/out'' False start)))"] f2 s5 t(3,4)
    by blast
  have o2: "observed (Inl (''page.goto: '' @ the (Some ?i)) :: string + unit,
               stranded no_invoice_env (the (Some ?i))
                 (snd (step05 no_invoice_env ''/out/12345'' ''12345'' (Some ?c)
                    (snd (upToResolution no_invoice_env home_url ''/out'' False start)))))
       = (Inl ''page.goto: https://www.swoogo.com/loggedin/registrant/invoice?id=12345'',
          [''/out/12345''],
          [(''/out/12345/12345__01_Attendance_Status_Proof.png'', FullPage home_url),
           (''/out/12345/12345__02_Contact_Details.png'', FullPage home_url),
           (''/out/12345/12345__05_Confirmation_email.png'',
            FrameBody ''https://www.swoogo.com/loggedin/registrant/confirmation?id=12345'')],
          [], [],
          [Info home_url, Info ''12345__01_Attendance_Status_Proof.png'',
           Info ''12345__02_Contact_Details.png'', Info ''05_Confirmation_email.png''])"
    by code_simp
  have g: "fst (processRegistrant sample_env home_url ''/out'' False start) = Inr ()"
    using run_sample by (simp add: observed_def)
  have w3: "processAll sample_env [home_url] ''/out'' False start
       = processAll sample_env [] ''/out'' False
           (snd (processRegistrant sample_env home_url ''/out'' False start))
     \<and> (last (logs (snd (processRegistrant sample_env home_url ''/out'' False start)))
         = Info (''Deleted local folder: '' @ regDirOf ''/out'' home_url)
       \<or> (\<exists>m. last (logs (snd (processRegistrant sample_env home_url ''/out'' False start)))
                = Err m))"
    using failed_job_is_not_packed [OF refl refl refl refl, where e = sample_env
        and u = home_url and outDir = "''/out''" and pdf = False and s = start and us = "[]"] g
    by blast
  have a: "observed (processRegistrant no_confirmation_env home_url ''/out'' False start)
       = (Inl ''page.goto: https://www.swoogo.com/loggedin/registrant/confirmation?id=12345'',
          [''/out/12345''],
          [(''/out/12345/12345__01_Attendance_Status_Proof.png'', FullPage home_url),
           (''/out/12345/12345__02_Contact_Details.png'', FullPage home_url)],
          [], [],
          [Info home_url, Info ''12345__01_Attendance_Status_Proof.png'',
           Info ''12345__02_Contact_Details.png''])"
    "url (surf (mainPage (snd (processRegistrant no_confirmation_env home_url ''/out'' False
                                  start)))) = ''chrome-error://chromewebdata/''"
    using o1 e1 by (simp_all only: r1 snd_conv)
  have b: "observed (processRegistrant no_invoice_env home_url ''/out'' False start)
       = (Inl ''page.goto: https://www.swoogo.com/loggedin/registrant/invoice?id=12345'',
          [''/out/12345''],
          [(''/out/12345/12345__01_Attendance_Status_Proof.png'', FullPage home_url),
           (''/out/12345/12345__02_Contact_Details.png'', FullPage home_url),
           (''/out/12345/12345__05_Confirmation_email.png'',
            FrameBody ''https://www.swoogo.com/loggedin/registrant/confirmation?id=12345'')],
          [], [],
          [Info home_url, Info ''12345__01_Attendance_Status_Proof.png'',
           Info ''12345__02_Contact_Details.png'', Info ''05_Confirmation_email.png''])"
    using o2 by (simp only: r2)
  from w2 have w2': "processAll no_confirmation_env [home_url] ''/out'' False start
       = (snd (processRegistrant no_confirmation_env home_url ''/out'' False start))
           \<lparr>logs := logs (snd (processRegistrant no_confirmation_env home_url ''/out'' False start))
               @ [Err (''Error for '' @ home_url @ '': ''
                       @ ''page.goto: https://www.swoogo.com/loggedin/registrant/confirmation?id=12345'')]\<rparr>"
    by (simp only: processAll.simps)
  from w3 have w3': "processAll sample_env [home_url] ''/out'' False start
       = snd (processRegistrant sample_env home_url ''/out'' False start)"
    "last (logs (snd (processRegistrant sample_env home_url ''/out'' False start)))
         = Info (''Deleted local folder: '' @ regDirOf ''/out'' home_url)
       \<or> (\<exists>m. last (logs (snd (processRegistrant sample_env home_url ''/out'' False start)))
                = Err m)"
    by (simp_all only: processAll.simps)
  show ?thesis
    using u w1 h f1 t l1 a w2' f2 f5 b g w3' by blast
qed

text \<open>
  C3 as stated fails when the confirmation page cannot be reached: the job throws
  with two screenshots on disk, and no archive is made or uploaded although both would
  succeed.
\<close>

theorem failed_job_is_not_packed_counterexample:
  "zipOk no_confirmation_env ''/out/12345'' \<and> uploadOk no_confirmation_env ''12345.zip''
   \<and> fst (processRegistrant no_confirmation_env home_url ''/out'' False start)
       = Inl ''page.goto: https://www.swoogo.com/loggedin/registrant/confirmation?id=12345''
   \<and> map fst (files (snd (processRegistrant no_confirmation_env home_url ''/out'' False start)))
       = [''/out/12345/12345__01_Attendance_Status_Proof.png'',
          ''/out/12345/12345__02_Contact_Details.png'']
   \<and> tmpFiles (snd (processRegistrant no_confirmation_env home_url ''/out'' False start)) = []
   \<and> remote (snd (processRegistrant no_confirmation_env home_url ''/out'' False start)) = []"
  using run_no_confirmation
  by (simp add: observed_def no_confirmation_env_def sample_env_def)

subsection \<open>How a fallback shows\<close>

lemma captureFullPage_logs:
  "logs (snd (captureFullPage t fileBase pdf s))
     = (if pageShotOk (surf (the_pg t s)) then logs s @ [Info (basename fileBase @ ''.png'')]
        else logs s)"
proof (cases "pageShotOk (surf (the_pg t s))")
  case True
  then show ?thesis by (simp add: captureFullPage_written(4))
next
  case False
  then show ?thesis by (simp add: captureFullPage_def Let_def)
qed

lemma captureConfirmationEmail_logs:
  "logs (snd (captureConfirmationEmail t dir base s)) = logs s
   \<or> logs (snd (captureConfirmationEmail t dir base s))
       = logs s @ [Info ''05_Confirmation_email.png'']
   \<or> logs (snd (captureConfirmationEmail t dir base s))
       = logs s @ [Warn ''Could not isolate email body; saved full page instead'']"
  by (simp add: captureConfirmationEmail_def Let_def console_def)

lemma same_captured: "same s s' \<Longrightarrow> captured P os s s'"
  by (auto simp: captured_def same_def)

lemma same_then_captured: "same s s' \<Longrightarrow> captured P os s' s'' \<Longrightarrow> captured P os s s''"
  by (auto simp: captured_def same_def)

lemma captured_then_same: "captured P os s s' \<Longrightarrow> same s' s'' \<Longrightarrow> captured P os s s''"
  by (auto simp: captured_def same_def)

lemma always_same_seq:
  assumes "always same f" and "always (captured P os) g"
  shows "always (captured P os) (seq f g)"
  unfolding always_def
proof
  fix s
  have f: "same s (snd (f s))" using assms(1) by (simp add: always_def)
  show "captured P os s (snd (seq f g s))"
  proof (cases "f s")
    case (Pair r s')
    show ?thesis
    proof (cases r)
      case (Inl x)
      with Pair f show ?thesis by (simp add: seq_def bnd_def same_captured)
    next
      case (Inr y)
      have "captured P os s' (snd (g s'))" using assms(2) by (simp add: always_def)
      with Pair Inr f show ?thesis
        by (simp add: seq_def bnd_def same_then_captured)
    qed
  qed
qed

lemma always_seq_same:
  assumes "always (captured P os) f" and "always same g"
  shows "always (captured P os) (seq f g)"
  unfolding always_def
proof
  fix s
  have f: "captured P os s (snd (f s))" using assms(1) by (simp add: always_def)
  show "captured P os s (snd (seq f g s))"
  proof (cases "f s")
    case (Pair r s')
    show ?thesis
    proof (cases r)
      case (Inl x)
      with Pair f show ?thesis by (simp add: seq_def bnd_def)
    next
      case (Inr y)
      have "same s' (snd (g s'))" using assms(2) by (simp add: always_def)
      with Pair Inr f show ?thesis
        by (simp add: seq_def bnd_def captured_then_same)
    qed
  qed
qed

lemma always_try:
  assumes "always R f"
  shows "always R (try_catch f (\<lambda>_. ret ()))"
  unfolding always_def
proof
  fix s
  have "R s (snd (f s))" using assms by (simp add: always_def)
  then show "R s (snd (try_catch f (\<lambda>_. ret ()) s))"
    by (cases "f s") (auto simp: try_catch_def ret_def split: sum.splits)
qed

lemma always_same_clicks:
  "always same openActionsMenu" "always same (clickMenuItem e item)" "always same closePopup"
  by (simp_all add: always_def same_def openActionsMenu_def clickMenuItem_def closePopup_def
        Let_def split: click_result.splits)

lemma captured_captureFullPage:
  "captured {fileBase @ ''.png'', fileBase @ ''.pdf''}
     [(Info (basename fileBase @ ''.png''), fileBase @ ''.png'')]
     s (snd (captureFullPage t fileBase pdf s))"
proof (cases "pageShotOk (surf (the_pg t s))")
  case True
  have "files (snd (captureFullPage t fileBase pdf s))
        = (let f = files (write_file (fileBase @ ''.png'') (FullPage (url (surf (the_pg t s)))) s)
           in if pdf \<and> pdfOk (surf (the_pg t s))
              then files (write_file (fileBase @ ''.pdf'') (PdfExport (url (surf (the_pg t s))))
                     (s\<lparr>files := f\<rparr>))
              else f)"
    by (simp add: captureFullPage_ok [OF True] Let_def write_file_def)
  then have "fst ` set (files (snd (captureFullPage t fileBase pdf s)))
        \<subseteq> fst ` set (files s) \<union> {fileBase @ ''.png'', fileBase @ ''.pdf''}"
    by (auto simp: Let_def write_file_def split: if_splits)
  with captureFullPage_written(2,4) [OF True, of fileBase pdf] show ?thesis
    by (simp add: captured_def)
next
  case False
  then show ?thesis
    by (auto simp: captureFullPage_def Let_def captured_def same_def)
qed

lemma captured_captureConfirmationEmail:
  "captured {path_join dir (base @ ''__05_Confirmation_email.png''),
             path_join dir (base @ ''__05_Confirmation_full.png'')}
     [(Info ''05_Confirmation_email.png'', path_join dir (base @ ''__05_Confirmation_email.png'')),
      (Warn ''Could not isolate email body; saved full page instead'',
       path_join dir (base @ ''__05_Confirmation_full.png''))]
     s (snd (captureConfirmationEmail t dir base s))"
  by (auto simp: captureConfirmationEmail_def Let_def console_def captured_def same_def)

lemma click_fallback_06:
  "always (captured {path_join dir (base @ ''__06_Invoice'') @ ''.png'',
                     path_join dir (base @ ''__06_Invoice'') @ ''.pdf''}
             [(Info (basename (path_join dir (base @ ''__06_Invoice'')) @ ''.png''),
               path_join dir (base @ ''__06_Invoice'') @ ''.png'')])
     (try_catch
        (seq openActionsMenu
        (seq (clickMenuItem e ''invoice'')
        (seq (\<lambda>s. captureFullPage (popupTarget s)
                    (path_join dir (base @ ''__06_Invoice'')) pdf s)
             closePopup)))
        (\<lambda>_. ret ()))"
proof -
  have "always (captured {path_join dir (base @ ''__06_Invoice'') @ ''.png'',
                     path_join dir (base @ ''__06_Invoice'') @ ''.pdf''}
             [(Info (basename (path_join dir (base @ ''__06_Invoice'')) @ ''.png''),
               path_join dir (base @ ''__06_Invoice'') @ ''.png'')])
          (\<lambda>s. captureFullPage (popupTarget s) (path_join dir (base @ ''__06_Invoice'')) pdf s)"
    by (simp add: always_def captured_captureFullPage)
  then show ?thesis
    by (intro always_try always_same_seq always_seq_same always_same_clicks)
qed

lemma click_fallback_05:
  "always (captured {path_join dir (base @ ''__05_Confirmation_email.png''),
                     path_join dir (base @ ''__05_Confirmation_full.png'')}
     [(Info ''05_Confirmation_email.png'', path_join dir (base @ ''__05_Confirmation_email.png'')),
      (Warn ''Could not isolate email body; saved full page instead'',
       path_join dir (base @ ''__05_Confirmation_full.png''))])
     (try_catch
        (seq openActionsMenu
        (seq (clickMenuItem e ''confirmation'')
        (seq (\<lambda>s. captureConfirmationEmail (popupTarget s) dir base s)
             closePopup)))
        (\<lambda>_. ret ()))"
proof -
  have "always (captured {path_join dir (base @ ''__05_Confirmation_email.png''),
                     path_join dir (base @ ''__05_Confirmation_full.png'')}
     [(Info ''05_Confirmation_email.png'', path_join dir (base @ ''__05_Confirmation_email.png'')),
      (Warn ''Could not isolate email body; saved full page instead'',
       path_join dir (base @ ''__05_Confirmation_full.png''))])
          (\<lambda>s. captureConfirmationEmail (popupTarget s) dir base s)"
    by (simp add: always_def captured_captureConfirmationEmail)
  then show ?thesis
    by (intro always_try always_same_seq always_seq_same always_same_clicks)
qed

lemma step05_direct:
  assumes "truthy h" and "site e (the h) = Some sf"
  shows "step05 e dir base h s = captureConfirmationEmail MainPage dir base (load sf s)"
  using assms by (simp add: step05_def seq_def bnd_def goto_def)

lemma step06_direct:
  assumes "truthy h" and "site e (the h) = Some sf"
  shows "step06 e dir base pdf h s
         = captureFullPage MainPage (path_join dir (base @ ''__06_Invoice'')) pdf (load sf s)"
  using assms by (simp add: step06_def seq_def bnd_def goto_def)

lemma step06_direct_ok:
  assumes "truthy h" and "site e (the h) = Some sf" and "pageShotOk sf"
  shows "fst (step06 e dir base pdf h s) = Inr ()
       \<and> logs (snd (step06 e dir base pdf h s))
           = logs s @ [Info (basename (path_join dir (base @ ''__06_Invoice'')) @ ''.png'')]
       \<and> path_join dir (base @ ''__06_Invoice'') @ ''.png''
           \<in> fst ` set (files (snd (step06 e dir base pdf h s)))"
proof -
  have ok: "pageShotOk (surf (the_pg MainPage (load sf s)))"
    using assms(3) by (simp add: the_pg_def)
  show ?thesis
    using captureFullPage_written(1,2,4) [OF ok, of "path_join dir (base @ ''__06_Invoice'')" pdf]
    by (simp add: step06_direct [OF assms(1,2)])
qed

lemma step05_fallback:
  assumes "\<not> truthy h"
  shows "fst (step05 e dir base h s) = Inr ()
     \<and> (\<exists>rest. logs (snd (step05 e dir base h s)) = logs s @ confirmation_fallback_warning # rest
          \<and> ((rest = [] \<and> files (snd (step05 e dir base h s)) = files s)
             \<or> (rest = [Info ''05_Confirmation_email.png'']
                \<and> path_join dir (base @ ''__05_Confirmation_email.png'')
                    \<in> fst ` set (files (snd (step05 e dir base h s))))
             \<or> (rest = [Warn ''Could not isolate email body; saved full page instead'']
                \<and> path_join dir (base @ ''__05_Confirmation_full.png'')
                    \<in> fst ` set (files (snd (step05 e dir base h s))))))
     \<and> fst ` set (files (snd (step05 e dir base h s)))
         \<subseteq> fst ` set (files s) \<union> {path_join dir (base @ ''__05_Confirmation_email.png''),
                                    path_join dir (base @ ''__05_Confirmation_full.png'')}"
proof -
  define T where "T = try_catch
            (seq openActionsMenu
            (seq (clickMenuItem e ''confirmation'')
            (seq (\<lambda>s. captureConfirmationEmail (popupTarget s) dir base s)
                 closePopup)))
            (\<lambda>_. ret ())"
  define s0 where "s0 = s\<lparr>logs := logs s @ [confirmation_fallback_warning]\<rparr>"
  have run: "step05 e dir base h s = T s0"
    using assms
    by (simp add: step05_def confirmation_fallback_warning_def T_def s0_def seq_def bnd_def
          console_def)
  have r: "fst (T s0) = Inr ()"
    unfolding T_def by (rule try_catch_returns) (simp add: ret_def)
  have "captured {path_join dir (base @ ''__05_Confirmation_email.png''),
                     path_join dir (base @ ''__05_Confirmation_full.png'')}
     [(Info ''05_Confirmation_email.png'', path_join dir (base @ ''__05_Confirmation_email.png'')),
      (Warn ''Could not isolate email body; saved full page instead'',
       path_join dir (base @ ''__05_Confirmation_full.png''))] s0 (snd (T s0))"
    using click_fallback_05 [of dir base e] by (simp add: always_def T_def)
  then show ?thesis
    unfolding run using r by (auto simp: captured_def same_def s0_def)
qed

lemma step06_fallback:
  assumes "\<not> truthy h"
  shows "fst (step06 e dir base pdf h s) = Inr ()
     \<and> (\<exists>rest. logs (snd (step06 e dir base pdf h s)) = logs s @ invoice_fallback_warning # rest
          \<and> ((rest = [] \<and> files (snd (step06 e dir base pdf h s)) = files s)
             \<or> (rest = [Info (basename (path_join dir (base @ ''__06_Invoice'')) @ ''.png'')]
                \<and> path_join dir (base @ ''__06_Invoice'') @ ''.png''
                    \<in> fst ` set (files (snd (step06 e dir base pdf h s))))))
     \<and> fst ` set (files (snd (step06 e dir base pdf h s)))
         \<subseteq> fst ` set (files s) \<union> {path_join dir (base @ ''__06_Invoice'') @ ''.png'',
                                    path_join dir (base @ ''__06_Invoice'') @ ''.pdf''}"
proof -
  define T where "T = try_catch
            (seq openActionsMenu
            (seq (clickMenuItem e ''invoice'')
            (seq (\<lambda>s. captureFullPage (popupTarget s)
                        (path_join dir (base @ ''__06_Invoice'')) pdf s)
                 closePopup)))
            (\<lambda>_. ret ())"
  define s0 where "s0 = s\<lparr>logs := logs s @ [invoice_fallback_warning]\<rparr>"
  have run: "step06 e dir base pdf h s = T s0"
    using assms
    by (simp add: step06_def invoice_fallback_warning_def T_def s0_def seq_def bnd_def
          console_def)
  have r: "fst (T s0) = Inr ()"
    unfolding T_def by (rule try_catch_returns) (simp add: ret_def)
  have "captured {path_join dir (base @ ''__06_Invoice'') @ ''.png'',
                     path_join dir (base @ ''__06_Invoice'') @ ''.pdf''}
             [(Info (basename (path_join dir (base @ ''__06_Invoice'')) @ ''.png''),
               path_join dir (base @ ''__06_Invoice'') @ ''.png'')] s0 (snd (T s0))"
    using click_fallback_06 [of dir base e pdf] by (simp add: always_def T_def)
  then show ?thesis
    unfolding run using r by (auto simp: captured_def same_def s0_def)
qed

lemma step05_marks:
  "\<exists>added. logs (snd (step05 e dir base h s)) = logs s @ added
     \<and> (confirmation_fallback_warning \<in> set added \<longleftrightarrow> \<not> truthy h)"
proof (cases "truthy h")
  case False
  then show ?thesis using step05_fallback [OF False, of e dir base s] by auto
next
  case True
  show ?thesis
  proof (cases "site e (the h)")
    case None
    with True have "step05 e dir base h s = (Inl (''page.goto: '' @ the h), stranded e (the h) s)"
      by (rule step05_nav_fails)
    with True show ?thesis by simp
  next
    case (Some sf)
    have "step05 e dir base h s = captureConfirmationEmail MainPage dir base (load sf s)"
      using True Some by (rule step05_direct)
    then have "logs (snd (step05 e dir base h s)) = logs s @ []
       \<or> logs (snd (step05 e dir base h s)) = logs s @ [Info ''05_Confirmation_email.png'']
       \<or> logs (snd (step05 e dir base h s))
           = logs s @ [Warn ''Could not isolate email body; saved full page instead'']"
      using captureConfirmationEmail_logs [of MainPage dir base "load sf s"] by simp
    moreover have "confirmation_fallback_warning \<notin> set []"
      "confirmation_fallback_warning \<notin> set [Info ''05_Confirmation_email.png'']"
      "confirmation_fallback_warning
         \<notin> set [Warn ''Could not isolate email body; saved full page instead'']"
      by (simp_all add: confirmation_fallback_warning_def)
    ultimately show ?thesis using True by blast
  qed
qed

lemma step06_marks:
  "\<exists>added. logs (snd (step06 e dir base pdf h s)) = logs s @ added
     \<and> (invoice_fallback_warning \<in> set added \<longleftrightarrow> \<not> truthy h)"
proof (cases "truthy h")
  case False
  then show ?thesis using step06_fallback [OF False, of e dir base pdf s] by auto
next
  case True
  show ?thesis
  proof (cases "site e (the h)")
    case None
    with True have "step06 e dir base pdf h s
                    = (Inl (''page.goto: '' @ the h), stranded e (the h) s)"
      by (rule step06_nav_fails)
    with True show ?thesis by simp
  next
    case (Some sf)
    have "step06 e dir base pdf h s
          = captureFullPage MainPage (path_join dir (base @ ''__06_Invoice'')) pdf (load sf s)"
      using True Some by (rule step06_direct)
    then have "logs (snd (step06 e dir base pdf h s)) = logs s @ []
       \<or> logs (snd (step06 e dir base pdf h s))
           = logs s @ [Info (basename (path_join dir (base @ ''__06_Invoice'')) @ ''.png'')]"
      by (simp add: captureFullPage_logs)
    moreover have "invoice_fallback_warning \<notin> set []"
      "invoice_fallback_warning
         \<notin> set [Info (basename (path_join dir (base @ ''__06_Invoice'')) @ ''.png'')]"
      by (simp_all add: invoice_fallback_warning_def)
    ultimately show ?thesis using True by blast
  qed
qed

lemma capture_both:
  "observed (captureConfirmationEmail MainPage ''/out/1'' ''1'' (on_page both_page)) =
     (Inr (), [], [(''/out/1/1__05_Confirmation_email.png'', FrameBody ''https://www.swoogo.com/c'')],
      [], [], [Info ''05_Confirmation_email.png''])"
  by code_simp

lemma capture_frame_fails:
  "observed (captureConfirmationEmail MainPage ''/out/1'' ''1'' (on_page frame_fails_page)) =
     (Inr (), [],
      [(''/out/1/1__05_Confirmation_email.png'', FirstCandidate ''https://www.swoogo.com/c'')],
      [], [], [Info ''05_Confirmation_email.png''])"
  by code_simp

lemma capture_plain:
  "observed (captureConfirmationEmail MainPage ''/out/1'' ''1''
               (on_page (plain_page ''https://www.swoogo.com/c''))) =
     (Inr (), [], [(''/out/1/1__05_Confirmation_full.png'', FullPage ''https://www.swoogo.com/c'')],
      [], [], [Warn ''Could not isolate email body; saved full page instead''])"
  by code_simp

text \<open>
  C7, as the program has it. A confirmation capture that returns has the
  \<^verbatim>\<open>Could not isolate email body\<close> warning as its last console line exactly when it
  fell back to the whole page, and then the file has the \<^verbatim>\<open>_full\<close> name. A preview
  capture that returns has the \<^verbatim>\<open>Could not resolve contentFrame\<close> warning as its last
  console line exactly when the frame element had no content frame, and then the file
  has the \<^verbatim>\<open>__full\<close> name. With an address that was resolved and that loads, the
  confirmation and invoice steps are the capture of the page at that address; the
  capture of an invoice page that can be captured adds the one console line that names
  the file. With no address resolved, each of the two steps logs the warning that
  announces the click fallback before anything else and never throws; after the warning
  it either leaves files and console as they were, or it adds the console line of a
  direct capture with a file under the name a direct capture uses; it writes under no
  other name. The warning is on the console of a step exactly when no address was
  resolved.
\<close>

theorem fallbacks_are_marked:
  "(fst (captureConfirmationEmail t dir base s) = Inr () \<longrightarrow>
      (last (logs (snd (captureConfirmationEmail t dir base s)))
         = Warn ''Could not isolate email body; saved full page instead''
       \<longleftrightarrow> \<not> (iframeCount (surf (the_pg t s)) \<noteq> 0 \<and> frameBodyShotOk (surf (the_pg t s)))
           \<and> candidateCount (surf (the_pg t s)) = 0)
      \<and> (\<not> (iframeCount (surf (the_pg t s)) \<noteq> 0 \<and> frameBodyShotOk (surf (the_pg t s)))
           \<and> candidateCount (surf (the_pg t s)) = 0
          \<longrightarrow> path_join dir (base @ ''__05_Confirmation_full.png'')
                \<in> fst ` set (files (snd (captureConfirmationEmail t dir base s)))))
 \<and> (fst (captureIframeBySrc outputPath s) = Inr ok \<longrightarrow>
      (last (logs (snd (captureIframeBySrc outputPath s)))
         = Warn ''Could not resolve contentFrame; fallback to full page screenshot''
       \<longleftrightarrow> \<not> previewFrame (surf (mainPage s)))
      \<and> (\<not> previewFrame (surf (mainPage s))
          \<longrightarrow> full_name outputPath \<in> fst ` set (files (snd (captureIframeBySrc outputPath s)))))
 \<and> (truthy h \<and> site e (the h) = Some sf \<longrightarrow>
      step05 e dir base h s = captureConfirmationEmail MainPage dir base (load sf s)
      \<and> step06 e dir base pdf h s
          = captureFullPage MainPage (path_join dir (base @ ''__06_Invoice'')) pdf (load sf s))
 \<and> (truthy h \<and> site e (the h) = Some sf \<and> pageShotOk sf \<longrightarrow>
      fst (step06 e dir base pdf h s) = Inr ()
      \<and> logs (snd (step06 e dir base pdf h s))
          = logs s @ [Info (basename (path_join dir (base @ ''__06_Invoice'')) @ ''.png'')]
      \<and> path_join dir (base @ ''__06_Invoice'') @ ''.png''
          \<in> fst ` set (files (snd (step06 e dir base pdf h s))))
 \<and> (\<not> truthy h \<longrightarrow>
      fst (step05 e dir base h s) = Inr ()
      \<and> (\<exists>rest. logs (snd (step05 e dir base h s)) = logs s @ confirmation_fallback_warning # rest
            \<and> ((rest = [] \<and> files (snd (step05 e dir base h s)) = files s)
               \<or> (rest = [Info ''05_Confirmation_email.png'']
                  \<and> path_join dir (base @ ''__05_Confirmation_email.png'')
                      \<in> fst ` set (files (snd (step05 e dir base h s))))
               \<or> (rest = [Warn ''Could not isolate email body; saved full page instead'']
                  \<and> path_join dir (base @ ''__05_Confirmation_full.png'')
                      \<in> fst ` set (files (snd (step05 e dir base h s))))))
      \<and> fst ` set (files (snd (step05 e dir base h s)))
          \<subseteq> fst ` set (files s) \<union> {path_join dir (base @ ''__05_Confirmation_email.png''),
                                     path_join dir (base @ ''__05_Confirmation_full.png'')})
 \<and> (\<not> truthy h \<longrightarrow>
      fst (step06 e dir base pdf h s) = Inr ()
      \<and> (\<exists>rest. logs (snd (step06 e dir base pdf h s)) = logs s @ invoice_fallback_warning # rest
            \<and> ((rest = [] \<and> files (snd (step06 e dir base pdf h s)) = files s)
               \<or> (rest = [Info (basename (path_join dir (base @ ''__06_Invoice'')) @ ''.png'')]
                  \<and> path_join dir (base @ ''__06_Invoice'') @ ''.png''
                      \<in> fst ` set (files (snd (step06 e dir base pdf h s))))))
      \<and> fst ` set (files (snd (step06 e dir base pdf h s)))
          \<subseteq> fst ` set (files s) \<union> {path_join dir (base @ ''__06_Invoice'') @ ''.png'',
                                     path_join dir (base @ ''__06_Invoice'') @ ''.pdf''})
 \<and> (\<exists>added. logs (snd (step05 e dir base h s)) = logs s @ added
       \<and> (confirmation_fallback_warning \<in> set added \<longleftrightarrow> \<not> truthy h))
 \<and> (\<exists>added. logs (snd (step06 e dir base pdf h s)) = logs s @ added
       \<and> (invoice_fallback_warning \<in> set added \<longleftrightarrow> \<not> truthy h))"
proof -
  have c1: "fst (captureConfirmationEmail t dir base s) = Inr () \<longrightarrow>
      (last (logs (snd (captureConfirmationEmail t dir base s)))
         = Warn ''Could not isolate email body; saved full page instead''
       \<longleftrightarrow> \<not> (iframeCount (surf (the_pg t s)) \<noteq> 0 \<and> frameBodyShotOk (surf (the_pg t s)))
           \<and> candidateCount (surf (the_pg t s)) = 0)
      \<and> (\<not> (iframeCount (surf (the_pg t s)) \<noteq> 0 \<and> frameBodyShotOk (surf (the_pg t s)))
           \<and> candidateCount (surf (the_pg t s)) = 0
          \<longrightarrow> path_join dir (base @ ''__05_Confirmation_full.png'')
                \<in> fst ` set (files (snd (captureConfirmationEmail t dir base s))))"
    by (simp add: captureConfirmationEmail_def Let_def console_def)
  have c2: "fst (captureIframeBySrc outputPath s) = Inr ok \<longrightarrow>
      (last (logs (snd (captureIframeBySrc outputPath s)))
         = Warn ''Could not resolve contentFrame; fallback to full page screenshot''
       \<longleftrightarrow> \<not> previewFrame (surf (mainPage s)))
      \<and> (\<not> previewFrame (surf (mainPage s))
          \<longrightarrow> full_name outputPath \<in> fst ` set (files (snd (captureIframeBySrc outputPath s))))"
    by (simp add: captureIframeBySrc_def Let_def)
  have c3: "truthy h \<and> site e (the h) = Some sf \<longrightarrow>
      step05 e dir base h s = captureConfirmationEmail MainPage dir base (load sf s)
      \<and> step06 e dir base pdf h s
          = captureFullPage MainPage (path_join dir (base @ ''__06_Invoice'')) pdf (load sf s)"
    using step05_direct step06_direct by blast
  have c4: "truthy h \<and> site e (the h) = Some sf \<and> pageShotOk sf \<longrightarrow>
      fst (step06 e dir base pdf h s) = Inr ()
      \<and> logs (snd (step06 e dir base pdf h s))
          = logs s @ [Info (basename (path_join dir (base @ ''__06_Invoice'')) @ ''.png'')]
      \<and> path_join dir (base @ ''__06_Invoice'') @ ''.png''
          \<in> fst ` set (files (snd (step06 e dir base pdf h s)))"
    using step06_direct_ok [of h e sf dir base pdf s] by blast
  note c5 = step05_fallback [of h e dir base s]
  note c6 = step06_fallback [of h e dir base pdf s]
  note c7 = step05_marks [of e dir base h s]
  note c8 = step06_marks [of e dir base pdf h s]
  show ?thesis
    apply (rule conjI, rule c1)
    apply (rule conjI, rule c2)
    apply (rule conjI, rule c3)
    apply (rule conjI, rule c4)
    apply (rule conjI, rule impI, erule c5)
    apply (rule conjI, rule impI, erule c6)
    apply (rule conjI, rule c7)
    apply (rule c8)
    done
qed

theorem fallbacks_are_marked_witness:
  "fst (captureConfirmationEmail MainPage ''/out/1'' ''1''
          (on_page (plain_page ''https://www.swoogo.com/c''))) = Inr ()
   \<and> \<not> (iframeCount (surf (the_pg MainPage (on_page (plain_page ''https://www.swoogo.com/c'')))) \<noteq> 0
          \<and> frameBodyShotOk (surf (the_pg MainPage (on_page (plain_page ''https://www.swoogo.com/c'')))))
   \<and> candidateCount (surf (the_pg MainPage (on_page (plain_page ''https://www.swoogo.com/c'')))) = 0
   \<and> last (logs (snd (captureConfirmationEmail MainPage ''/out/1'' ''1''
                         (on_page (plain_page ''https://www.swoogo.com/c'')))))
       = Warn ''Could not isolate email body; saved full page instead''
   \<and> path_join ''/out/1'' (''1'' @ ''__05_Confirmation_full.png'')
       \<in> fst ` set (files (snd (captureConfirmationEmail MainPage ''/out/1'' ''1''
                                  (on_page (plain_page ''https://www.swoogo.com/c'')))))
   \<and> fst (captureIframeBySrc ''/out/1/1__03_Ticket_Email_Preview.png'' (on_page no_frame_page))
       = Inr False
   \<and> \<not> previewFrame (surf (mainPage (on_page no_frame_page)))
   \<and> last (logs (snd (captureIframeBySrc ''/out/1/1__03_Ticket_Email_Preview.png''
                         (on_page no_frame_page))))
       = Warn ''Could not resolve contentFrame; fallback to full page screenshot''
   \<and> full_name ''/out/1/1__03_Ticket_Email_Preview.png''
       \<in> fst ` set (files (snd (captureIframeBySrc ''/out/1/1__03_Ticket_Email_Preview.png''
                                  (on_page no_frame_page))))
   \<and> truthy (Some ''https://www.swoogo.com/loggedin/registrant/invoice?id=12345'')
   \<and> site sample_env (the (Some ''https://www.swoogo.com/loggedin/registrant/invoice?id=12345''))
       = Some invoice_page
   \<and> pageShotOk invoice_page
   \<and> logs (snd (step06 sample_env ''/out/1'' ''1'' False
                   (Some ''https://www.swoogo.com/loggedin/registrant/invoice?id=12345'')
                   (on_page home_page)))
       = [Info ''1__06_Invoice.png'']
   \<and> observed (step06 sample_env ''/out/1'' ''1'' False
                 (Some ''https://www.swoogo.com/loggedin/registrant/invoice?id=12345'')
                 (on_page home_page))
       = (Inr (), [],
          [(''/out/1/1__06_Invoice.png'',
            FullPage ''https://www.swoogo.com/loggedin/registrant/invoice?id=12345'')],
          [], [], [Info ''1__06_Invoice.png''])
   \<and> \<not> truthy None
   \<and> fst (step06 menu_env ''/out/1'' ''1'' False None (on_page menu_page)) = Inr ()
   \<and> fst ` set (files (snd (step06 menu_env ''/out/1'' ''1'' False None (on_page menu_page))))
       \<subseteq> {''/out/1/1__06_Invoice.png'', ''/out/1/1__06_Invoice.pdf''}
   \<and> observed (step06 menu_env ''/out/1'' ''1'' False None (on_page menu_page))
       = (Inr (), [],
          [(''/out/1/1__06_Invoice.png'',
            FullPage ''https://www.swoogo.com/loggedin/registrant/invoice?id=12345'')],
          [], [], [invoice_fallback_warning, Info ''1__06_Invoice.png''])
   \<and> fst (step05 menu_env ''/out/1'' ''1'' None (on_page menu_page)) = Inr ()
   \<and> fst ` set (files (snd (step05 menu_env ''/out/1'' ''1'' None (on_page menu_page))))
       \<subseteq> {''/out/1/1__05_Confirmation_email.png'', ''/out/1/1__05_Confirmation_full.png''}
   \<and> observed (step05 menu_env ''/out/1'' ''1'' None (on_page menu_page))
       = (Inr (), [],
          [(''/out/1/1__05_Confirmation_email.png'',
            FrameBody ''https://www.swoogo.com/loggedin/registrant/confirmation?id=12345'')],
          [], [], [confirmation_fallback_warning, Info ''05_Confirmation_email.png''])"
proof -
  let ?i = "''https://www.swoogo.com/loggedin/registrant/invoice?id=12345''"
  have a1: "fst (captureConfirmationEmail MainPage ''/out/1'' ''1''
          (on_page (plain_page ''https://www.swoogo.com/c''))) = Inr ()"
    using capture_plain by (simp add: observed_def)
  have a2: "\<not> (iframeCount (surf (the_pg MainPage (on_page (plain_page ''https://www.swoogo.com/c'')))) \<noteq> 0
          \<and> frameBodyShotOk (surf (the_pg MainPage (on_page (plain_page ''https://www.swoogo.com/c'')))))
   \<and> candidateCount (surf (the_pg MainPage (on_page (plain_page ''https://www.swoogo.com/c'')))) = 0"
    by (simp add: the_pg_def on_page_def plain_page_def)
  have b1: "fst (captureIframeBySrc ''/out/1/1__03_Ticket_Email_Preview.png'' (on_page no_frame_page))
       = Inr False"
    by code_simp
  have b2: "\<not> previewFrame (surf (mainPage (on_page no_frame_page)))"
    by (simp add: on_page_def no_frame_page_def plain_page_def)
  note w = fallbacks_are_marked [where t = MainPage and dir = "''/out/1''" and base = "''1''"
      and s = "on_page (plain_page ''https://www.swoogo.com/c'')"]
  note v = fallbacks_are_marked [where s = "on_page no_frame_page"
      and outputPath = "''/out/1/1__03_Ticket_Email_Preview.png''" and ok = False]
  have w1: "last (logs (snd (captureConfirmationEmail MainPage ''/out/1'' ''1''
                         (on_page (plain_page ''https://www.swoogo.com/c'')))))
       = Warn ''Could not isolate email body; saved full page instead''
   \<and> path_join ''/out/1'' (''1'' @ ''__05_Confirmation_full.png'')
       \<in> fst ` set (files (snd (captureConfirmationEmail MainPage ''/out/1'' ''1''
                                  (on_page (plain_page ''https://www.swoogo.com/c'')))))"
    using w a1 a2 by blast
  have v1: "last (logs (snd (captureIframeBySrc ''/out/1/1__03_Ticket_Email_Preview.png''
                         (on_page no_frame_page))))
       = Warn ''Could not resolve contentFrame; fallback to full page screenshot''
   \<and> full_name ''/out/1/1__03_Ticket_Email_Preview.png''
       \<in> fst ` set (files (snd (captureIframeBySrc ''/out/1/1__03_Ticket_Email_Preview.png''
                                  (on_page no_frame_page))))"
    using v b1 b2 by blast
  have t: "truthy (Some ?i)" "site sample_env (the (Some ?i)) = Some invoice_page"
    "pageShotOk invoice_page" "\<not> truthy None"
    by (simp_all add: truthy_def sample_env_def sample_site_def home_url_def invoice_page_def
          plain_page_def)
  have n: "basename (path_join ''/out/1'' (''1'' @ ''__06_Invoice'')) @ ''.png''
           = ''1__06_Invoice.png''"
    "path_join ''/out/1'' (''1'' @ ''__06_Invoice'') @ ''.png'' = ''/out/1/1__06_Invoice.png''"
    "path_join ''/out/1'' (''1'' @ ''__06_Invoice'') @ ''.pdf'' = ''/out/1/1__06_Invoice.pdf''"
    "path_join ''/out/1'' (''1'' @ ''__05_Confirmation_email.png'')
     = ''/out/1/1__05_Confirmation_email.png''"
    "path_join ''/out/1'' (''1'' @ ''__05_Confirmation_full.png'')
     = ''/out/1/1__05_Confirmation_full.png''"
    by code_simp+
  have e0: "logs (on_page home_page) = []" "files (on_page menu_page) = []"
    by (simp_all add: on_page_def start_def)
  have "logs (snd (step06 sample_env ''/out/1'' ''1'' False (Some ?i) (on_page home_page)))
       = logs (on_page home_page)
         @ [Info (basename (path_join ''/out/1'' (''1'' @ ''__06_Invoice'')) @ ''.png'')]"
    using fallbacks_are_marked [where e = sample_env and dir = "''/out/1''" and base = "''1''"
        and pdf = False and h = "Some ?i" and s = "on_page home_page" and sf = invoice_page
        and t = MainPage and outputPath = "''/out/1/1__03_Ticket_Email_Preview.png''"
        and ok = False] t(1-3)
    by blast
  then have d1: "logs (snd (step06 sample_env ''/out/1'' ''1'' False (Some ?i) (on_page home_page)))
       = [Info ''1__06_Invoice.png'']"
    unfolding n e0 by simp
  have d2: "observed (step06 sample_env ''/out/1'' ''1'' False (Some ?i) (on_page home_page))
       = (Inr (), [], [(''/out/1/1__06_Invoice.png'', FullPage ?i)], [], [],
          [Info ''1__06_Invoice.png''])"
    by code_simp
  note m = fallbacks_are_marked [where e = menu_env and dir = "''/out/1''" and base = "''1''"
        and pdf = False and h = None and s = "on_page menu_page" and sf = invoice_page
        and t = MainPage and outputPath = "''/out/1/1__03_Ticket_Email_Preview.png''"
        and ok = False]
  note f5 = m [THEN conjunct2, THEN conjunct2, THEN conjunct2, THEN conjunct2, THEN conjunct1,
               THEN mp, OF t(4)]
  note f6 = m [THEN conjunct2, THEN conjunct2, THEN conjunct2, THEN conjunct2, THEN conjunct2,
               THEN conjunct1, THEN mp, OF t(4)]
  have m6: "fst (step06 menu_env ''/out/1'' ''1'' False None (on_page menu_page)) = Inr ()
     \<and> fst ` set (files (snd (step06 menu_env ''/out/1'' ''1'' False None (on_page menu_page))))
       \<subseteq> {''/out/1/1__06_Invoice.png'', ''/out/1/1__06_Invoice.pdf''}"
    using f6 [THEN conjunct1] f6 [THEN conjunct2, THEN conjunct2]
    by (simp only: n e0 list.set image_empty Un_empty_left)
  have m5: "fst (step05 menu_env ''/out/1'' ''1'' None (on_page menu_page)) = Inr ()
     \<and> fst ` set (files (snd (step05 menu_env ''/out/1'' ''1'' None (on_page menu_page))))
       \<subseteq> {''/out/1/1__05_Confirmation_email.png'', ''/out/1/1__05_Confirmation_full.png''}"
    using f5 [THEN conjunct1] f5 [THEN conjunct2, THEN conjunct2]
    by (simp only: n e0 list.set image_empty Un_empty_left)
  have o6: "observed (step06 menu_env ''/out/1'' ''1'' False None (on_page menu_page))
       = (Inr (), [], [(''/out/1/1__06_Invoice.png'', FullPage ?i)], [], [],
          [invoice_fallback_warning, Info ''1__06_Invoice.png''])"
    by code_simp
  have o5: "observed (step05 menu_env ''/out/1'' ''1'' None (on_page menu_page))
       = (Inr (), [],
          [(''/out/1/1__05_Confirmation_email.png'',
            FrameBody ''https://www.swoogo.com/loggedin/registrant/confirmation?id=12345'')],
          [], [], [confirmation_fallback_warning, Info ''05_Confirmation_email.png''])"
    by code_simp
  show ?thesis
    using a1 a2 w1 b1 b2 v1 t d1 d2 m6 o6 m5 o5 by blast
qed

text \<open>
  C7 as stated fails inside the confirmation capture: when the screenshot of the frame
  body fails, the first email-like region is captured in its place, and the file name and
  the console are the same as for a capture of the frame body.
\<close>

theorem fallbacks_are_marked_counterexample:
  "frameBodyShotOk both_page \<and> \<not> frameBodyShotOk frame_fails_page
   \<and> map snd (files (snd (captureConfirmationEmail MainPage ''/out/1'' ''1'' (on_page both_page))))
       = [FrameBody ''https://www.swoogo.com/c'']
   \<and> map snd (files (snd (captureConfirmationEmail MainPage ''/out/1'' ''1''
                             (on_page frame_fails_page))))
       = [FirstCandidate ''https://www.swoogo.com/c'']
   \<and> map fst (files (snd (captureConfirmationEmail MainPage ''/out/1'' ''1'' (on_page both_page))))
       = map fst (files (snd (captureConfirmationEmail MainPage ''/out/1'' ''1''
                                (on_page frame_fails_page))))
   \<and> logs (snd (captureConfirmationEmail MainPage ''/out/1'' ''1'' (on_page both_page)))
       = logs (snd (captureConfirmationEmail MainPage ''/out/1'' ''1'' (on_page frame_fails_page)))"
  using capture_both capture_frame_fails
  by (simp add: observed_def both_page_def frame_fails_page_def)

subsection \<open>A registrant without a numeric id\<close>





end
